theory Spec2Isabelle
  imports Complex_Main "HOL-Library.Sublist"
begin

section \<open>Data model: pandas frames as the education pipeline uses them\<close>

text \<open>
  The two modules under verification, \<^verbatim>\<open>data_processing.py\<close> (class
  \<^verbatim>\<open>UDISEDataProcessor\<close>) and \<^verbatim>\<open>analysis.py\<close> (class
  \<^verbatim>\<open>EducationPolicyAnalyzer\<close>), work on pandas \<^verbatim>\<open>DataFrame\<close>s. A frame is
  modelled column by column, as pandas stores it: every column has a label, a dtype and
  its cells. The dtypes are the ones \<^verbatim>\<open>read_csv\<close> yields (int64, float64, bool,
  object) and the string extension dtype that the code tests for by name.

  Numbers are exact rationals: the rounding of IEEE doubles is not modelled, so every
  statement about a quotient below is about the arithmetic the code writes down, read
  exactly. The sum of an int64 column is an int64 and wraps around as numpy's does.
  A boolean cell is the number 0 or 1, as Python counts it. \<open>NaN\<close> is the missing value.
  Column labels are ASCII strings.
\<close>

datatype cell = Num rat | Str string | NaN

datatype dtype = Int64 | Float64 | BoolD | Object | StringD

record column =
  cname :: string
  dtype :: dtype
  cells :: "cell list"

type_synonym dataframe = "column list"

datatype error = KeyError | ValueError | MergeError | TypeError | ZeroDivisionError

text \<open>\<^verbatim>\<open>df.columns\<close>, \<^verbatim>\<open>len(df)\<close> and \<^verbatim>\<open>df[name]\<close>. Frames carry unique
  column labels (the labels \<^verbatim>\<open>read_csv\<close> produces are), so \<^verbatim>\<open>df[name]\<close> is the
  column of that label and a label that is absent is a \<^verbatim>\<open>KeyError\<close>.\<close>

definition columns :: "dataframe \<Rightarrow> string list" where
  "columns df = map cname df"

definition len_df :: "dataframe \<Rightarrow> nat" where
  "len_df df = (case df of [] \<Rightarrow> 0 | c # _ \<Rightarrow> length (cells c))"

definition get_col :: "dataframe \<Rightarrow> string \<Rightarrow> column option" where
  "get_col df name = find (\<lambda>c. cname c = name) df"

definition rectangular :: "dataframe \<Rightarrow> bool" where
  "rectangular df = list_all (\<lambda>c. length (cells c) = len_df df) df"

subsection \<open>Strings\<close>

text \<open>\<^verbatim>\<open>str.lower()\<close> on ASCII text, and Python's substring test \<^verbatim>\<open>sub in s\<close>.\<close>

definition lower_char :: "char \<Rightarrow> char" where
  "lower_char c =
     (case map_of (zip ''ABCDEFGHIJKLMNOPQRSTUVWXYZ'' ''abcdefghijklmnopqrstuvwxyz'') c of
        Some l \<Rightarrow> l
      | None \<Rightarrow> c)"

definition lower :: "string \<Rightarrow> string" where
  "lower s = map lower_char s"

definition py_in :: "string \<Rightarrow> string \<Rightarrow> bool" where
  "py_in sub s = sublist sub s"

section \<open>data\_processing.py: merge\_datasets\<close>

text \<open>The candidate keys, in the order the source lists them.\<close>

definition possible_keys :: "string list" where
  "possible_keys = [''pseudocode'', ''School_Code'', ''DISE_Code'', ''UDISE_Code'',
                    ''school_code'', ''dise_code'', ''udise_code'', ''udisecode'']"

text \<open>The loop \<^verbatim>\<open>for key in possible_keys: if key in profile_df.columns: merge_key = key; break\<close>,
  starting from \<^verbatim>\<open>merge_key = None\<close>.\<close>

fun resolve_merge_key :: "string list \<Rightarrow> string list \<Rightarrow> string option" where
  "resolve_merge_key [] cols = None"
| "resolve_merge_key (key # keys) cols =
     (if key \<in> set cols then Some key else resolve_merge_key keys cols)"

subsection \<open>pandas: DataFrame.merge(right, on=key, how='left', suffixes=('', sfx))\<close>

text \<open>
  The library call the source makes three times, modelled as the pandas documentation
  describes a left join on one key column that both frames hold:
  \<^item> the rows of the left frame are kept, in their order; a left row gets one result row
    per right row with an equal key (in the right frame's order), and a single row with
    missing right cells when no right key is equal. Missing keys match each other, as
    they do in pandas;
  \<^item> the result has the left columns, then the right columns without the key. The left
    suffix is empty, so left labels stay; a right label that a left column already
    carries gets \<open>sfx\<close> appended;
  \<^item> a right column that received a missing cell is upcast as pandas does (int64 to
    float64, bool to object);
  \<^item> pandas refuses with \<^verbatim>\<open>ValueError\<close> to merge a text key with a numeric key (the
    test modelled is the one on the dtypes), and from version 2.0 with
    \<^verbatim>\<open>MergeError\<close> a suffix that makes two right labels equal.
\<close>

definition is_text :: "dtype \<Rightarrow> bool" where
  "is_text d = (d = Object \<or> d = StringD)"

definition is_number :: "dtype \<Rightarrow> bool" where
  "is_number d = (d = Int64 \<or> d = Float64)"

definition key_dtypes_clash :: "dtype \<Rightarrow> dtype \<Rightarrow> bool" where
  "key_dtypes_clash l r = ((is_text l \<and> is_number r) \<or> (is_number l \<and> is_text r))"

definition cell_at :: "cell list \<Rightarrow> nat \<Rightarrow> cell" where
  "cell_at xs i = (if i < length xs then xs ! i else NaN)"

definition match_rows :: "cell list \<Rightarrow> cell \<Rightarrow> nat list" where
  "match_rows rkeys k = map fst (filter (\<lambda>jx. snd jx = k) (enumerate 0 rkeys))"

definition join_row :: "cell list \<Rightarrow> nat \<times> cell \<Rightarrow> (nat \<times> nat option) list" where
  "join_row rkeys ik =
     (case match_rows rkeys (snd ik) of
        [] \<Rightarrow> [(fst ik, None)]
      | j # js \<Rightarrow> map (\<lambda>j'. (fst ik, Some j')) (j # js))"

definition left_join_index :: "cell list \<Rightarrow> cell list \<Rightarrow> (nat \<times> nat option) list" where
  "left_join_index lkeys rkeys = concat (map (join_row rkeys) (enumerate 0 lkeys))"

definition upcast :: "dtype \<Rightarrow> dtype" where
  "upcast d = (case d of Int64 \<Rightarrow> Float64 | BoolD \<Rightarrow> Object | _ \<Rightarrow> d)"

definition take_left :: "(nat \<times> nat option) list \<Rightarrow> column \<Rightarrow> column" where
  "take_left idx c = c\<lparr>cells := map (\<lambda>p. cell_at (cells c) (fst p)) idx\<rparr>"

definition take_right :: "(nat \<times> nat option) list \<Rightarrow> string \<Rightarrow> column \<Rightarrow> column" where
  "take_right idx label c =
     \<lparr>cname = label,
      dtype = (if None \<in> set (map snd idx) then upcast (dtype c) else dtype c),
      cells = map (\<lambda>p. case snd p of None \<Rightarrow> NaN | Some j \<Rightarrow> cell_at (cells c) j) idx\<rparr>"

definition right_label :: "string list \<Rightarrow> string \<Rightarrow> string \<Rightarrow> string" where
  "right_label left_names sfx n = (if n \<in> set left_names then n @ sfx else n)"

definition pd_merge :: "dataframe \<Rightarrow> dataframe \<Rightarrow> string \<Rightarrow> string \<Rightarrow> error + dataframe" where
  "pd_merge left right on sfx =
     (case (get_col left on, get_col right on) of
        (Some lk, Some rk) \<Rightarrow>
          if key_dtypes_clash (dtype lk) (dtype rk) then Inl ValueError
          else
            let rcols = filter (\<lambda>c. cname c \<noteq> on) right;
                rlabels = map (\<lambda>c. right_label (columns left) sfx (cname c)) rcols
            in if \<not> distinct rlabels then Inl MergeError
               else
                 let idx = left_join_index (cells lk) (cells rk)
                 in Inr (map (take_left idx) left @
                         map (\<lambda>c. take_right idx (right_label (columns left) sfx (cname c)) c) rcols)
      | _ \<Rightarrow> Inl KeyError)"

subsection \<open>merge\_datasets\<close>

text \<open>
  One of the three guarded statements
  \<^verbatim>\<open>if X is not None and merge_key in X.columns: merged_df = merged_df.merge(X, on=merge_key, how='left', suffixes=('', sfx))\<close>.
  An absent frame is \<open>None\<close>.
\<close>

definition merge_if_present ::
  "dataframe \<Rightarrow> dataframe option \<Rightarrow> string \<Rightarrow> string \<Rightarrow> error + dataframe" where
  "merge_if_present merged_df x merge_key sfx =
     (case x of
        None \<Rightarrow> Inr merged_df
      | Some x_df \<Rightarrow>
          if merge_key \<in> set (columns x_df) then pd_merge merged_df x_df merge_key sfx
          else Inr merged_df)"

text \<open>The three statements in sequence (enrolment, facility, teacher); an exception of
  pandas ends the call.\<close>

definition merge_with_key ::
  "dataframe \<Rightarrow> dataframe option \<Rightarrow> dataframe option \<Rightarrow> dataframe option \<Rightarrow> string
     \<Rightarrow> error + dataframe" where
  "merge_with_key merged_df enrolment_df facility_df teacher_df merge_key =
     (case merge_if_present merged_df enrolment_df merge_key ''_enrol'' of
        Inl e \<Rightarrow> Inl e
      | Inr m1 \<Rightarrow>
          (case merge_if_present m1 facility_df merge_key ''_facility'' of
             Inl e \<Rightarrow> Inl e
           | Inr m2 \<Rightarrow> merge_if_present m2 teacher_df merge_key ''_teacher''))"

definition no_key_warning :: string where
  "no_key_warning = ''Warning: No common merge key found. Using index merge.''"

text \<open>
  \<^verbatim>\<open>merge_datasets(profile_df, enrolment_df, facility_df, teacher_df)\<close>. The result is
  the list of lines printed and what the call returns or raises. \<^verbatim>\<open>profile_df.copy()\<close>
  is a frame with the same contents; the objects themselves are the subject of the
  heap model further down. The parameter \<^verbatim>\<open>merge_key\<close> of the source is overwritten
  before it is read, so it is no parameter here.
\<close>

definition merge_datasets ::
  "dataframe \<Rightarrow> dataframe option \<Rightarrow> dataframe option \<Rightarrow> dataframe option
     \<Rightarrow> string list \<times> (error + dataframe)" where
  "merge_datasets profile_df enrolment_df facility_df teacher_df =
     (let merged_df = profile_df in
      case resolve_merge_key possible_keys (columns profile_df) of
        None \<Rightarrow> ([no_key_warning], Inr merged_df)
      | Some merge_key \<Rightarrow>
          ([], merge_with_key merged_df enrolment_df facility_df teacher_df merge_key))"

subsection \<open>The hypotheses of the row-count property\<close>

text \<open>
  Vocabulary for the statements about \<open>merge_datasets\<close>. \<open>key_cells df k\<close> is the key
  column's values. A secondary frame takes part in the join (\<open>joins\<close>) when it is present
  and holds the key; \<open>unique_keys\<close> says that a present secondary frame has no key value
  twice; \<open>mergeable\<close> is a condition under which pandas accepts the operands: the key dtypes
  do not clash, the secondary labels are unique and none of them ends in the suffix of its
  source.
\<close>

definition key_cells :: "dataframe \<Rightarrow> string \<Rightarrow> cell list" where
  "key_cells df k = (case get_col df k of None \<Rightarrow> [] | Some c \<Rightarrow> cells c)"

definition joins :: "string \<Rightarrow> dataframe option \<Rightarrow> bool" where
  "joins k x = (case x of None \<Rightarrow> False | Some s \<Rightarrow> k \<in> set (columns s))"

definition unique_keys :: "string \<Rightarrow> dataframe option \<Rightarrow> bool" where
  "unique_keys k x = (case x of None \<Rightarrow> True | Some s \<Rightarrow> distinct (key_cells s k))"

definition mergeable :: "dtype \<Rightarrow> string \<Rightarrow> string \<Rightarrow> dataframe option \<Rightarrow> bool" where
  "mergeable kd k sfx x =
     (case x of
        None \<Rightarrow> True
      | Some s \<Rightarrow>
          (case get_col s k of
             None \<Rightarrow> True
           | Some sk \<Rightarrow> \<not> key_dtypes_clash kd (dtype sk) \<and> distinct (columns s)
                        \<and> list_all (\<lambda>n. \<not> suffix sfx n) (columns s)))"

subsection \<open>merge\_datasets on objects\<close>

text \<open>
  Python passes frames by reference, so whether the caller's frames survive the call is a
  question about objects. The store is the list of frame objects allocated so far and a
  reference is an index into it. The two pandas operations that \<open>merge_datasets\<close> calls
  are documented to build a new frame and to leave their operands alone:
  \<^verbatim>\<open>DataFrame.copy()\<close> and \<^verbatim>\<open>DataFrame.merge(...)\<close>; the source itself assigns to the
  local variable \<^verbatim>\<open>merged_df\<close> only and to no cell, column or attribute of a frame. The
  functions below are \<open>merge_if_present\<close>, \<open>merge_with_key\<close> and \<open>merge_datasets\<close> again,
  statement for statement, with the store threaded through.
\<close>

type_synonym ref = nat

type_synonym heap = "dataframe list"

definition alloc :: "heap \<Rightarrow> dataframe \<Rightarrow> heap \<times> ref" where
  "alloc h df = (h @ [df], length h)"

definition df_copy :: "heap \<Rightarrow> ref \<Rightarrow> heap \<times> ref" where
  "df_copy h r = alloc h (h ! r)"

definition df_merge :: "heap \<Rightarrow> ref \<Rightarrow> ref \<Rightarrow> string \<Rightarrow> string \<Rightarrow> heap \<times> (error + ref)" where
  "df_merge h l r on sfx =
     (case pd_merge (h ! l) (h ! r) on sfx of
        Inl e \<Rightarrow> (h, Inl e)
      | Inr m \<Rightarrow> (case alloc h m of (h', r') \<Rightarrow> (h', Inr r')))"

definition merge_if_present_heap ::
  "heap \<Rightarrow> ref \<Rightarrow> ref option \<Rightarrow> string \<Rightarrow> string \<Rightarrow> heap \<times> (error + ref)" where
  "merge_if_present_heap h merged_df x merge_key sfx =
     (case x of
        None \<Rightarrow> (h, Inr merged_df)
      | Some x_df \<Rightarrow>
          if merge_key \<in> set (columns (h ! x_df)) then df_merge h merged_df x_df merge_key sfx
          else (h, Inr merged_df))"

definition merge_with_key_heap ::
  "heap \<Rightarrow> ref \<Rightarrow> ref option \<Rightarrow> ref option \<Rightarrow> ref option \<Rightarrow> string \<Rightarrow> heap \<times> (error + ref)" where
  "merge_with_key_heap h merged_df enrolment_df facility_df teacher_df merge_key =
     (case merge_if_present_heap h merged_df enrolment_df merge_key ''_enrol'' of
        (h1, Inl e) \<Rightarrow> (h1, Inl e)
      | (h1, Inr m1) \<Rightarrow>
          (case merge_if_present_heap h1 m1 facility_df merge_key ''_facility'' of
             (h2, Inl e) \<Rightarrow> (h2, Inl e)
           | (h2, Inr m2) \<Rightarrow> merge_if_present_heap h2 m2 teacher_df merge_key ''_teacher''))"

definition merge_datasets_heap ::
  "heap \<Rightarrow> ref \<Rightarrow> ref option \<Rightarrow> ref option \<Rightarrow> ref option
     \<Rightarrow> heap \<times> string list \<times> (error + ref)" where
  "merge_datasets_heap h profile_df enrolment_df facility_df teacher_df =
     (case df_copy h profile_df of
        (h0, merged_df) \<Rightarrow>
          (case resolve_merge_key possible_keys (columns (h0 ! profile_df)) of
             None \<Rightarrow> (h0, [no_key_warning], Inr merged_df)
           | Some merge_key \<Rightarrow>
               (case merge_with_key_heap h0 merged_df enrolment_df facility_df teacher_df merge_key of
                  (h', res) \<Rightarrow> (h', [], res))))"

text \<open>A reference that points into the store (\<open>None\<close> points nowhere and is fine); a
  store that extends another keeps every object of it at its place, unchanged; and the
  frame a returned reference stands for.\<close>

definition valid_ref :: "heap \<Rightarrow> ref option \<Rightarrow> bool" where
  "valid_ref h x = (case x of None \<Rightarrow> True | Some r \<Rightarrow> r < length h)"

definition extends :: "heap \<Rightarrow> heap \<Rightarrow> bool" where
  "extends h h' = (length h \<le> length h' \<and> take (length h) h' = h)"

definition at_ref :: "heap \<Rightarrow> error + ref \<Rightarrow> error + dataframe" where
  "at_ref h res = (case res of Inl e \<Rightarrow> Inl e | Inr r \<Rightarrow> Inr (h ! r))"

section \<open>analysis.py: EducationPolicyAnalyzer\<close>

text \<open>
  The analyzer holds one frame, \<^verbatim>\<open>self.df\<close>, which is \<open>None\<close> when the object was built
  without data. Every method below takes it as its first argument. A method returns
  \<open>Inl\<close> of the exception it raises or \<open>Inr\<close> of its value, and Python's \<open>None\<close> as a
  return value is \<open>Inr None\<close>.
\<close>

subsection \<open>pandas and numpy: sums, division, grouping\<close>

text \<open>
  \<^verbatim>\<open>Series.sum()\<close> skips missing cells. On numbers it is their sum, formed in the
  column's dtype: the sum of an int64 (or bool) column is an int64 and wraps around
  modulo \<open>2^64\<close> as numpy's integer addition does, the sum of a float64 column is exact here,
  and the Python numbers of an object column add without bound. On an object column that
  holds only strings the sum is their concatenation, which is no error yet; on a mix of
  strings with numbers or missing cells Python's addition raises \<^verbatim>\<open>TypeError\<close>.
\<close>

datatype total = Number rat | Text string

definition is_str :: "cell \<Rightarrow> bool" where
  "is_str c = (case c of Str _ \<Rightarrow> True | _ \<Rightarrow> False)"

definition num_of :: "cell \<Rightarrow> rat" where
  "num_of c = (case c of Num r \<Rightarrow> r | _ \<Rightarrow> 0)"

definition str_of :: "cell \<Rightarrow> string" where
  "str_of c = (case c of Str s \<Rightarrow> s | _ \<Rightarrow> [])"

text \<open>The value of an integer as a signed 64-bit number: the one number of
  \<open>[-2^63, 2^63)\<close> that differs from it by a multiple of \<open>2^64\<close>.\<close>

definition wrap64 :: "rat \<Rightarrow> rat" where
  "wrap64 x = x - 2 ^ 64 * of_int \<lfloor>(x + 2 ^ 63) / 2 ^ 64\<rfloor>"

definition is_int_dtype :: "dtype \<Rightarrow> bool" where
  "is_int_dtype d = (d = Int64 \<or> d = BoolD)"

definition series_sum :: "dtype \<Rightarrow> cell list \<Rightarrow> error + total" where
  "series_sum d xs =
     (if \<not> list_ex is_str xs then
        Inr (Number (if is_int_dtype d then wrap64 (sum_list (map num_of xs))
                     else sum_list (map num_of xs)))
      else if list_all is_str xs then Inr (Text (concat (map str_of xs)))
      else Inl TypeError)"

text \<open>A value of pandas arithmetic: one number, or a \<^verbatim>\<open>Series\<close> with one entry per row.\<close>

datatype 'a pdval = Scalar 'a | Series "'a list"

text \<open>\<^verbatim>\<open>df[name]\<close> and \<^verbatim>\<open>df[names]\<close>; a label that is absent raises \<^verbatim>\<open>KeyError\<close>.\<close>

definition select_col :: "dataframe \<Rightarrow> string \<Rightarrow> error + column" where
  "select_col df name = (case get_col df name of None \<Rightarrow> Inl KeyError | Some c \<Rightarrow> Inr c)"

fun select_cols :: "dataframe \<Rightarrow> string list \<Rightarrow> error + column list" where
  "select_cols df [] = Inr []"
| "select_cols df (n # ns) =
     (case select_col df n of
        Inl e \<Rightarrow> Inl e
      | Inr c \<Rightarrow> (case select_cols df ns of Inl e \<Rightarrow> Inl e | Inr cs \<Rightarrow> Inr (c # cs)))"

text \<open>The rows of a selection of columns of a frame with \<open>n\<close> rows, and
  \<^verbatim>\<open>DataFrame.sum(axis=1)\<close>: the sum of every row, as \<^verbatim>\<open>Series.sum()\<close> forms it in
  the common dtype of the columns (int64 when all are integer columns, float64 when all
  are numeric, object otherwise).\<close>

definition rows_of :: "nat \<Rightarrow> column list \<Rightarrow> cell list list" where
  "rows_of n cs = map (\<lambda>i. map (\<lambda>c. cell_at (cells c) i) cs) [0..<n]"

definition row_dtype :: "dtype list \<Rightarrow> dtype" where
  "row_dtype ds =
     (if list_all is_int_dtype ds then Int64
      else if list_all (\<lambda>d. is_int_dtype d \<or> d = Float64) ds then Float64
      else Object)"

fun sum_each :: "dtype \<Rightarrow> cell list list \<Rightarrow> error + total list" where
  "sum_each d [] = Inr []"
| "sum_each d (r # rs) =
     (case series_sum d r of
        Inl e \<Rightarrow> Inl e
      | Inr t \<Rightarrow> (case sum_each d rs of Inl e \<Rightarrow> Inl e | Inr ts \<Rightarrow> Inr (t # ts)))"

text \<open>Arithmetic with a float needs numbers: a string operand raises \<^verbatim>\<open>TypeError\<close>.\<close>

definition number :: "total \<Rightarrow> error + rat" where
  "number t = (case t of Number r \<Rightarrow> Inr r | Text _ \<Rightarrow> Inl TypeError)"

fun numbers :: "total list \<Rightarrow> error + rat list" where
  "numbers [] = Inr []"
| "numbers (t # ts) =
     (case number t of
        Inl e \<Rightarrow> Inl e
      | Inr r \<Rightarrow> (case numbers ts of Inl e \<Rightarrow> Inl e | Inr rs \<Rightarrow> Inr (r # rs)))"

definition numeric :: "total pdval \<Rightarrow> error + rat pdval" where
  "numeric v =
     (case v of
        Scalar t \<Rightarrow> (case number t of Inl e \<Rightarrow> Inl e | Inr r \<Rightarrow> Inr (Scalar r))
      | Series ts \<Rightarrow> (case numbers ts of Inl e \<Rightarrow> Inl e | Inr rs \<Rightarrow> Inr (Series rs)))"

text \<open>
  Division of numpy numbers never raises: a zero divisor gives \<^verbatim>\<open>inf\<close> or \<^verbatim>\<open>nan\<close>,
  which is \<open>NonFinite\<close> here. \<open>eps\<close> is the constant \<^verbatim>\<open>1e-10\<close> of the source.
\<close>

datatype fl = Fin rat | NonFinite

definition np_div :: "rat \<Rightarrow> rat \<Rightarrow> fl" where
  "np_div a b = (if b = 0 then NonFinite else Fin (a / b))"

definition eps :: rat where
  "eps = 1 / 10 ^ 10"

definition pd_add :: "rat pdval \<Rightarrow> rat \<Rightarrow> rat pdval" where
  "pd_add v e = (case v of Scalar x \<Rightarrow> Scalar (x + e) | Series xs \<Rightarrow> Series (map (\<lambda>x. x + e) xs))"

definition pd_div :: "rat pdval \<Rightarrow> rat pdval \<Rightarrow> fl pdval" where
  "pd_div a b =
     (case (a, b) of
        (Scalar x, Scalar y) \<Rightarrow> Scalar (np_div x y)
      | (Scalar x, Series ys) \<Rightarrow> Series (map (\<lambda>y. np_div x y) ys)
      | (Series xs, Scalar y) \<Rightarrow> Series (map (\<lambda>x. np_div x y) xs)
      | (Series xs, Series ys) \<Rightarrow> Series (map (\<lambda>xy. np_div (fst xy) (snd xy)) (zip xs ys)))"

text \<open>
  A \<^verbatim>\<open>Series\<close> indexed by labels is a finite map from the label to the entry; the order
  in which pandas lists the labels is not part of the model. \<^verbatim>\<open>groupby(col).size()\<close>
  counts the rows of every value of the column and \<^verbatim>\<open>value_counts()\<close> the occurrences
  of every value; both leave the missing value out.
\<close>

definition group_sizes :: "'a list \<Rightarrow> 'a \<Rightarrow> 'a \<rightharpoonup> nat" where
  "group_sizes keys na = (\<lambda>k. if k \<noteq> na \<and> k \<in> set keys then Some (count_list keys k) else None)"

definition value_counts :: "cell list \<Rightarrow> cell \<rightharpoonup> nat" where
  "value_counts xs = group_sizes xs NaN"

text \<open>The cells of a column in the rows of one group.\<close>

definition group_cells :: "cell list \<Rightarrow> cell list \<Rightarrow> cell \<Rightarrow> cell list" where
  "group_cells keys vals k = map snd (filter (\<lambda>kv. fst kv = k) (zip keys vals))"

subsection \<open>The keyword tests on column labels\<close>

text \<open>The conditions of the list comprehensions of \<^verbatim>\<open>calculate_enrolment_metrics\<close>,
  \<^verbatim>\<open>calculate_teacher_student_ratio\<close> and \<^verbatim>\<open>analyze_facility_availability\<close>.\<close>

definition is_gender_name :: "string \<Rightarrow> bool" where
  "is_gender_name col = (py_in ''girl'' (lower col) \<or> py_in ''female'' (lower col)
                         \<or> py_in ''boy'' (lower col) \<or> py_in ''male'' (lower col))"

definition is_girls_name :: "string \<Rightarrow> bool" where
  "is_girls_name col = (py_in ''girl'' (lower col) \<or> py_in ''female'' (lower col))"

definition is_boys_name :: "string \<Rightarrow> bool" where
  "is_boys_name col = (py_in ''boy'' (lower col) \<or> py_in ''male'' (lower col))"

definition is_teacher_name :: "string \<Rightarrow> bool" where
  "is_teacher_name col = py_in ''teacher'' (lower col)"

definition is_student_name :: "string \<Rightarrow> bool" where
  "is_student_name col = (py_in ''student'' (lower col) \<or> py_in ''enrolment'' (lower col)
                          \<or> py_in ''enrolled'' (lower col))"

definition facility_keywords :: "string list" where
  "facility_keywords = [''toilet'', ''water'', ''library'', ''computer'', ''internet'', ''electricity'']"

definition is_facility_name :: "string \<Rightarrow> bool" where
  "is_facility_name col = list_ex (\<lambda>keyword. py_in keyword (lower col)) facility_keywords"

subsection \<open>calculate\_enrolment\_metrics\<close>

text \<open>
  \<^verbatim>\<open>groupby([state_col, district_col]).size()\<close>. When both labels are columns the
  rows are grouped by the pairs of their values, rows with a missing value left out. When
  one of them is no column, pandas looks at the length of the list: for a frame of exactly
  two rows it reads the two strings as the group labels of the two rows, so the result
  counts the labels themselves and nothing is raised; for any other number of rows it
  raises \<^verbatim>\<open>KeyError\<close>.
\<close>

datatype district_sizes = ByStateDistrict "cell \<times> cell \<rightharpoonup> nat" | ByLabel "string \<rightharpoonup> nat"

definition groupby_pair_size :: "dataframe \<Rightarrow> string \<Rightarrow> string \<Rightarrow> error + district_sizes" where
  "groupby_pair_size df state_col district_col =
     (if state_col \<in> set (columns df) \<and> district_col \<in> set (columns df) then
        Inr (ByStateDistrict
               (\<lambda>sd. if fst sd \<noteq> NaN \<and> snd sd \<noteq> NaN
                         \<and> sd \<in> set (zip (key_cells df state_col) (key_cells df district_col))
                      then Some (count_list (zip (key_cells df state_col)
                                                 (key_cells df district_col)) sd)
                      else None))
      else if len_df df = 2 then
        Inr (ByLabel (\<lambda>l. if l \<in> set [state_col, district_col]
                           then Some (count_list [state_col, district_col] l) else None))
      else Inl KeyError)"

text \<open>The dictionary \<^verbatim>\<open>metrics\<close>: a key that was never assigned is \<open>None\<close>.\<close>

record metrics =
  gender_parity_index :: "fl pdval option"
  state_enrolment :: "(cell \<rightharpoonup> nat) option"
  district_enrolment :: "district_sizes option"

text \<open>\<^verbatim>\<open>self.df[cols[0]].sum() if len(cols) == 1 else self.df[cols].sum(axis=1)\<close>:
  one column gives the total of the column, several give one sum per row.\<close>

definition role_total :: "dataframe \<Rightarrow> string list \<Rightarrow> error + total pdval" where
  "role_total df cols =
     (if length cols = 1 then
        (case select_col df (hd cols) of
           Inl e \<Rightarrow> Inl e
         | Inr c \<Rightarrow>
             (case series_sum (dtype c) (cells c) of Inl e \<Rightarrow> Inl e | Inr t \<Rightarrow> Inr (Scalar t)))
      else
        (case select_cols df cols of
           Inl e \<Rightarrow> Inl e
         | Inr cs \<Rightarrow>
             (case sum_each (row_dtype (map dtype cs)) (rows_of (len_df df) cs) of
                Inl e \<Rightarrow> Inl e
              | Inr ts \<Rightarrow> Inr (Series ts))))"

text \<open>\<^verbatim>\<open>girls_total / (boys_total + 1e-10)\<close>.\<close>

definition parity :: "total pdval \<Rightarrow> total pdval \<Rightarrow> error + fl pdval" where
  "parity girls_total boys_total =
     (case numeric boys_total of
        Inl e \<Rightarrow> Inl e
      | Inr b \<Rightarrow>
          (case numeric girls_total of
             Inl e \<Rightarrow> Inl e
           | Inr g \<Rightarrow> Inr (pd_div g (pd_add b eps))))"

text \<open>The block \<^verbatim>\<open>if len(gender_cols) >= 2: ...\<close>: the value stored under
  \<^verbatim>\<open>'gender_parity_index'\<close>, if any.\<close>

definition gender_parity :: "dataframe \<Rightarrow> string list \<Rightarrow> error + fl pdval option" where
  "gender_parity df gender_cols =
     (if length gender_cols \<ge> 2 then
        (let girls_col = filter is_girls_name gender_cols;
             boys_col = filter is_boys_name gender_cols
         in if girls_col \<noteq> [] \<and> boys_col \<noteq> [] then
              (case role_total df girls_col of
                 Inl e \<Rightarrow> Inl e
               | Inr girls_total \<Rightarrow>
                   (case role_total df boys_col of
                      Inl e \<Rightarrow> Inl e
                    | Inr boys_total \<Rightarrow>
                        (case parity girls_total boys_total of
                           Inl e \<Rightarrow> Inl e
                         | Inr v \<Rightarrow> Inr (Some v))))
            else Inr None)
      else Inr None)"

text \<open>
  \<^verbatim>\<open>calculate_enrolment_metrics(state_col, district_col, gender_cols)\<close>; the defaults of
  the source are \<^verbatim>\<open>'State'\<close>, \<^verbatim>\<open>'District'\<close> and \<open>None\<close>. The parameter
  \<^verbatim>\<open>class_cols\<close> is never read. The district entry is guarded by
  \<^verbatim>\<open>district_col in self.df.columns\<close> alone.
\<close>

definition calculate_enrolment_metrics ::
  "dataframe option \<Rightarrow> string \<Rightarrow> string \<Rightarrow> string list option \<Rightarrow> error + metrics option" where
  "calculate_enrolment_metrics self_df state_col district_col gender_cols_arg =
     (case self_df of
        None \<Rightarrow> Inr None
      | Some df \<Rightarrow>
          (let gender_cols =
                 (case gender_cols_arg of
                    None \<Rightarrow> filter is_gender_name (columns df)
                  | Some cols \<Rightarrow> cols)
           in case gender_parity df gender_cols of
                Inl e \<Rightarrow> Inl e
              | Inr gpi \<Rightarrow>
                  (let by_state =
                         (if state_col \<in> set (columns df)
                          then Some (group_sizes (key_cells df state_col) NaN) else None)
                   in if district_col \<in> set (columns df) then
                        (case groupby_pair_size df state_col district_col of
                           Inl e \<Rightarrow> Inl e
                         | Inr by_district \<Rightarrow>
                             Inr (Some \<lparr>gender_parity_index = gpi, state_enrolment = by_state,
                                        district_enrolment = Some by_district\<rparr>))
                      else Inr (Some \<lparr>gender_parity_index = gpi, state_enrolment = by_state,
                                       district_enrolment = None\<rparr>))))"

subsection \<open>calculate\_teacher\_student\_ratio\<close>

definition state_aliases :: "string list" where
  "state_aliases = [''State'', ''state'', ''STATE'', ''State_Name'']"

text \<open>The loop \<^verbatim>\<open>for col in ['State', 'state', 'STATE', 'State_Name']: if col in self.df.columns: state_col = col; break\<close>.\<close>

fun find_state_col :: "string list \<Rightarrow> string list \<Rightarrow> string option" where
  "find_state_col [] cols = None"
| "find_state_col (col # rest) cols =
     (if col \<in> set cols then Some col else find_state_col rest cols)"

text \<open>One row of the frame \<^verbatim>\<open>aggregated\<close>: the two sums of a state and its \<^verbatim>\<open>TSR\<close>.\<close>

record tsr_row =
  teacher_sum :: rat
  student_sum :: rat
  tsr :: fl

text \<open>The row of state \<open>s\<close>: \<^verbatim>\<open>groupby(state_col).agg({teacher: 'sum', student: 'sum'})\<close>
  and then \<^verbatim>\<open>aggregated[student] / (aggregated[teacher] + 1e-10)\<close>. The sums are
  formed in the dtypes of the two columns.\<close>

definition tsr_of_state :: "cell list \<Rightarrow> column \<Rightarrow> column \<Rightarrow> cell \<Rightarrow> error + tsr_row" where
  "tsr_of_state states teacher student s =
     (case series_sum (dtype teacher) (group_cells states (cells teacher) s) of
        Inl e \<Rightarrow> Inl e
      | Inr tt \<Rightarrow>
          (case series_sum (dtype student) (group_cells states (cells student) s) of
             Inl e \<Rightarrow> Inl e
           | Inr st \<Rightarrow>
               (case number tt of
                  Inl e \<Rightarrow> Inl e
                | Inr t \<Rightarrow>
                    (case number st of
                       Inl e \<Rightarrow> Inl e
                     | Inr u \<Rightarrow> Inr \<lparr>teacher_sum = t, student_sum = u, tsr = np_div u (t + eps)\<rparr>))))"

text \<open>The states of the frame: the values of the state column but the missing one.\<close>

definition group_keys :: "cell list \<Rightarrow> cell list" where
  "group_keys states = remdups (filter (\<lambda>s. s \<noteq> NaN) states)"

definition calculate_teacher_student_ratio ::
  "dataframe option \<Rightarrow> error + (cell \<rightharpoonup> tsr_row) option" where
  "calculate_teacher_student_ratio self_df =
     (case self_df of
        None \<Rightarrow> Inr None
      | Some df \<Rightarrow>
          (let teacher_cols = filter is_teacher_name (columns df);
               student_cols = filter is_student_name (columns df)
           in if teacher_cols = [] \<or> student_cols = [] then Inr None
              else
                (case find_state_col state_aliases (columns df) of
                   None \<Rightarrow> Inr None
                 | Some state_col \<Rightarrow>
                     (case select_col df (hd teacher_cols) of
                        Inl e \<Rightarrow> Inl e
                      | Inr teacher \<Rightarrow>
                          (case select_col df (hd student_cols) of
                             Inl e \<Rightarrow> Inl e
                           | Inr student \<Rightarrow>
                               (let states = key_cells df state_col
                                in if list_ex (\<lambda>s. isl (tsr_of_state states teacher student s))
                                        (group_keys states)
                                   then Inl TypeError
                                   else Inr (Some (\<lambda>s. if s \<in> set (group_keys states)
                                                        then (case tsr_of_state states teacher student s of
                                                                Inl e \<Rightarrow> None
                                                              | Inr row \<Rightarrow> Some row)
                                                        else None))))))))"

subsection \<open>analyze\_facility\_availability\<close>

text \<open>An entry of \<^verbatim>\<open>facility_analysis\<close>: the \<^verbatim>\<open>value_counts()\<close> of a text column, or
  the dictionary with \<^verbatim>\<open>'available'\<close> and \<^verbatim>\<open>'percentage'\<close>.\<close>

datatype facility_entry = ValueCounts "cell \<rightharpoonup> nat" | Availability nat fl

text \<open>\<^verbatim>\<open>(self.df[col] > 0).sum()\<close>: the number of cells that hold a number greater
  than 0; a missing cell is not greater than 0.\<close>

definition count_positive :: "cell list \<Rightarrow> nat" where
  "count_positive xs = length (filter (\<lambda>c. case c of Num r \<Rightarrow> r > 0 | _ \<Rightarrow> False) xs)"

text \<open>
  \<^verbatim>\<open>available / total\<close>. The count of an int64 or float64 column is a numpy integer,
  whose division by zero gives \<^verbatim>\<open>nan\<close> or \<^verbatim>\<open>inf\<close>; for any other dtype
  \<^verbatim>\<open>available\<close> is the Python integer 0, whose division by zero raises
  \<^verbatim>\<open>ZeroDivisionError\<close>. \<open>fl_times\<close> is the multiplication by 100 that follows.
\<close>

definition true_div :: "bool \<Rightarrow> rat \<Rightarrow> rat \<Rightarrow> error + fl" where
  "true_div numpy a b =
     (if b = 0 then (if numpy then Inr NonFinite else Inl ZeroDivisionError)
      else Inr (Fin (a / b)))"

definition fl_times :: "fl \<Rightarrow> rat \<Rightarrow> fl" where
  "fl_times x k = (case x of Fin r \<Rightarrow> Fin (r * k) | NonFinite \<Rightarrow> NonFinite)"

definition facility_entry_of :: "dataframe \<Rightarrow> column \<Rightarrow> error + facility_entry" where
  "facility_entry_of df c =
     (if dtype c = Object \<or> dtype c = StringD then Inr (ValueCounts (value_counts (cells c)))
      else
        (let total = len_df df;
             numpy = (dtype c = Int64 \<or> dtype c = Float64);
             available = (if numpy then count_positive (cells c) else 0)
         in if total > 0 then
              (case true_div numpy (of_nat available) (of_nat total) of
                 Inl e \<Rightarrow> Inl e
               | Inr q \<Rightarrow> Inr (Availability available (fl_times q 100)))
            else Inr (Availability available (Fin 0))))"

text \<open>The loop \<^verbatim>\<open>for col in facility_cols:\<close> over the dictionary built so far.\<close>

fun facility_loop ::
  "dataframe \<Rightarrow> string list \<Rightarrow> (string \<rightharpoonup> facility_entry) \<Rightarrow> error + (string \<rightharpoonup> facility_entry)" where
  "facility_loop df [] facility_analysis = Inr facility_analysis"
| "facility_loop df (col # cols) facility_analysis =
     (case select_col df col of
        Inl e \<Rightarrow> Inl e
      | Inr c \<Rightarrow>
          (case facility_entry_of df c of
             Inl e \<Rightarrow> Inl e
           | Inr entry \<Rightarrow> facility_loop df cols (facility_analysis(col \<mapsto> entry))))"

definition analyze_facility_availability ::
  "dataframe option \<Rightarrow> string list option \<Rightarrow> error + (string \<rightharpoonup> facility_entry) option" where
  "analyze_facility_availability self_df facility_cols_arg =
     (case self_df of
        None \<Rightarrow> Inr None
      | Some df \<Rightarrow>
          (let facility_cols =
                 (case facility_cols_arg of
                    None \<Rightarrow> filter is_facility_name (columns df)
                  | Some cols \<Rightarrow> cols)
           in case facility_loop df facility_cols Map.empty of
                Inl e \<Rightarrow> Inl e
              | Inr facility_analysis \<Rightarrow> Inr (Some facility_analysis)))"

section \<open>Example frames\<close>

text \<open>The scenario of the specification: three schools, and teacher counts for two.\<close>

definition profile_ex :: dataframe where
  "profile_ex =
     [\<lparr>cname = ''School_Code'', dtype = Object, cells = [Str ''A'', Str ''B'', Str ''C'']\<rparr>,
      \<lparr>cname = ''State'', dtype = Object, cells = [Str ''Goa'', Str ''Goa'', Str ''Bihar'']\<rparr>]"

definition teacher_ex :: dataframe where
  "teacher_ex =
     [\<lparr>cname = ''School_Code'', dtype = Object, cells = [Str ''A'', Str ''B'']\<rparr>,
      \<lparr>cname = ''Teacher_Count'', dtype = Int64, cells = [Num 5, Num 10]\<rparr>]"

text \<open>A frame without any of the key aliases.\<close>

definition keyless_ex :: dataframe where
  "keyless_ex =
     [\<lparr>cname = ''State'', dtype = Object, cells = [Str ''Goa'', Str ''Bihar'']\<rparr>]"

text \<open>Teacher records that name school A twice.\<close>

definition teacher_dup_ex :: dataframe where
  "teacher_dup_ex =
     [\<lparr>cname = ''School_Code'', dtype = Object, cells = [Str ''A'', Str ''A'']\<rparr>,
      \<lparr>cname = ''Teacher_Count'', dtype = Int64, cells = [Num 5, Num 7]\<rparr>]"

text \<open>A frame for the facility analysis: a numeric facility column with the values of the
  specification's example and a categorical one with a missing cell.\<close>

definition facility_ex :: dataframe where
  "facility_ex =
     [\<lparr>cname = ''State'', dtype = Object, cells = [Str ''Goa'', Str ''Goa'', Str ''Bihar'', Str ''Bihar'']\<rparr>,
      \<lparr>cname = ''Computer_Count'', dtype = Int64, cells = [Num 0, Num 0, Num 5, Num 3]\<rparr>,
      \<lparr>cname = ''Drinking_Water'', dtype = Object, cells = [Str ''Yes'', Str ''No'', Str ''Yes'', NaN]\<rparr>]"

text \<open>A frame without rows that has two facility columns.\<close>

definition facility_empty_ex :: dataframe where
  "facility_empty_ex =
     [\<lparr>cname = ''Computer_Count'', dtype = Float64, cells = []\<rparr>,
      \<lparr>cname = ''Has_Toilet'', dtype = BoolD, cells = []\<rparr>]"

text \<open>Frames for the teacher-student ratio: one with a state column, one without any of
  the state aliases, one whose teacher column holds names, and one whose teacher counts
  add up to \<open>2^63\<close>.\<close>

definition tsr_ex :: dataframe where
  "tsr_ex =
     [\<lparr>cname = ''State'', dtype = Object, cells = [Str ''Goa'', Str ''Goa'', Str ''Bihar'']\<rparr>,
      \<lparr>cname = ''Total_Teachers'', dtype = Int64, cells = [Num 2, Num 3, Num 5]\<rparr>,
      \<lparr>cname = ''Total_Students'', dtype = Int64, cells = [Num 40, Num 60, Num 100]\<rparr>]"

definition stateless_ex :: dataframe where
  "stateless_ex =
     [\<lparr>cname = ''School_Code'', dtype = Object, cells = [Str ''A'', Str ''B'']\<rparr>,
      \<lparr>cname = ''Total_Teachers'', dtype = Int64, cells = [Num 2, Num 3]\<rparr>,
      \<lparr>cname = ''Total_Students'', dtype = Int64, cells = [Num 40, Num 60]\<rparr>]"

definition teacher_name_ex :: dataframe where
  "teacher_name_ex =
     [\<lparr>cname = ''State'', dtype = Object, cells = [Str ''Goa'', Str ''Goa'', Str ''Bihar'']\<rparr>,
      \<lparr>cname = ''Teacher_Name'', dtype = Object, cells = [Str ''Asha'', Str ''Ravi'', Str ''Mina'']\<rparr>,
      \<lparr>cname = ''Total_Students'', dtype = Int64, cells = [Num 40, Num 60, Num 100]\<rparr>]"

definition tsr_overflow_ex :: dataframe where
  "tsr_overflow_ex =
     [\<lparr>cname = ''State'', dtype = Object, cells = [Str ''Goa'', Str ''Goa'', Str ''Goa'']\<rparr>,
      \<lparr>cname = ''Total_Teachers'', dtype = Int64, cells = [Num (2 ^ 62), Num (2 ^ 62), Num 0]\<rparr>,
      \<lparr>cname = ''Total_Students'', dtype = Int64, cells = [Num 1, Num 1, Num 0]\<rparr>]"

text \<open>Frames for the enrolment metrics: the example of the specification, a frame whose only
  gender column is named after females, one with a state column, one with two girls
  columns, one whose girls counts add up to \<open>2^63\<close>, one whose girls column holds text, one
  with a district column and no state column, and one with a label that matches a gender keyword and a facility
  keyword.\<close>

definition gpi_ex :: dataframe where
  "gpi_ex =
     [\<lparr>cname = ''Girls_Enrolled'', dtype = Int64, cells = [Num 10, Num 20]\<rparr>,
      \<lparr>cname = ''Boys_Enrolled'', dtype = Int64, cells = [Num 10, Num 20]\<rparr>]"

definition female_only_ex :: dataframe where
  "female_only_ex =
     [\<lparr>cname = ''Female_Students'', dtype = Int64, cells = [Num 10, Num 20]\<rparr>]"

definition gpi_state_ex :: dataframe where
  "gpi_state_ex =
     [\<lparr>cname = ''State'', dtype = Object, cells = [Str ''Goa'', Str ''Bihar'', Str ''Bihar'']\<rparr>,
      \<lparr>cname = ''Girls_Enrolled'', dtype = Int64, cells = [Num 30, Num 10, Num 20]\<rparr>,
      \<lparr>cname = ''Boys_Enrolled'', dtype = Int64, cells = [Num 10, Num 20, Num 30]\<rparr>]"

definition two_girls_ex :: dataframe where
  "two_girls_ex =
     [\<lparr>cname = ''Girls_Primary'', dtype = Int64, cells = [Num 1, Num 2]\<rparr>,
      \<lparr>cname = ''Girls_Secondary'', dtype = Int64, cells = [Num 3, Num 4]\<rparr>,
      \<lparr>cname = ''Boys_Total'', dtype = Int64, cells = [Num 4, Num 6]\<rparr>]"

definition gpi_overflow_ex :: dataframe where
  "gpi_overflow_ex =
     [\<lparr>cname = ''Girls_Enrolled'', dtype = Int64, cells = [Num (2 ^ 62), Num (2 ^ 62)]\<rparr>,
      \<lparr>cname = ''Boys_Enrolled'', dtype = Int64, cells = [Num 1, Num 1]\<rparr>]"

definition girls_toilet_ex :: dataframe where
  "girls_toilet_ex =
     [\<lparr>cname = ''Girls_Toilet'', dtype = Object, cells = [Str ''Yes'', Str ''No'']\<rparr>,
      \<lparr>cname = ''Boys_Enrolled'', dtype = Int64, cells = [Num 10, Num 20]\<rparr>]"

definition district_only_ex :: dataframe where
  "district_only_ex =
     [\<lparr>cname = ''District'', dtype = Object, cells = [Str ''Patna'', Str ''Gaya'', Str ''Patna'']\<rparr>,
      \<lparr>cname = ''Total_Students'', dtype = Int64, cells = [Num 40, Num 60, Num 50]\<rparr>]"

definition district_two_rows_ex :: dataframe where
  "district_two_rows_ex =
     [\<lparr>cname = ''District'', dtype = Object, cells = [Str ''Patna'', Str ''Gaya'']\<rparr>,
      \<lparr>cname = ''Total_Students'', dtype = Int64, cells = [Num 40, Num 60]\<rparr>]"

definition roles_ex :: dataframe where
  "roles_ex =
     [\<lparr>cname = ''Girls_Water'', dtype = Int64, cells = [Num 1, Num 0]\<rparr>,
      \<lparr>cname = ''Boys_Enrolled'', dtype = Int64, cells = [Num 2, Num 3]\<rparr>]"

section \<open>Properties of merge\_datasets\<close>

subsection \<open>Join key resolution\<close>

lemma resolve_merge_key_None:
  "resolve_merge_key keys cols = None \<longleftrightarrow> (\<forall>a \<in> set keys. a \<notin> set cols)"
  by (induction keys) auto

lemma resolve_merge_key_Some:
  "resolve_merge_key keys cols = Some k \<longleftrightarrow>
     (\<exists>pre post. keys = pre @ k # post \<and> k \<in> set cols \<and> (\<forall>a \<in> set pre. a \<notin> set cols))"
proof (induction keys)
  case Nil
  then show ?case by simp
next
  case (Cons key keys)
  show ?case
  proof (cases "key \<in> set cols")
    case True
    have "(\<exists>pre post. key # keys = pre @ k # post \<and> k \<in> set cols \<and> (\<forall>a \<in> set pre. a \<notin> set cols))
          \<longleftrightarrow> key = k"
    proof
      assume "\<exists>pre post. key # keys = pre @ k # post \<and> k \<in> set cols \<and> (\<forall>a \<in> set pre. a \<notin> set cols)"
      then obtain pre post where h: "key # keys = pre @ k # post" "\<forall>a \<in> set pre. a \<notin> set cols"
        by blast
      show "key = k"
      proof (cases pre)
        case Nil
        with h show ?thesis by simp
      next
        case (Cons b bs)
        with h True show ?thesis by auto
      qed
    next
      assume "key = k"
      with True have "key # keys = [] @ k # keys \<and> k \<in> set cols \<and> (\<forall>a \<in> set []. a \<notin> set cols)"
        by simp
      then show "\<exists>pre post. key # keys = pre @ k # post \<and> k \<in> set cols \<and> (\<forall>a \<in> set pre. a \<notin> set cols)"
        by blast
    qed
    with True show ?thesis by simp
  next
    case False
    have "(\<exists>pre post. key # keys = pre @ k # post \<and> k \<in> set cols \<and> (\<forall>a \<in> set pre. a \<notin> set cols))
          \<longleftrightarrow> (\<exists>pre post. keys = pre @ k # post \<and> k \<in> set cols \<and> (\<forall>a \<in> set pre. a \<notin> set cols))"
      (is "?L \<longleftrightarrow> ?R")
    proof
      assume ?L
      then obtain pre post where h: "key # keys = pre @ k # post" "k \<in> set cols"
        "\<forall>a \<in> set pre. a \<notin> set cols" by blast
      show ?R
      proof (cases pre)
        case Nil
        with h False show ?thesis by simp
      next
        case (Cons b bs)
        with h have "keys = bs @ k # post \<and> k \<in> set cols \<and> (\<forall>a \<in> set bs. a \<notin> set cols)"
          by simp
        then show ?thesis by blast
      qed
    next
      assume ?R
      then obtain pre post where h: "keys = pre @ k # post" "k \<in> set cols"
        "\<forall>a \<in> set pre. a \<notin> set cols" by blast
      with False have "key # keys = (key # pre) @ k # post \<and> k \<in> set cols
          \<and> (\<forall>a \<in> set (key # pre). a \<notin> set cols)" by simp
      then show ?L by blast
    qed
    with False Cons.IH show ?thesis by simp
  qed
qed

text \<open>
  Claim C2. The key that \<open>merge_datasets\<close> joins on is the first of the eight aliases, in
  the order pseudocode, School\_Code, DISE\_Code, UDISE\_Code, school\_code, dise\_code,
  udise\_code, udisecode, that is a column label of the profile frame: the call is the
  join chain on exactly the alias \<open>k\<close> that splits the list into aliases absent from
  the frame, \<open>k\<close> itself, and the rest. When none of the eight is a label, the call
  returns the profile frame as it is, raises nothing, and prints its one warning.
\<close>

theorem merge_datasets_key_resolution:
  "(\<forall>k pre post.
      possible_keys = pre @ k # post \<and> k \<in> set (columns p) \<and> (\<forall>a \<in> set pre. a \<notin> set (columns p))
      \<longrightarrow> resolve_merge_key possible_keys (columns p) = Some k
          \<and> merge_datasets p e f t = ([], merge_with_key p e f t k))
   \<and> (\<forall>k. resolve_merge_key possible_keys (columns p) = Some k
      \<longrightarrow> (\<exists>pre post. possible_keys = pre @ k # post \<and> k \<in> set (columns p)
             \<and> (\<forall>a \<in> set pre. a \<notin> set (columns p))))
   \<and> ((\<forall>a \<in> set possible_keys. a \<notin> set (columns p))
      \<longrightarrow> merge_datasets p e f t = ([no_key_warning], Inr p))"
proof (intro conjI allI impI)
  fix k pre post
  assume h: "possible_keys = pre @ k # post \<and> k \<in> set (columns p)
             \<and> (\<forall>a \<in> set pre. a \<notin> set (columns p))"
  then show r: "resolve_merge_key possible_keys (columns p) = Some k"
    unfolding resolve_merge_key_Some by blast
  then show "merge_datasets p e f t = ([], merge_with_key p e f t k)"
    by (simp add: merge_datasets_def)
next
  fix k
  assume "resolve_merge_key possible_keys (columns p) = Some k"
  then show "\<exists>pre post. possible_keys = pre @ k # post \<and> k \<in> set (columns p)
             \<and> (\<forall>a \<in> set pre. a \<notin> set (columns p))"
    unfolding resolve_merge_key_Some .
next
  assume "\<forall>a \<in> set possible_keys. a \<notin> set (columns p)"
  then have "resolve_merge_key possible_keys (columns p) = None"
    unfolding resolve_merge_key_None .
  then show "merge_datasets p e f t = ([no_key_warning], Inr p)"
    by (simp add: merge_datasets_def)
qed

theorem merge_datasets_key_resolution_witness:
  "possible_keys = [''pseudocode''] @ ''School_Code'' # [''DISE_Code'', ''UDISE_Code'',
      ''school_code'', ''dise_code'', ''udise_code'', ''udisecode'']
   \<and> ''School_Code'' \<in> set (columns profile_ex)
   \<and> ''pseudocode'' \<notin> set (columns profile_ex)
   \<and> resolve_merge_key possible_keys (columns profile_ex) = Some ''School_Code''
   \<and> merge_datasets profile_ex None None (Some teacher_ex)
       = ([], merge_with_key profile_ex None None (Some teacher_ex) ''School_Code'')
   \<and> merge_datasets keyless_ex None None (Some teacher_ex) = ([no_key_warning], Inr keyless_ex)"
proof -
  let ?post = "[''DISE_Code'', ''UDISE_Code'', ''school_code'', ''dise_code'', ''udise_code'',
                ''udisecode'']"
  have split: "possible_keys = [''pseudocode''] @ ''School_Code'' # ?post"
    by (simp add: possible_keys_def)
  have present: "''School_Code'' \<in> set (columns profile_ex)"
    by (simp add: columns_def profile_ex_def)
  have absent: "\<forall>a \<in> set [''pseudocode'']. a \<notin> set (columns profile_ex)"
    by (simp add: columns_def profile_ex_def)
  have none: "\<forall>a \<in> set possible_keys. a \<notin> set (columns keyless_ex)"
    by (simp add: possible_keys_def columns_def keyless_ex_def)
  from merge_datasets_key_resolution [of profile_ex None None "Some teacher_ex"]
       split present absent
  have found: "resolve_merge_key possible_keys (columns profile_ex) = Some ''School_Code''
      \<and> merge_datasets profile_ex None None (Some teacher_ex)
          = ([], merge_with_key profile_ex None None (Some teacher_ex) ''School_Code'')"
    by blast
  from merge_datasets_key_resolution [of keyless_ex None None "Some teacher_ex"] none
  have unkeyed: "merge_datasets keyless_ex None None (Some teacher_ex)
      = ([no_key_warning], Inr keyless_ex)"
    by blast
  from split present absent found unkeyed show ?thesis by simp
qed

subsection \<open>The left join: how many rows\<close>

lemma get_col_in_columns: "(get_col df n \<noteq> None) \<longleftrightarrow> n \<in> set (columns df)"
  by (induction df) (auto simp: get_col_def columns_def)

lemma get_col_member: "get_col df n = Some c \<Longrightarrow> c \<in> set df \<and> cname c = n"
  by (induction df) (auto simp: get_col_def split: if_splits)

lemma length_filter_enumerate:
  "length (filter (\<lambda>jx. snd jx = k) (enumerate n xs)) = length (filter (\<lambda>x. x = k) xs)"
  by (induction xs arbitrary: n) auto

lemma length_match_rows: "length (match_rows rkeys k) = length (filter (\<lambda>x. x = k) rkeys)"
  by (simp add: match_rows_def length_filter_enumerate)

lemma length_join_row:
  "length (join_row rkeys ik) = max 1 (length (filter (\<lambda>x. x = snd ik) rkeys))"
proof (cases "match_rows rkeys (snd ik)")
  case Nil
  with length_match_rows [of rkeys "snd ik"] show ?thesis
    by (simp add: join_row_def)
next
  case (Cons j js)
  with length_match_rows [of rkeys "snd ik"] show ?thesis
    by (simp add: join_row_def)
qed

lemma sum_list_snd_enumerate:
  "sum_list (map (\<lambda>ik. g (snd ik)) (enumerate n xs)) = (sum_list (map g xs) :: nat)"
  by (induction xs arbitrary: n) auto

lemma length_left_join_index:
  "length (left_join_index lkeys rkeys)
     = sum_list (map (\<lambda>k. max 1 (length (filter (\<lambda>x. x = k) rkeys))) lkeys)"
proof -
  have "length (left_join_index lkeys rkeys)
        = sum_list (map (\<lambda>ik. max 1 (length (filter (\<lambda>x. x = snd ik) rkeys))) (enumerate 0 lkeys))"
    by (simp add: left_join_index_def length_concat comp_def length_join_row)
  also have "\<dots> = sum_list (map (\<lambda>k. max 1 (length (filter (\<lambda>x. x = k) rkeys))) lkeys)"
    by (rule sum_list_snd_enumerate [of "\<lambda>k. max 1 (length (filter (\<lambda>x. x = k) rkeys))" 0 lkeys])
  finally show ?thesis .
qed

lemma distinct_filter_eq_le1: "distinct xs \<Longrightarrow> length (filter (\<lambda>x. x = k) xs) \<le> 1"
  by (induction xs) (auto simp: filter_empty_conv)

lemma length_left_join_index_unique:
  assumes "distinct rkeys"
  shows "length (left_join_index lkeys rkeys) = length lkeys"
proof -
  have "max 1 (length (filter (\<lambda>x. x = k) rkeys)) = 1" for k
    using distinct_filter_eq_le1 [OF assms, of k] by (simp add: max_def)
  then show ?thesis
    by (simp add: length_left_join_index sum_list_triv)
qed

lemma length_left_join_index_ge: "length lkeys \<le> length (left_join_index lkeys rkeys)"
proof -
  have "sum_list (map (\<lambda>k. 1::nat) lkeys)
        \<le> sum_list (map (\<lambda>k. max 1 (length (filter (\<lambda>x. x = k) rkeys))) lkeys)"
    by (rule sum_list_mono) simp
  then show ?thesis by (simp add: length_left_join_index sum_list_triv)
qed


lemma pd_merge_InrE:
  assumes "pd_merge left right on sfx = Inr m"
  obtains lk rk where "get_col left on = Some lk" "get_col right on = Some rk"
    "m = map (take_left (left_join_index (cells lk) (cells rk))) left @
         map (\<lambda>c. take_right (left_join_index (cells lk) (cells rk))
                     (right_label (columns left) sfx (cname c)) c)
             (filter (\<lambda>c. cname c \<noteq> on) right)"
  using assms by (auto simp: pd_merge_def Let_def split: option.splits if_splits)

lemma len_df_joined:
  "left \<noteq> [] \<Longrightarrow> len_df (map (take_left idx) left @ rs) = length idx"
  by (cases left) (simp_all add: len_df_def take_left_def)

lemma rectangular_joined:
  assumes "left \<noteq> []"
  shows "rectangular (map (take_left idx) left @ map (\<lambda>c. take_right idx (g c) c) rs)"
  unfolding rectangular_def len_df_joined [OF assms]
  by (auto simp: list_all_iff take_left_def take_right_def)

lemma rectangular_cells:
  "rectangular df \<Longrightarrow> c \<in> set df \<Longrightarrow> length (cells c) = len_df df"
  by (simp add: rectangular_def list_all_iff)

lemma pd_merge_rows:
  assumes m: "pd_merge left right on sfx = Inr m" and rect: "rectangular left"
  shows "rectangular m"
    and "len_df m = sum_list (map (\<lambda>k. max 1 (length (filter (\<lambda>x. x = k) (key_cells right on))))
                               (key_cells left on))"
    and "len_df left \<le> len_df m"
    and "distinct (key_cells right on) \<Longrightarrow> len_df m = len_df left"
proof -
  from m obtain lk rk where lk: "get_col left on = Some lk" and rk: "get_col right on = Some rk"
    and m_eq: "m = map (take_left (left_join_index (cells lk) (cells rk))) left @
         map (\<lambda>c. take_right (left_join_index (cells lk) (cells rk))
                     (right_label (columns left) sfx (cname c)) c)
             (filter (\<lambda>c. cname c \<noteq> on) right)"
    by (rule pd_merge_InrE)
  from lk have mem: "lk \<in> set left" by (simp add: get_col_member)
  then have ne: "left \<noteq> []" by auto
  from rect mem have len_lk: "length (cells lk) = len_df left" by (rule rectangular_cells)
  show "rectangular m" unfolding m_eq using ne by (rule rectangular_joined)
  have len_m: "len_df m = length (left_join_index (cells lk) (cells rk))"
    unfolding m_eq using ne by (rule len_df_joined)
  from lk rk have kc: "key_cells left on = cells lk" "key_cells right on = cells rk"
    by (simp_all add: key_cells_def)
  show "len_df m = sum_list (map (\<lambda>k. max 1 (length (filter (\<lambda>x. x = k) (key_cells right on))))
                               (key_cells left on))"
    by (simp add: len_m kc length_left_join_index)
  show "len_df left \<le> len_df m"
    using length_left_join_index_ge [of "cells lk" "cells rk"] by (simp add: len_m len_lk)
  show "len_df m = len_df left" if "distinct (key_cells right on)"
    using that by (simp add: len_m kc length_left_join_index_unique len_lk)
qed

lemma columns_pd_merge:
  assumes "pd_merge left right on sfx = Inr m"
  shows "columns m = columns left @
           map (right_label (columns left) sfx) (filter (\<lambda>n. n \<noteq> on) (columns right))"
proof -
  from assms obtain lk rk where lk: "get_col left on = Some lk" and rk: "get_col right on = Some rk"
    and m_eq: "m = map (take_left (left_join_index (cells lk) (cells rk))) left @
         map (\<lambda>c. take_right (left_join_index (cells lk) (cells rk))
                     (right_label (columns left) sfx (cname c)) c)
             (filter (\<lambda>c. cname c \<noteq> on) right)"
    by (rule pd_merge_InrE)
  show ?thesis unfolding m_eq
    by (simp add: columns_def take_left_def take_right_def comp_def filter_map)
qed

lemma get_col_joined:
  "get_col left on = Some lk \<Longrightarrow> get_col (map (take_left idx) left @ rs) on = Some (take_left idx lk)"
  by (induction left) (auto simp: get_col_def take_left_def)

lemma key_col_pd_merge:
  assumes "pd_merge left right on sfx = Inr m"
  shows "\<exists>lk mk. get_col left on = Some lk \<and> get_col m on = Some mk \<and> dtype mk = dtype lk"
proof -
  from assms obtain lk rk where lk: "get_col left on = Some lk" and rk: "get_col right on = Some rk"
    and m_eq: "m = map (take_left (left_join_index (cells lk) (cells rk))) left @
         map (\<lambda>c. take_right (left_join_index (cells lk) (cells rk))
                     (right_label (columns left) sfx (cname c)) c)
             (filter (\<lambda>c. cname c \<noteq> on) right)"
    by (rule pd_merge_InrE)
  from get_col_joined [OF lk] have "get_col m on = Some (take_left (left_join_index (cells lk) (cells rk)) lk)"
    unfolding m_eq .
  with lk show ?thesis by (simp add: take_left_def)
qed


lemma merge_if_present_skip: "\<not> joins k x \<Longrightarrow> merge_if_present m x k sfx = Inr m"
  by (simp add: joins_def merge_if_present_def split: option.splits)

lemma merge_if_present_rows:
  assumes "merge_if_present m x k sfx = Inr m'" and "rectangular m"
  shows "rectangular m'" and "len_df m \<le> len_df m'"
    and "unique_keys k x \<Longrightarrow> len_df m' = len_df m"
proof -
  show "rectangular m'"
    using assms pd_merge_rows(1) by (auto simp: merge_if_present_def split: option.splits if_splits)
  show "len_df m \<le> len_df m'"
    using assms pd_merge_rows(3) by (auto simp: merge_if_present_def split: option.splits if_splits)
  show "len_df m' = len_df m" if "unique_keys k x"
    using assms that pd_merge_rows(4)
    by (auto simp: merge_if_present_def unique_keys_def split: option.splits if_splits)
qed

lemma distinct_right_labels:
  assumes "distinct ns" and "list_all (\<lambda>n. \<not> suffix sfx n) ns"
  shows "distinct (map (right_label L sfx) ns)"
proof -
  have "inj_on (right_label L sfx) (set ns)"
  proof (rule inj_onI)
    fix a b
    assume a: "a \<in> set ns" and b: "b \<in> set ns"
      and eq: "right_label L sfx a = right_label L sfx b"
    from assms(2) a b have na: "\<not> suffix sfx a" and nb: "\<not> suffix sfx b"
      by (simp_all add: list_all_iff)
    show "a = b"
    proof (cases "a \<in> set L")
      case True
      note aL = this
      show ?thesis
      proof (cases "b \<in> set L")
        case True
        with aL eq show ?thesis by (simp add: right_label_def)
      next
        case False
        with aL eq have "b = a @ sfx" by (simp add: right_label_def)
        then have "suffix sfx b" by (simp add: suffix_def)
        with nb show ?thesis by simp
      qed
    next
      case False
      note aL = this
      show ?thesis
      proof (cases "b \<in> set L")
        case True
        with aL eq have "a = b @ sfx" by (simp add: right_label_def)
        then have "suffix sfx a" by (simp add: suffix_def)
        with na show ?thesis by simp
      next
        case False
        with aL eq show ?thesis by (simp add: right_label_def)
      qed
    qed
  qed
  with assms(1) show ?thesis by (simp add: distinct_map)
qed

lemma pd_merge_returns:
  assumes lk: "get_col left on = Some lk" and rk: "get_col right on = Some rk"
    and ok: "\<not> key_dtypes_clash (dtype lk) (dtype rk)"
    and d: "distinct (columns right)" and s: "list_all (\<lambda>n. \<not> suffix sfx n) (columns right)"
  shows "\<exists>m. pd_merge left right on sfx = Inr m"
proof -
  let ?ns = "filter (\<lambda>n. n \<noteq> on) (columns right)"
  from d have d': "distinct ?ns" by simp
  from s have s': "list_all (\<lambda>n. \<not> suffix sfx n) ?ns" by (simp add: list_all_iff)
  have "map (\<lambda>c. right_label (columns left) sfx (cname c)) (filter (\<lambda>c. cname c \<noteq> on) right)
        = map (right_label (columns left) sfx) ?ns"
    by (simp add: columns_def filter_map comp_def)
  with distinct_right_labels [OF d' s', of "columns left"]
  have "distinct (map (\<lambda>c. right_label (columns left) sfx (cname c)) (filter (\<lambda>c. cname c \<noteq> on) right))"
    by simp
  with lk rk ok show ?thesis by (simp add: pd_merge_def Let_def)
qed

lemma merge_if_present_returns:
  assumes mk: "get_col m k = Some mk" and ok: "mergeable (dtype mk) k sfx x"
  shows "\<exists>m' mk'. merge_if_present m x k sfx = Inr m' \<and> get_col m' k = Some mk' \<and> dtype mk' = dtype mk"
proof (cases "joins k x")
  case False
  with mk show ?thesis by (simp add: merge_if_present_skip)
next
  case True
  then obtain s where x: "x = Some s" and ks: "k \<in> set (columns s)"
    by (auto simp: joins_def split: option.splits)
  from ks obtain sk where sk: "get_col s k = Some sk"
    using get_col_in_columns [of s k] by auto
  from ok x sk have "\<not> key_dtypes_clash (dtype mk) (dtype sk)" "distinct (columns s)"
    "list_all (\<lambda>n. \<not> suffix sfx n) (columns s)"
    by (simp_all add: mergeable_def)
  from pd_merge_returns [OF mk sk this] obtain m' where m': "pd_merge m s k sfx = Inr m'" ..
  from key_col_pd_merge [OF m'] mk obtain mk' where "get_col m' k = Some mk'" "dtype mk' = dtype mk"
    by auto
  with m' x ks show ?thesis by (simp add: merge_if_present_def)
qed


lemma merge_with_key_rows:
  assumes m: "merge_with_key p e f t k = Inr m" and rect: "rectangular p"
  shows "len_df p \<le> len_df m"
    and "unique_keys k e \<Longrightarrow> unique_keys k f \<Longrightarrow> unique_keys k t \<Longrightarrow> len_df m = len_df p"
proof -
  from m obtain m1 m2 where
    s1: "merge_if_present p e k ''_enrol'' = Inr m1" and
    s2: "merge_if_present m1 f k ''_facility'' = Inr m2" and
    s3: "merge_if_present m2 t k ''_teacher'' = Inr m"
    by (auto simp: merge_with_key_def split: sum.splits)
  note r1 = merge_if_present_rows [OF s1 rect]
  note r2 = merge_if_present_rows [OF s2 r1(1)]
  note r3 = merge_if_present_rows [OF s3 r2(1)]
  from r1(2) r2(2) r3(2) show "len_df p \<le> len_df m" by simp
  show "len_df m = len_df p" if "unique_keys k e" "unique_keys k f" "unique_keys k t"
    using r1(3) r2(3) r3(3) that by simp
qed

lemma merge_with_key_returns:
  assumes kc: "get_col p k = Some kc"
    and "mergeable (dtype kc) k ''_enrol'' e"
    and "mergeable (dtype kc) k ''_facility'' f"
    and "mergeable (dtype kc) k ''_teacher'' t"
  shows "\<exists>m. merge_with_key p e f t k = Inr m"
proof -
  from merge_if_present_returns [OF kc assms(2)] obtain m1 k1 where
    s1: "merge_if_present p e k ''_enrol'' = Inr m1" and k1: "get_col m1 k = Some k1"
    and d1: "dtype k1 = dtype kc" by blast
  from assms(3) d1 have "mergeable (dtype k1) k ''_facility'' f" by simp
  from merge_if_present_returns [OF k1 this] obtain m2 k2 where
    s2: "merge_if_present m1 f k ''_facility'' = Inr m2" and k2: "get_col m2 k = Some k2"
    and d2: "dtype k2 = dtype k1" by blast
  from assms(4) d1 d2 have "mergeable (dtype k2) k ''_teacher'' t" by simp
  from merge_if_present_returns [OF k2 this] obtain m3 where
    s3: "merge_if_present m2 t k ''_teacher'' = Inr m3" by blast
  from s1 s2 s3 show ?thesis by (simp add: merge_with_key_def)
qed

lemma merge_with_key_skip:
  "\<not> joins k e \<Longrightarrow> merge_with_key p e f t k = merge_with_key p None f t k"
  "\<not> joins k f \<Longrightarrow> merge_with_key p e f t k = merge_with_key p e None t k"
  "\<not> joins k t \<Longrightarrow> merge_with_key p e f t k = merge_with_key p e f None k"
  by (simp_all add: merge_with_key_def merge_if_present_skip joins_def split: sum.splits)

text \<open>
  The scenario of the specification: the profile frame has schools A, B, C and the teacher
  frame has counts for A and B. The fused frame has three rows and school C has no teacher
  count; the frame without the key is passed over.
\<close>

lemma merge_datasets_scenario:
  "merge_datasets profile_ex None (Some keyless_ex) (Some teacher_ex) =
     ([], Inr [\<lparr>cname = ''School_Code'', dtype = Object, cells = [Str ''A'', Str ''B'', Str ''C'']\<rparr>,
               \<lparr>cname = ''State'', dtype = Object, cells = [Str ''Goa'', Str ''Goa'', Str ''Bihar'']\<rparr>,
               \<lparr>cname = ''Teacher_Count'', dtype = Float64, cells = [Num 5, Num 10, NaN]\<rparr>])"
  by (simp add: merge_datasets_def possible_keys_def columns_def profile_ex_def keyless_ex_def
      teacher_ex_def merge_with_key_def merge_if_present_def pd_merge_def get_col_def
      key_dtypes_clash_def is_text_def is_number_def right_label_def left_join_index_def
      join_row_def match_rows_def take_left_def take_right_def cell_at_def upcast_def enumerate_eq_zip)

text \<open>
  Claim C1. Let the profile frame be rectangular (all columns of one length, as every
  pandas frame is) and let every secondary frame that is present hold no key value twice
  in the column of the resolved key. Then whatever frame \<open>merge_datasets\<close> returns has
  exactly the profile frame's number of rows. A secondary frame that is \<open>None\<close> or lacks
  the resolved key is passed over: the call equals the call with \<open>None\<close> in its place, and
  with all three passed over the profile frame comes back unchanged, no column added. The
  call does return a frame whenever pandas accepts the operands (\<open>mergeable\<close>).
\<close>

theorem merge_datasets_row_count:
  assumes rect: "rectangular p"
    and uniq: "\<forall>k. resolve_merge_key possible_keys (columns p) = Some k
                 \<longrightarrow> unique_keys k e \<and> unique_keys k f \<and> unique_keys k t"
  shows "(\<forall>m. snd (merge_datasets p e f t) = Inr m \<longrightarrow> len_df m = len_df p)
    \<and> (\<forall>k. resolve_merge_key possible_keys (columns p) = Some k \<and> \<not> joins k e
          \<longrightarrow> merge_datasets p e f t = merge_datasets p None f t)
    \<and> (\<forall>k. resolve_merge_key possible_keys (columns p) = Some k \<and> \<not> joins k f
          \<longrightarrow> merge_datasets p e f t = merge_datasets p e None t)
    \<and> (\<forall>k. resolve_merge_key possible_keys (columns p) = Some k \<and> \<not> joins k t
          \<longrightarrow> merge_datasets p e f t = merge_datasets p e f None)
    \<and> merge_datasets p None None None
          = (if resolve_merge_key possible_keys (columns p) = None then [no_key_warning] else [], Inr p)
    \<and> (\<forall>k kc. resolve_merge_key possible_keys (columns p) = Some k \<and> get_col p k = Some kc
          \<and> mergeable (dtype kc) k ''_enrol'' e \<and> mergeable (dtype kc) k ''_facility'' f
          \<and> mergeable (dtype kc) k ''_teacher'' t
          \<longrightarrow> (\<exists>m. snd (merge_datasets p e f t) = Inr m))"
proof (intro conjI allI impI)
  fix m
  assume m: "snd (merge_datasets p e f t) = Inr m"
  show "len_df m = len_df p"
  proof (cases "resolve_merge_key possible_keys (columns p)")
    case None
    with m show ?thesis by (simp add: merge_datasets_def)
  next
    case (Some k)
    with m have "merge_with_key p e f t k = Inr m" by (simp add: merge_datasets_def)
    from merge_with_key_rows(2) [OF this rect] uniq Some show ?thesis by blast
  qed
next
  fix k
  assume "resolve_merge_key possible_keys (columns p) = Some k \<and> \<not> joins k e"
  then show "merge_datasets p e f t = merge_datasets p None f t"
    using merge_with_key_skip(1) [of k e p f t] by (simp add: merge_datasets_def)
next
  fix k
  assume "resolve_merge_key possible_keys (columns p) = Some k \<and> \<not> joins k f"
  then show "merge_datasets p e f t = merge_datasets p e None t"
    using merge_with_key_skip(2) [of k f p e t] by (simp add: merge_datasets_def)
next
  fix k
  assume "resolve_merge_key possible_keys (columns p) = Some k \<and> \<not> joins k t"
  then show "merge_datasets p e f t = merge_datasets p e f None"
    using merge_with_key_skip(3) [of k t p e f] by (simp add: merge_datasets_def)
next
  show "merge_datasets p None None None
          = (if resolve_merge_key possible_keys (columns p) = None then [no_key_warning] else [], Inr p)"
    by (simp add: merge_datasets_def merge_with_key_def merge_if_present_def split: option.splits)
next
  fix k kc
  assume h: "resolve_merge_key possible_keys (columns p) = Some k \<and> get_col p k = Some kc
          \<and> mergeable (dtype kc) k ''_enrol'' e \<and> mergeable (dtype kc) k ''_facility'' f
          \<and> mergeable (dtype kc) k ''_teacher'' t"
  then obtain m where "merge_with_key p e f t k = Inr m"
    using merge_with_key_returns [of p k kc e f t] by blast
  with h show "\<exists>m. snd (merge_datasets p e f t) = Inr m" by (simp add: merge_datasets_def)
qed

theorem merge_datasets_row_count_witness:
  "rectangular profile_ex
   \<and> unique_keys ''School_Code'' (Some teacher_ex)
   \<and> unique_keys ''School_Code'' (Some keyless_ex)
   \<and> \<not> joins ''School_Code'' (Some keyless_ex)
   \<and> (\<exists>m. snd (merge_datasets profile_ex None (Some keyless_ex) (Some teacher_ex)) = Inr m
          \<and> len_df m = len_df profile_ex)
   \<and> merge_datasets profile_ex None (Some keyless_ex) (Some teacher_ex)
       = merge_datasets profile_ex None None (Some teacher_ex)"
proof -
  have rect: "rectangular profile_ex"
    by (simp add: rectangular_def profile_ex_def len_df_def)
  have key: "resolve_merge_key possible_keys (columns profile_ex) = Some ''School_Code''"
    by (simp add: possible_keys_def columns_def profile_ex_def)
  have u1: "unique_keys ''School_Code'' None" by (simp add: unique_keys_def)
  have u2: "unique_keys ''School_Code'' (Some keyless_ex)"
    by (simp add: unique_keys_def key_cells_def get_col_def keyless_ex_def)
  have u3: "unique_keys ''School_Code'' (Some teacher_ex)"
    by (simp add: unique_keys_def key_cells_def get_col_def teacher_ex_def)
  have nj: "\<not> joins ''School_Code'' (Some keyless_ex)"
    by (simp add: joins_def columns_def keyless_ex_def)
  have kc: "get_col profile_ex ''School_Code'' = Some (hd profile_ex)"
    by (simp add: get_col_def profile_ex_def)
  have g1: "mergeable (dtype (hd profile_ex)) ''School_Code'' ''_enrol'' None"
    by (simp add: mergeable_def)
  have g2: "mergeable (dtype (hd profile_ex)) ''School_Code'' ''_facility'' (Some keyless_ex)"
    by (simp add: mergeable_def get_col_def keyless_ex_def)
  have g3: "mergeable (dtype (hd profile_ex)) ''School_Code'' ''_teacher'' (Some teacher_ex)"
    by (simp add: mergeable_def get_col_def teacher_ex_def profile_ex_def columns_def
        key_dtypes_clash_def is_text_def is_number_def suffix_def)
  from key u1 u2 u3
  have uniq: "\<forall>k. resolve_merge_key possible_keys (columns profile_ex) = Some k
      \<longrightarrow> unique_keys k None \<and> unique_keys k (Some keyless_ex) \<and> unique_keys k (Some teacher_ex)"
    by simp
  note th = merge_datasets_row_count [OF rect uniq]
  from th key kc g1 g2 g3
  obtain m where m: "snd (merge_datasets profile_ex None (Some keyless_ex) (Some teacher_ex)) = Inr m"
    by blast
  with th have "len_df m = len_df profile_ex" by blast
  with m have ex: "\<exists>m. snd (merge_datasets profile_ex None (Some keyless_ex) (Some teacher_ex)) = Inr m
          \<and> len_df m = len_df profile_ex" by blast
  from th key nj
  have skip: "merge_datasets profile_ex None (Some keyless_ex) (Some teacher_ex)
       = merge_datasets profile_ex None None (Some teacher_ex)" by blast
  from rect u3 u2 nj ex skip show ?thesis by blast
qed

subsection \<open>Duplicate keys in a secondary frame\<close>

lemma merge_if_present_join_rows:
  assumes "merge_if_present m0 (Some s) k sfx = Inr m'" and "k \<in> set (columns s)"
    and "rectangular m0"
  shows "len_df m' = sum_list (map (\<lambda>c. max 1 (length (filter (\<lambda>x. x = c) (key_cells s k))))
                                (key_cells m0 k))"
  using assms pd_merge_rows(2) [of m0 s k sfx m'] by (simp add: merge_if_present_def)

text \<open>
  Claim C3 says that duplicate keys in a secondary frame are detected by comparing row
  counts around each join and reported as a warning. The source compares nothing and
  prints nothing in that case: with teacher records that name school A twice, the call
  prints no line, raises nothing and returns four rows for three schools.
\<close>

theorem merge_datasets_duplicate_keys_counterexample:
  "\<not> distinct (key_cells teacher_dup_ex ''School_Code'')
   \<and> len_df profile_ex = 3
   \<and> merge_datasets profile_ex None None (Some teacher_dup_ex) =
     ([], Inr [\<lparr>cname = ''School_Code'', dtype = Object,
                cells = [Str ''A'', Str ''A'', Str ''B'', Str ''C'']\<rparr>,
               \<lparr>cname = ''State'', dtype = Object,
                cells = [Str ''Goa'', Str ''Goa'', Str ''Goa'', Str ''Bihar'']\<rparr>,
               \<lparr>cname = ''Teacher_Count'', dtype = Float64,
                cells = [Num 5, Num 7, NaN, NaN]\<rparr>])"
  by (simp add: merge_datasets_def possible_keys_def columns_def profile_ex_def key_cells_def
      len_df_def
      teacher_dup_ex_def merge_with_key_def merge_if_present_def pd_merge_def get_col_def
      key_dtypes_clash_def is_text_def is_number_def right_label_def left_join_index_def
      join_row_def match_rows_def take_left_def take_right_def cell_at_def upcast_def enumerate_eq_zip)

text \<open>
  Claim C3 as amended. \<open>merge_datasets\<close> does not validate the joins. The only line it ever
  prints is the warning of the case that no key alias is found; when a key is resolved it
  prints nothing. The frame it returns never has fewer rows than the profile frame, and
  each join that takes place yields, for every row of the frame joined so far, one row per
  secondary row with an equal key (one row when there is none): duplicate keys multiply
  rows and no duplicate is dropped.
\<close>

theorem merge_datasets_no_cardinality_check:
  "fst (merge_datasets p e f t)
     = (if resolve_merge_key possible_keys (columns p) = None then [no_key_warning] else [])
   \<and> (\<forall>m. rectangular p \<and> snd (merge_datasets p e f t) = Inr m \<longrightarrow> len_df p \<le> len_df m)
   \<and> (\<forall>s k sfx m'. rectangular m0 \<and> k \<in> set (columns s)
         \<and> merge_if_present m0 (Some s) k sfx = Inr m'
       \<longrightarrow> len_df m' = sum_list (map (\<lambda>c. max 1 (length (filter (\<lambda>x. x = c) (key_cells s k))))
                                   (key_cells m0 k)))"
proof (intro conjI allI impI)
  show "fst (merge_datasets p e f t)
     = (if resolve_merge_key possible_keys (columns p) = None then [no_key_warning] else [])"
    by (simp add: merge_datasets_def split: option.splits)
next
  fix m
  assume h: "rectangular p \<and> snd (merge_datasets p e f t) = Inr m"
  show "len_df p \<le> len_df m"
  proof (cases "resolve_merge_key possible_keys (columns p)")
    case None
    with h show ?thesis by (simp add: merge_datasets_def)
  next
    case (Some k)
    with h have "merge_with_key p e f t k = Inr m" by (simp add: merge_datasets_def)
    from merge_with_key_rows(1) [OF this] h show ?thesis by simp
  qed
next
  fix s k sfx m'
  assume "rectangular m0 \<and> k \<in> set (columns s) \<and> merge_if_present m0 (Some s) k sfx = Inr m'"
  then show "len_df m' = sum_list (map (\<lambda>c. max 1 (length (filter (\<lambda>x. x = c) (key_cells s k))))
                                   (key_cells m0 k))"
    using merge_if_present_join_rows [of m0 s k sfx m'] by simp
qed

theorem merge_datasets_no_cardinality_check_witness:
  "rectangular profile_ex
   \<and> ''School_Code'' \<in> set (columns teacher_dup_ex)
   \<and> fst (merge_datasets profile_ex None None (Some teacher_dup_ex)) = []
   \<and> (\<exists>m. merge_if_present profile_ex (Some teacher_dup_ex) ''School_Code'' ''_teacher'' = Inr m
        \<and> snd (merge_datasets profile_ex None None (Some teacher_dup_ex)) = Inr m
        \<and> len_df profile_ex \<le> len_df m \<and> len_df m = 4)"
proof -
  have rect: "rectangular profile_ex"
    by (simp add: rectangular_def profile_ex_def len_df_def)
  have key: "resolve_merge_key possible_keys (columns profile_ex) = Some ''School_Code''"
    by (simp add: possible_keys_def columns_def profile_ex_def)
  have col: "''School_Code'' \<in> set (columns teacher_dup_ex)"
    by (simp add: columns_def teacher_dup_ex_def)
  have kd: "\<not> key_dtypes_clash Object Object"
    by (simp add: key_dtypes_clash_def is_text_def is_number_def)
  have "mergeable Object ''School_Code'' ''_teacher'' (Some teacher_dup_ex)"
    by (simp add: mergeable_def get_col_def teacher_dup_ex_def columns_def kd suffix_def)
  moreover have "get_col profile_ex ''School_Code'' = Some (hd profile_ex)"
    "dtype (hd profile_ex) = Object"
    by (simp_all add: get_col_def profile_ex_def)
  ultimately obtain m where
    m: "merge_if_present profile_ex (Some teacher_dup_ex) ''School_Code'' ''_teacher'' = Inr m"
    using merge_if_present_returns [of profile_ex "''School_Code''" "hd profile_ex" "''_teacher''"
        "Some teacher_dup_ex"] by auto
  with key have res: "snd (merge_datasets profile_ex None None (Some teacher_dup_ex)) = Inr m"
    by (simp add: merge_datasets_def merge_with_key_def merge_if_present_def)
  note th = merge_datasets_no_cardinality_check
    [of profile_ex None None "Some teacher_dup_ex" profile_ex]
  from th key have pr: "fst (merge_datasets profile_ex None None (Some teacher_dup_ex)) = []"
    by simp
  from th rect res have ge: "len_df profile_ex \<le> len_df m" by blast
  from th rect col m
  have "len_df m = sum_list (map (\<lambda>c. max 1 (length (filter (\<lambda>x. x = c)
            (key_cells teacher_dup_ex ''School_Code'')))) (key_cells profile_ex ''School_Code''))"
    by blast
  then have "len_df m = 4"
    by (simp add: key_cells_def get_col_def teacher_dup_ex_def profile_ex_def)
  with rect col pr m res ge show ?thesis by blast
qed

section \<open>The caller's frames after merge\_datasets\<close>

lemma extends_refl: "extends h h"
  by (simp add: extends_def)

lemma extends_trans: "extends h h1 \<Longrightarrow> extends h1 h2 \<Longrightarrow> extends h h2"
proof -
  assume a: "extends h h1" and b: "extends h1 h2"
  from a have l1: "length h \<le> length h1" and t1: "take (length h) h1 = h"
    by (simp_all add: extends_def)
  from b have l2: "length h1 \<le> length h2" and t2: "take (length h1) h2 = h1"
    by (simp_all add: extends_def)
  have "take (length h) h2 = take (length h) (take (length h1) h2)"
    using l1 by (simp add: min_def)
  also have "\<dots> = h" by (simp only: t2 t1)
  finally show ?thesis using l1 l2 by (simp add: extends_def)
qed

lemma extends_nth: "extends h h' \<Longrightarrow> r < length h \<Longrightarrow> h' ! r = h ! r"
proof -
  assume a: "extends h h'" and r: "r < length h"
  from r have "take (length h) h' ! r = h' ! r" by simp
  with a show ?thesis by (simp add: extends_def)
qed

lemma extends_valid: "extends h h' \<Longrightarrow> valid_ref h x \<Longrightarrow> valid_ref h' x"
  by (auto simp: extends_def valid_ref_def split: option.splits)

lemma extends_alloc: "extends h (h @ [df])"
  by (simp add: extends_def)

lemma merge_if_present_heap_frame:
  assumes res: "merge_if_present_heap h m x k sfx = (h', res)"
    and m: "m < length h" and x: "valid_ref h x"
  shows "extends h h'"
    and "at_ref h' res = merge_if_present (h ! m) (map_option (\<lambda>r. h ! r) x) k sfx"
    and "\<forall>r. res = Inr r \<longrightarrow> m \<le> r \<and> r < length h'"
proof -
  consider (skip) "x = None \<or> (\<exists>s. x = Some s \<and> k \<notin> set (columns (h ! s)))"
    | (fail) s e where "x = Some s" "k \<in> set (columns (h ! s))" "pd_merge (h ! m) (h ! s) k sfx = Inl e"
    | (join) s j where "x = Some s" "k \<in> set (columns (h ! s))" "pd_merge (h ! m) (h ! s) k sfx = Inr j"
    by (cases x; cases "pd_merge (h ! m) (h ! (the x)) k sfx") auto
  then have "extends h h' \<and> at_ref h' res = merge_if_present (h ! m) (map_option (\<lambda>r. h ! r) x) k sfx
      \<and> (\<forall>r. res = Inr r \<longrightarrow> m \<le> r \<and> r < length h')"
  proof cases
    case skip
    with res have "h' = h" "res = Inr m"
      by (auto simp: merge_if_present_heap_def)
    with skip m show ?thesis
      by (auto simp: extends_refl at_ref_def merge_if_present_def)
  next
    case fail
    with res have "h' = h" "res = Inl e"
      by (auto simp: merge_if_present_heap_def df_merge_def)
    with fail show ?thesis
      by (simp add: extends_refl at_ref_def merge_if_present_def)
  next
    case join
    with res have "h' = h @ [j]" "res = Inr (length h)"
      by (auto simp: merge_if_present_heap_def df_merge_def alloc_def)
    with join m show ?thesis
      by (simp add: extends_alloc at_ref_def merge_if_present_def)
  qed
  then show "extends h h'"
    and "at_ref h' res = merge_if_present (h ! m) (map_option (\<lambda>r. h ! r) x) k sfx"
    and "\<forall>r. res = Inr r \<longrightarrow> m \<le> r \<and> r < length h'"
    by simp_all
qed


lemma map_option_extends:
  "extends h h' \<Longrightarrow> valid_ref h x \<Longrightarrow> map_option (\<lambda>r. h' ! r) x = map_option (\<lambda>r. h ! r) x"
  by (cases x) (simp_all add: valid_ref_def extends_nth)

lemma merge_with_key_heap_frame:
  assumes res: "merge_with_key_heap h m e f t k = (h', res)"
    and m: "m < length h" and e: "valid_ref h e" and f: "valid_ref h f" and t: "valid_ref h t"
  shows "extends h h'"
    and "at_ref h' res = merge_with_key (h ! m) (map_option (\<lambda>r. h ! r) e)
           (map_option (\<lambda>r. h ! r) f) (map_option (\<lambda>r. h ! r) t) k"
    and "\<forall>r. res = Inr r \<longrightarrow> m \<le> r \<and> r < length h'"
proof -
  obtain h1 r1 where s1: "merge_if_present_heap h m e k ''_enrol'' = (h1, r1)"
    by (cases "merge_if_present_heap h m e k ''_enrol''") auto
  note a1 = merge_if_present_heap_frame [OF s1 m e]
  have "extends h h' \<and> at_ref h' res = merge_with_key (h ! m) (map_option (\<lambda>r. h ! r) e)
           (map_option (\<lambda>r. h ! r) f) (map_option (\<lambda>r. h ! r) t) k
        \<and> (\<forall>r. res = Inr r \<longrightarrow> m \<le> r \<and> r < length h')"
  proof (cases r1)
    case (Inl err)
    with res s1 have eq: "h' = h1" "res = Inl err" by (simp_all add: merge_with_key_heap_def)
    from a1(2) Inl have "merge_if_present (h ! m) (map_option (\<lambda>r. h ! r) e) k ''_enrol'' = Inl err"
      by (simp add: at_ref_def)
    with a1(1) eq show ?thesis by (simp add: merge_with_key_def at_ref_def)
  next
    case (Inr m1)
    with a1 have m1: "m1 < length h1" and mm1: "m \<le> m1"
      and v1: "merge_if_present (h ! m) (map_option (\<lambda>r. h ! r) e) k ''_enrol'' = Inr (h1 ! m1)"
      by (simp_all add: at_ref_def)
    from a1(1) f t have f1: "valid_ref h1 f" and t1: "valid_ref h1 t"
      by (simp_all add: extends_valid)
    obtain h2 r2 where s2: "merge_if_present_heap h1 m1 f k ''_facility'' = (h2, r2)"
      by (cases "merge_if_present_heap h1 m1 f k ''_facility''") auto
    note a2 = merge_if_present_heap_frame [OF s2 m1 f1]
    from a1(1) a2(1) have e2: "extends h h2" by (rule extends_trans)
    from a2(2) have v2': "at_ref h2 r2 = merge_if_present (h1 ! m1) (map_option (\<lambda>r. h ! r) f) k ''_facility''"
      by (simp add: map_option_extends [OF a1(1) f])
    show ?thesis
    proof (cases r2)
      case (Inl err)
      with res s1 s2 \<open>r1 = Inr m1\<close> have eq: "h' = h2" "res = Inl err"
        by (simp_all add: merge_with_key_heap_def)
      from v2' Inl have "merge_if_present (h1 ! m1) (map_option (\<lambda>r. h ! r) f) k ''_facility'' = Inl err"
        by (simp add: at_ref_def)
      with e2 v1 eq show ?thesis by (simp add: merge_with_key_def at_ref_def)
    next
      case (Inr m2)
      with a2 have m2: "m2 < length h2" and mm2: "m1 \<le> m2" by simp_all
      from Inr v2' have v2: "merge_if_present (h1 ! m1) (map_option (\<lambda>r. h ! r) f) k ''_facility'' = Inr (h2 ! m2)"
        by (simp add: at_ref_def)
      from e2 t have t2: "valid_ref h2 t" by (rule extends_valid)
      from res s1 s2 \<open>r1 = Inr m1\<close> Inr
      have s3: "merge_if_present_heap h2 m2 t k ''_teacher'' = (h', res)"
        by (simp add: merge_with_key_heap_def)
      note a3 = merge_if_present_heap_frame [OF s3 m2 t2]
      from e2 a3(1) have e3: "extends h h'" by (rule extends_trans)
      from a3(2) have v3: "at_ref h' res = merge_if_present (h2 ! m2) (map_option (\<lambda>r. h ! r) t) k ''_teacher''"
        by (simp add: map_option_extends [OF e2 t])
      from a3(3) mm1 mm2 have "\<forall>r. res = Inr r \<longrightarrow> m \<le> r \<and> r < length h'" by auto
      with e3 v1 v2 v3 show ?thesis by (simp add: merge_with_key_def)
    qed
  qed
  then show "extends h h'"
    and "at_ref h' res = merge_with_key (h ! m) (map_option (\<lambda>r. h ! r) e)
           (map_option (\<lambda>r. h ! r) f) (map_option (\<lambda>r. h ! r) t) k"
    and "\<forall>r. res = Inr r \<longrightarrow> m \<le> r \<and> r < length h'"
    by simp_all
qed

text \<open>
  Claim C10. Run \<open>merge_datasets\<close> on a store \<open>h\<close> with references to the profile frame
  and to the secondary frames that are present. Every object of \<open>h\<close>, the four inputs
  among them, is the same frame afterwards as before (\<open>take (length h) h' = h\<close>): the call
  only allocates. What it prints and returns is what \<open>merge_datasets\<close> computes from the
  frames the references stand for, and the frame returned is a new object, never one of
  the caller's.
\<close>

theorem merge_datasets_inputs_unchanged:
  assumes call: "merge_datasets_heap h p e f t = (h', out, res)"
    and p: "p < length h" and e: "valid_ref h e" and f: "valid_ref h f" and t: "valid_ref h t"
  shows "take (length h) h' = h
    \<and> (out, at_ref h' res) = merge_datasets (h ! p) (map_option (\<lambda>r. h ! r) e)
           (map_option (\<lambda>r. h ! r) f) (map_option (\<lambda>r. h ! r) t)
    \<and> (\<forall>r. res = Inr r \<longrightarrow> length h \<le> r \<and> r < length h')"
proof -
  let ?h0 = "h @ [h ! p]"
  have e0: "extends h ?h0" by (rule extends_alloc)
  from p have p0: "?h0 ! p = h ! p" by (simp add: nth_append)
  have c0: "?h0 ! length h = h ! p" by simp
  have m0: "length h < length ?h0" by simp
  from e0 e f t have v: "valid_ref ?h0 e" "valid_ref ?h0 f" "valid_ref ?h0 t"
    by (simp_all add: extends_valid)
  show ?thesis
  proof (cases "resolve_merge_key possible_keys (columns (h ! p))")
    case None
    with call p0 have "h' = ?h0" "out = [no_key_warning]" "res = Inr (length h)"
      by (simp_all add: merge_datasets_heap_def df_copy_def alloc_def)
    with None show ?thesis by (simp add: merge_datasets_def at_ref_def)
  next
    case (Some k)
    obtain h1 r1 where s: "merge_with_key_heap ?h0 (length h) e f t k = (h1, r1)"
      by (cases "merge_with_key_heap ?h0 (length h) e f t k") auto
    with call p0 Some have eq: "h' = h1" "out = []" "res = r1"
      by (simp_all add: merge_datasets_heap_def df_copy_def alloc_def)
    note a = merge_with_key_heap_frame [OF s m0 v]
    from e0 a(1) have "extends h h1" by (rule extends_trans)
    then have fr: "take (length h) h1 = h" by (simp add: extends_def)
    from a(2) have "at_ref h1 r1 = merge_with_key (h ! p) (map_option (\<lambda>r. h ! r) e)
           (map_option (\<lambda>r. h ! r) f) (map_option (\<lambda>r. h ! r) t) k"
      by (simp only: c0 map_option_extends [OF e0 e] map_option_extends [OF e0 f]
          map_option_extends [OF e0 t])
    with Some eq fr a(3) show ?thesis by (simp add: merge_datasets_def)
  qed
qed

theorem merge_datasets_inputs_unchanged_witness:
  "(\<exists>h' r. merge_datasets_heap [profile_ex, keyless_ex, teacher_ex] 0 None (Some 1) (Some 2)
              = (h', [], Inr r)
      \<and> take (length [profile_ex, keyless_ex, teacher_ex]) h' = [profile_ex, keyless_ex, teacher_ex]
      \<and> length [profile_ex, keyless_ex, teacher_ex] \<le> r \<and> r < length h'
      \<and> ([], Inr (h' ! r)) = merge_datasets profile_ex None (Some keyless_ex) (Some teacher_ex))"
proof -
  let ?h = "[profile_ex, keyless_ex, teacher_ex]"
  obtain h' out res where call: "merge_datasets_heap ?h 0 None (Some 1) (Some 2) = (h', out, res)"
    by (cases "merge_datasets_heap ?h 0 None (Some 1) (Some 2)") auto
  have p: "0 < length ?h" by simp
  have v: "valid_ref ?h None" "valid_ref ?h (Some 1)" "valid_ref ?h (Some 2)"
    by (simp_all add: valid_ref_def)
  note th = merge_datasets_inputs_unchanged [OF call p v]
  from th merge_datasets_scenario obtain m where
    "out = []" "at_ref h' res = Inr m" by simp
  then obtain r where r: "res = Inr r"
    by (cases res) (simp_all add: at_ref_def)
  with th call \<open>out = []\<close>
  have "merge_datasets_heap ?h 0 None (Some 1) (Some 2) = (h', [], Inr r)
      \<and> take (length ?h) h' = ?h \<and> length ?h \<le> r \<and> r < length h'
      \<and> ([], Inr (h' ! r)) = merge_datasets profile_ex None (Some keyless_ex) (Some teacher_ex)"
    by (simp add: at_ref_def)
  then show ?thesis by blast
qed

section \<open>Properties of the analyzer\<close>

text \<open>The definitions that evaluate the keyword tests on a concrete label.\<close>

lemmas name_test_defs = is_facility_name_def facility_keywords_def is_gender_name_def
  is_girls_name_def is_boys_name_def is_teacher_name_def is_student_name_def
  py_in_def lower_def lower_char_def sublist_code

subsection \<open>Sums within the int64 range\<close>

lemma wrap64_in_range: "- (2 ^ 63) \<le> x \<Longrightarrow> x < 2 ^ 63 \<Longrightarrow> wrap64 x = x"
proof -
  assume lo: "- (2 ^ 63) \<le> x" and hi: "x < 2 ^ 63"
  have "0 \<le> (x + 2 ^ 63) / 2 ^ 64" using lo by simp
  moreover have "(x + 2 ^ 63) / 2 ^ 64 < 1" using hi by simp
  ultimately have "\<lfloor>(x + 2 ^ 63) / 2 ^ 64\<rfloor> = 0" by (simp add: floor_eq_iff)
  then show ?thesis by (simp add: wrap64_def)
qed

lemma wrap64_overflow: "wrap64 (2 ^ 62 + 2 ^ 62) = - (2 ^ 63)"
proof -
  have "((2::rat) ^ 62 + 2 ^ 62 + 2 ^ 63) / 2 ^ 64 = 1" by simp
  then have "\<lfloor>((2::rat) ^ 62 + 2 ^ 62 + 2 ^ 63) / 2 ^ 64\<rfloor> = 1" by simp
  then show ?thesis unfolding wrap64_def by simp
qed

lemma num_of_case: "num_of = (\<lambda>x. case x of Num r \<Rightarrow> r | _ \<Rightarrow> 0)"
  by (simp add: fun_eq_iff num_of_def)

lemma no_text_iff: "\<not> list_ex is_str xs \<longleftrightarrow> (\<forall>x \<in> set xs. \<forall>w. x \<noteq> Str w)"
proof -
  have "is_str x \<longleftrightarrow> (\<exists>w. x = Str w)" for x by (cases x) (simp_all add: is_str_def)
  then show ?thesis by (auto simp: list_ex_iff)
qed

subsection \<open>Facility availability\<close>

lemma get_col_distinct:
  "distinct (columns df) \<Longrightarrow> c \<in> set df \<Longrightarrow> get_col df (cname c) = Some c"
  by (induction df) (auto simp: get_col_def columns_def)

lemma count_positive_card:
  "count_positive xs = card {i. i < length xs \<and> (\<exists>r. xs ! i = Num r \<and> 0 < r)}"
proof -
  have "(case c of Num r \<Rightarrow> r > 0 | _ \<Rightarrow> False) \<longleftrightarrow> (\<exists>r. c = Num r \<and> 0 < r)" for c
    by (cases c) simp_all
  then show ?thesis
    by (simp add: count_positive_def length_filter_conv_card)
qed

lemma count_positive_le: "count_positive xs \<le> length xs"
  by (simp add: count_positive_def)

text \<open>The entry of a column, case by case; the division never fails.\<close>


lemma facility_entry_of_text:
  "dtype c = Object \<or> dtype c = StringD \<Longrightarrow>
   facility_entry_of df c = Inr (ValueCounts (value_counts (cells c)))"
  by (simp add: facility_entry_of_def)

lemma facility_entry_of_numeric:
  assumes "dtype c = Int64 \<or> dtype c = Float64"
  shows "facility_entry_of df c =
     Inr (Availability (count_positive (cells c))
            (Fin (if len_df df > 0
                  then of_nat (count_positive (cells c)) / of_nat (len_df df) * 100 else 0)))"
  using assms by (auto simp: facility_entry_of_def Let_def true_div_def fl_times_def)

lemma facility_entry_of_other:
  assumes "dtype c = BoolD"
  shows "facility_entry_of df c = Inr (Availability 0 (Fin 0))"
  using assms by (simp add: facility_entry_of_def Let_def true_div_def fl_times_def)

lemma facility_entry_of_cases:
  "facility_entry_of df c = Inr (ValueCounts (value_counts (cells c)))
   \<or> (\<exists>a. a \<le> length (cells c) \<and> facility_entry_of df c =
         Inr (Availability a (Fin (if len_df df > 0 then of_nat a / of_nat (len_df df) * 100 else 0))))"
proof (cases "dtype c")
  case Int64
  with facility_entry_of_numeric [of c df] count_positive_le [of "cells c"] show ?thesis by blast
next
  case Float64
  with facility_entry_of_numeric [of c df] count_positive_le [of "cells c"] show ?thesis by blast
next
  case BoolD
  have "(0::nat) \<le> length (cells c) \<and> facility_entry_of df c =
         Inr (Availability 0 (Fin (if len_df df > 0 then of_nat 0 / of_nat (len_df df) * 100 else 0)))"
    using facility_entry_of_other [OF BoolD, of df] by simp
  then show ?thesis by blast
next
  case Object
  then show ?thesis by (simp add: facility_entry_of_text)
next
  case StringD
  then show ?thesis by (simp add: facility_entry_of_text)
qed

lemma facility_entry_of_returns: "\<exists>e. facility_entry_of df c = Inr e"
  using facility_entry_of_cases [of df c] by blast

lemma facility_loop_result:
  "set cols \<subseteq> set (columns df) \<Longrightarrow>
   facility_loop df cols acc =
     Inr (\<lambda>n. if n \<in> set cols
              then (case get_col df n of
                      None \<Rightarrow> None
                    | Some c \<Rightarrow> (case facility_entry_of df c of Inl e \<Rightarrow> None | Inr x \<Rightarrow> Some x))
              else acc n)"
proof (induction cols arbitrary: acc)
  case Nil
  then show ?case by simp
next
  case (Cons col cols)
  from Cons.prems have "col \<in> set (columns df)" by simp
  then obtain c where c: "get_col df col = Some c"
    using get_col_in_columns [of df col] by auto
  obtain e where e: "facility_entry_of df c = Inr e"
    using facility_entry_of_returns [of df c] ..
  from Cons.prems have "set cols \<subseteq> set (columns df)" by simp
  from Cons.IH [OF this] c e show ?case
    by (auto simp: select_col_def fun_eq_iff)
qed

lemma percentage_bounds:
  fixes a n :: nat
  assumes "a \<le> n"
  shows "0 \<le> (if n > 0 then of_nat a / of_nat n * 100 else (0::rat))"
    and "(if n > 0 then of_nat a / of_nat n * 100 else (0::rat)) \<le> 100"
proof -
  show "0 \<le> (if n > 0 then of_nat a / of_nat n * 100 else (0::rat))" by simp
  show "(if n > 0 then of_nat a / of_nat n * 100 else (0::rat)) \<le> 100"
  proof (cases "n > 0")
    case True
    from assms have "(of_nat a :: rat) * 100 \<le> 100 * of_nat n" by simp
    with True show ?thesis by (simp add: divide_le_eq)
  next
    case False
    then show ?thesis by simp
  qed
qed

lemma facility_entry_of_bounds:
  assumes "rectangular df" "c \<in> set df" "facility_entry_of df c = Inr (Availability a q)"
  shows "\<exists>p. q = Fin p \<and> 0 \<le> p \<and> p \<le> 100 \<and> (len_df df = 0 \<longrightarrow> p = 0)"
proof -
  from assms(1,2) have len: "length (cells c) = len_df df" by (rule rectangular_cells)
  from facility_entry_of_cases [of df c] assms(3) obtain a' where le: "a' \<le> length (cells c)"
    and q: "q = Fin (if len_df df > 0 then of_nat a' / of_nat (len_df df) * 100 else 0)"
    by auto
  let ?p = "if len_df df > 0 then of_nat a' / of_nat (len_df df) * 100 else (0::rat)"
  from le len have le': "a' \<le> len_df df" by simp
  from percentage_bounds [OF le'] have "0 \<le> ?p" "?p \<le> 100" by blast+
  moreover have "len_df df = 0 \<longrightarrow> ?p = 0" by simp
  ultimately have "q = Fin ?p \<and> 0 \<le> ?p \<and> ?p \<le> 100 \<and> (len_df df = 0 \<longrightarrow> ?p = 0)"
    using q by simp
  then show ?thesis by (rule exI [where x = ?p])
qed

text \<open>The dictionary of \<open>analyze_facility_availability\<close>, in terms of the keyword test.\<close>

lemma facility_analysis_entries:
  assumes d: "distinct (columns df)" and r: "rectangular df"
  shows "\<exists>fa. analyze_facility_availability (Some df) None = Inr (Some fa)
     \<and> dom fa = {n \<in> set (columns df). is_facility_name n}
     \<and> (\<forall>c \<in> set df. is_facility_name (cname c) \<longrightarrow>
          (dtype c = Object \<or> dtype c = StringD \<longrightarrow>
             (\<exists>vc. fa (cname c) = Some (ValueCounts vc)
                \<and> (\<forall>v. vc v = (if v \<noteq> NaN \<and> v \<in> set (cells c)
                                then Some (count_list (cells c) v) else None))))
        \<and> (dtype c = Int64 \<or> dtype c = Float64 \<longrightarrow>
             fa (cname c) = Some (Availability
                (card {i. i < len_df df \<and> (\<exists>x. cells c ! i = Num x \<and> 0 < x)})
                (Fin (if len_df df > 0
                      then of_nat (card {i. i < len_df df \<and> (\<exists>x. cells c ! i = Num x \<and> 0 < x)})
                             / of_nat (len_df df) * 100
                      else 0)))))
     \<and> (\<forall>n a q. fa n = Some (Availability a q) \<longrightarrow>
          (\<exists>p. q = Fin p \<and> 0 \<le> p \<and> p \<le> 100 \<and> (len_df df = 0 \<longrightarrow> p = 0)))"
proof -
  let ?cols = "filter is_facility_name (columns df)"
  let ?fa = "\<lambda>n. if n \<in> set ?cols
              then (case get_col df n of
                      None \<Rightarrow> None
                    | Some c \<Rightarrow> (case facility_entry_of df c of Inl e \<Rightarrow> None | Inr x \<Rightarrow> Some x))
              else Map.empty n"
  have sub: "set ?cols \<subseteq> set (columns df)" by auto
  have run: "analyze_facility_availability (Some df) None = Inr (Some ?fa)"
    by (simp add: analyze_facility_availability_def facility_loop_result [OF sub])
  have dom: "dom ?fa = {n \<in> set (columns df). is_facility_name n}"
  proof -
    have "?fa n \<noteq> None" if n: "n \<in> set (columns df)" "is_facility_name n" for n
    proof -
      from n(1) obtain c where c: "get_col df n = Some c"
        using get_col_in_columns [of df n] by auto
      obtain e where "facility_entry_of df c = Inr e"
        using facility_entry_of_returns [of df c] ..
      with c n show ?thesis by simp
    qed
    then show ?thesis by (auto simp: dom_def)
  qed
  have at: "?fa (cname c) = Some e"
    if "c \<in> set df" "is_facility_name (cname c)" "facility_entry_of df c = Inr e" for c e
    using that get_col_distinct [OF d that(1)] by (auto simp: columns_def)
  have cols: "\<forall>c \<in> set df. is_facility_name (cname c) \<longrightarrow>
          (dtype c = Object \<or> dtype c = StringD \<longrightarrow>
             (\<exists>vc. ?fa (cname c) = Some (ValueCounts vc)
                \<and> (\<forall>v. vc v = (if v \<noteq> NaN \<and> v \<in> set (cells c)
                                then Some (count_list (cells c) v) else None))))
        \<and> (dtype c = Int64 \<or> dtype c = Float64 \<longrightarrow>
             ?fa (cname c) = Some (Availability
                (card {i. i < len_df df \<and> (\<exists>x. cells c ! i = Num x \<and> 0 < x)})
                (Fin (if len_df df > 0
                      then of_nat (card {i. i < len_df df \<and> (\<exists>x. cells c ! i = Num x \<and> 0 < x)})
                             / of_nat (len_df df) * 100
                      else 0))))"
  proof (intro ballI impI conjI)
    fix c
    assume c: "c \<in> set df" "is_facility_name (cname c)" and t: "dtype c = Object \<or> dtype c = StringD"
    from at [OF c facility_entry_of_text [OF t]]
    have "?fa (cname c) = Some (ValueCounts (value_counts (cells c)))" .
    moreover have "\<forall>v. value_counts (cells c) v
        = (if v \<noteq> NaN \<and> v \<in> set (cells c) then Some (count_list (cells c) v) else None)"
      by (simp add: value_counts_def group_sizes_def)
    ultimately show "\<exists>vc. ?fa (cname c) = Some (ValueCounts vc)
                \<and> (\<forall>v. vc v = (if v \<noteq> NaN \<and> v \<in> set (cells c)
                                then Some (count_list (cells c) v) else None))"
      by (intro exI [where x = "value_counts (cells c)"] conjI)
  next
    fix c
    assume c: "c \<in> set df" "is_facility_name (cname c)" and t: "dtype c = Int64 \<or> dtype c = Float64"
    from r c(1) have len: "length (cells c) = len_df df" by (rule rectangular_cells)
    have cnt: "count_positive (cells c)
               = card {i. i < len_df df \<and> (\<exists>x. cells c ! i = Num x \<and> 0 < x)}"
      by (simp only: count_positive_card len)
    from at [OF c facility_entry_of_numeric [OF t]]
    show "?fa (cname c) = Some (Availability
                (card {i. i < len_df df \<and> (\<exists>x. cells c ! i = Num x \<and> 0 < x)})
                (Fin (if len_df df > 0
                      then of_nat (card {i. i < len_df df \<and> (\<exists>x. cells c ! i = Num x \<and> 0 < x)})
                             / of_nat (len_df df) * 100
                      else 0)))"
      by (simp only: cnt)
  qed
  have bounds: "\<forall>n a q. ?fa n = Some (Availability a q) \<longrightarrow>
          (\<exists>p. q = Fin p \<and> 0 \<le> p \<and> p \<le> 100 \<and> (len_df df = 0 \<longrightarrow> p = 0))"
  proof (intro allI impI)
    fix n a q
    assume h: "?fa n = Some (Availability a q)"
    then obtain c where c: "get_col df n = Some c" "facility_entry_of df c = Inr (Availability a q)"
      by (auto split: if_splits option.splits sum.splits)
    from c(1) have "c \<in> set df" by (simp add: get_col_member)
    from facility_entry_of_bounds [OF r this c(2)]
    show "\<exists>p. q = Fin p \<and> 0 \<le> p \<and> p \<le> 100 \<and> (len_df df = 0 \<longrightarrow> p = 0)" .
  qed
  from run dom cols bounds show ?thesis by (intro exI [where x = ?fa] conjI)
qed


text \<open>
  Claim C6. Take a frame with unique column labels and columns of one length, and run
  \<open>analyze_facility_availability\<close> with its default column selection. The call raises
  nothing and returns a dictionary whose keys are exactly the labels that contain one of
  toilet, water, library, computer, internet, electricity (case-insensitively). For such a
  column of dtype object or string (categorical) the entry is the frequency table: every
  value that occurs, the missing one apart, with its number of occurrences. For such a
  column of dtype int64 or float64 (numeric) the entry holds the number of rows whose cell
  is a number greater than 0 and, as percentage, that number divided by the number of
  rows, times 100, or 0 when the frame has no rows. Every percentage in the dictionary is
  a finite number in [0, 100] and is 0 for a frame without rows: no division by zero takes
  place. The instances proved after the theorem are the example of the specification (the
  column [0, 0, 5, 3] gives available 2 and percentage 50) and a frame without rows.
\<close>

theorem facility_entries_correct:
  assumes d: "distinct (columns df)" and r: "rectangular df"
  shows "\<exists>fa. analyze_facility_availability (Some df) None = Inr (Some fa)
     \<and> dom fa = {n \<in> set (columns df).
                 list_ex (\<lambda>keyword. py_in keyword (lower n))
                   [''toilet'', ''water'', ''library'', ''computer'', ''internet'', ''electricity'']}
     \<and> (\<forall>c \<in> set df. list_ex (\<lambda>keyword. py_in keyword (lower (cname c)))
            [''toilet'', ''water'', ''library'', ''computer'', ''internet'', ''electricity''] \<longrightarrow>
          (dtype c = Object \<or> dtype c = StringD \<longrightarrow>
             (\<exists>vc. fa (cname c) = Some (ValueCounts vc)
                \<and> (\<forall>v. vc v = (if v \<noteq> NaN \<and> v \<in> set (cells c)
                                then Some (count_list (cells c) v) else None))))
        \<and> (dtype c = Int64 \<or> dtype c = Float64 \<longrightarrow>
             fa (cname c) = Some (Availability
                (card {i. i < len_df df \<and> (\<exists>x. cells c ! i = Num x \<and> 0 < x)})
                (Fin (if len_df df > 0
                      then of_nat (card {i. i < len_df df \<and> (\<exists>x. cells c ! i = Num x \<and> 0 < x)})
                             / of_nat (len_df df) * 100
                      else 0)))))
     \<and> (\<forall>n a q. fa n = Some (Availability a q) \<longrightarrow>
          (\<exists>p. q = Fin p \<and> 0 \<le> p \<and> p \<le> 100 \<and> (len_df df = 0 \<longrightarrow> p = 0)))"
  using facility_analysis_entries [OF d r]
  unfolding is_facility_name_def facility_keywords_def .

theorem facility_entries_correct_witness:
  "distinct (columns facility_ex) \<and> rectangular facility_ex
   \<and> (\<exists>fa. analyze_facility_availability (Some facility_ex) None = Inr (Some fa)
        \<and> dom fa = {''Computer_Count'', ''Drinking_Water''}
        \<and> fa ''Computer_Count'' = Some (Availability 2 (Fin 50))
        \<and> (\<exists>vc. fa ''Drinking_Water'' = Some (ValueCounts vc)
              \<and> vc (Str ''Yes'') = Some 2 \<and> vc (Str ''No'') = Some 1 \<and> vc NaN = None))
   \<and> distinct (columns facility_empty_ex) \<and> rectangular facility_empty_ex
   \<and> len_df facility_empty_ex = 0
   \<and> (\<exists>fa. analyze_facility_availability (Some facility_empty_ex) None = Inr (Some fa)
        \<and> fa ''Computer_Count'' = Some (Availability 0 (Fin 0)))"
proof -
  have d: "distinct (columns facility_ex)" by (simp add: columns_def facility_ex_def)
  have r: "rectangular facility_ex" by (simp add: rectangular_def facility_ex_def len_df_def)
  let ?kw = "[''toilet'', ''water'', ''library'', ''computer'', ''internet'', ''electricity'']"
  let ?cc = "\<lparr>cname = ''Computer_Count'', dtype = Int64, cells = [Num 0, Num 0, Num 5, Num 3]\<rparr>"
  let ?dw = "\<lparr>cname = ''Drinking_Water'', dtype = Object,
              cells = [Str ''Yes'', Str ''No'', Str ''Yes'', NaN]\<rparr>"
  have mem: "?cc \<in> set facility_ex" "?dw \<in> set facility_ex" by (simp_all add: facility_ex_def)
  have fac: "list_ex (\<lambda>keyword. py_in keyword (lower (cname ?cc))) ?kw"
    "list_ex (\<lambda>keyword. py_in keyword (lower (cname ?dw))) ?kw"
    by (simp_all add: name_test_defs)
  have names: "{n \<in> set (columns facility_ex). list_ex (\<lambda>keyword. py_in keyword (lower n)) ?kw}
               = {''Computer_Count'', ''Drinking_Water''}"
  proof -
    have "filter (\<lambda>n. list_ex (\<lambda>keyword. py_in keyword (lower n)) ?kw) (columns facility_ex)
          = [''Computer_Count'', ''Drinking_Water'']"
      by (simp add: columns_def facility_ex_def name_test_defs)
    then have "set (filter (\<lambda>n. list_ex (\<lambda>keyword. py_in keyword (lower n)) ?kw)
                      (columns facility_ex))
               = {''Computer_Count'', ''Drinking_Water''}"
      by (simp only: list.set)
    then show ?thesis by (simp only: set_filter)
  qed
  from facility_entries_correct [OF d r] obtain fa where
    h: "analyze_facility_availability (Some facility_ex) None = Inr (Some fa)
     \<and> dom fa = {n \<in> set (columns facility_ex).
                 list_ex (\<lambda>keyword. py_in keyword (lower n)) ?kw}
     \<and> (\<forall>c \<in> set facility_ex. list_ex (\<lambda>keyword. py_in keyword (lower (cname c))) ?kw \<longrightarrow>
          (dtype c = Object \<or> dtype c = StringD \<longrightarrow>
             (\<exists>vc. fa (cname c) = Some (ValueCounts vc)
                \<and> (\<forall>v. vc v = (if v \<noteq> NaN \<and> v \<in> set (cells c)
                                then Some (count_list (cells c) v) else None))))
        \<and> (dtype c = Int64 \<or> dtype c = Float64 \<longrightarrow>
             fa (cname c) = Some (Availability
                (card {i. i < len_df facility_ex \<and> (\<exists>x. cells c ! i = Num x \<and> 0 < x)})
                (Fin (if len_df facility_ex > 0
                      then of_nat (card {i. i < len_df facility_ex
                                          \<and> (\<exists>x. cells c ! i = Num x \<and> 0 < x)})
                             / of_nat (len_df facility_ex) * 100
                      else 0)))))
     \<and> (\<forall>n a q. fa n = Some (Availability a q) \<longrightarrow>
          (\<exists>p. q = Fin p \<and> 0 \<le> p \<and> p \<le> 100 \<and> (len_df facility_ex = 0 \<longrightarrow> p = 0)))" ..
  from h have run: "analyze_facility_availability (Some facility_ex) None = Inr (Some fa)"
    by (rule conjunct1)
  from conjunct1 [OF conjunct2 [OF h]] names
  have dom: "dom fa = {''Computer_Count'', ''Drinking_Water''}"
    by (rule trans)
  note cols = conjunct1 [OF conjunct2 [OF conjunct2 [OF h]]]
  have l4: "len_df facility_ex = length (cells ?cc)" by (simp add: len_df_def facility_ex_def)
  have "card {i. i < length (cells ?cc) \<and> (\<exists>x. cells ?cc ! i = Num x \<and> 0 < x)}
        = count_positive (cells ?cc)"
    by (rule count_positive_card [symmetric])
  also have "\<dots> = 2" by (simp add: count_positive_def)
  finally have cnt: "card {i. i < len_df facility_ex \<and> (\<exists>x. cells ?cc ! i = Num x \<and> 0 < x)} = 2"
    by (simp only: l4)
  have tn: "dtype ?cc = Int64 \<or> dtype ?cc = Float64" by simp
  note inst = mp [OF conjunct2 [OF mp [OF bspec [OF cols mem(1)] fac(1)]] tn]
  then have "fa (cname ?cc) = Some (Availability 2
       (Fin (if len_df facility_ex > 0 then of_nat 2 / of_nat (len_df facility_ex) * 100 else 0)))"
    by (simp only: cnt)
  then have cc: "fa ''Computer_Count'' = Some (Availability 2 (Fin 50))"
    by (simp add: len_df_def facility_ex_def)
  have t: "dtype ?dw = Object \<or> dtype ?dw = StringD" by simp
  note dw = mp [OF conjunct1 [OF mp [OF bspec [OF cols mem(2)] fac(2)]] t]
  then obtain vc where vc0: "fa (cname ?dw) = Some (ValueCounts vc)"
    and vcv: "\<forall>v. vc v = (if v \<noteq> NaN \<and> v \<in> set (cells ?dw)
                      then Some (count_list (cells ?dw) v) else None)"
    by (elim exE conjE)
  from vc0 have vc: "fa ''Drinking_Water'' = Some (ValueCounts vc)" by simp
  from spec [OF vcv, of "Str ''Yes''"] have v1: "vc (Str ''Yes'') = Some 2" by simp
  from spec [OF vcv, of "Str ''No''"] have v2: "vc (Str ''No'') = Some 1" by simp
  from spec [OF vcv, of NaN] have v3: "vc NaN = None" by simp
  from v1 v2 v3 have "vc (Str ''Yes'') = Some 2 \<and> vc (Str ''No'') = Some 1 \<and> vc NaN = None"
    by (intro conjI)
  with vc have "fa ''Drinking_Water'' = Some (ValueCounts vc)
      \<and> vc (Str ''Yes'') = Some 2 \<and> vc (Str ''No'') = Some 1 \<and> vc NaN = None"
    by (rule conjI)
  then have dwx: "\<exists>vc. fa ''Drinking_Water'' = Some (ValueCounts vc)
      \<and> vc (Str ''Yes'') = Some 2 \<and> vc (Str ''No'') = Some 1 \<and> vc NaN = None"
    by (rule exI [where x = vc])
  note body = conjI [OF run conjI [OF dom conjI [OF cc dwx]]]
  then have ex1: "\<exists>fa. analyze_facility_availability (Some facility_ex) None = Inr (Some fa)
        \<and> dom fa = {''Computer_Count'', ''Drinking_Water''}
        \<and> fa ''Computer_Count'' = Some (Availability 2 (Fin 50))
        \<and> (\<exists>vc. fa ''Drinking_Water'' = Some (ValueCounts vc)
              \<and> vc (Str ''Yes'') = Some 2 \<and> vc (Str ''No'') = Some 1 \<and> vc NaN = None)"
    by (rule exI [where x = fa])
  have d0: "distinct (columns facility_empty_ex)" by (simp add: columns_def facility_empty_ex_def)
  have r0: "rectangular facility_empty_ex"
    by (simp add: rectangular_def facility_empty_ex_def len_df_def)
  have l0: "len_df facility_empty_ex = 0" by (simp add: len_df_def facility_empty_ex_def)
  let ?ec = "\<lparr>cname = ''Computer_Count'', dtype = Float64, cells = []\<rparr>"
  have mem0: "?ec \<in> set facility_empty_ex" by (simp add: facility_empty_ex_def)
  have fac0: "list_ex (\<lambda>keyword. py_in keyword (lower (cname ?ec))) ?kw"
    by (simp add: name_test_defs)
  have tn0: "dtype ?ec = Int64 \<or> dtype ?ec = Float64" by simp
  from facility_entries_correct [OF d0 r0] obtain fb where
    h0: "analyze_facility_availability (Some facility_empty_ex) None = Inr (Some fb)
     \<and> dom fb = {n \<in> set (columns facility_empty_ex).
                 list_ex (\<lambda>keyword. py_in keyword (lower n)) ?kw}
     \<and> (\<forall>c \<in> set facility_empty_ex. list_ex (\<lambda>keyword. py_in keyword (lower (cname c))) ?kw \<longrightarrow>
          (dtype c = Object \<or> dtype c = StringD \<longrightarrow>
             (\<exists>vc. fb (cname c) = Some (ValueCounts vc)
                \<and> (\<forall>v. vc v = (if v \<noteq> NaN \<and> v \<in> set (cells c)
                                then Some (count_list (cells c) v) else None))))
        \<and> (dtype c = Int64 \<or> dtype c = Float64 \<longrightarrow>
             fb (cname c) = Some (Availability
                (card {i. i < len_df facility_empty_ex \<and> (\<exists>x. cells c ! i = Num x \<and> 0 < x)})
                (Fin (if len_df facility_empty_ex > 0
                      then of_nat (card {i. i < len_df facility_empty_ex
                                          \<and> (\<exists>x. cells c ! i = Num x \<and> 0 < x)})
                             / of_nat (len_df facility_empty_ex) * 100
                      else 0)))))
     \<and> (\<forall>n a q. fb n = Some (Availability a q) \<longrightarrow>
          (\<exists>p. q = Fin p \<and> 0 \<le> p \<and> p \<le> 100 \<and> (len_df facility_empty_ex = 0 \<longrightarrow> p = 0)))" ..
  note run0 = conjunct1 [OF h0]
  note cols0 = conjunct1 [OF conjunct2 [OF conjunct2 [OF h0]]]
  note inst0 = mp [OF conjunct2 [OF mp [OF bspec [OF cols0 mem0] fac0]] tn0]
  then have e0: "fb ''Computer_Count'' = Some (Availability 0 (Fin 0))"
    by (simp add: l0)
  from run0 e0
  have ex0: "\<exists>fa. analyze_facility_availability (Some facility_empty_ex) None = Inr (Some fa)
        \<and> fa ''Computer_Count'' = Some (Availability 0 (Fin 0))"
    by (intro exI [where x = fb] conjI)
  from d r ex1 d0 r0 l0 ex0 show ?thesis by (intro conjI)
qed

subsection \<open>Teacher-student ratio\<close>

lemma zip_as_rows:
  "length ks = length vs \<Longrightarrow> zip ks vs = map (\<lambda>i. (ks ! i, vs ! i)) [0..<length ks]"
  by (rule nth_equalityI) simp_all

lemma group_cells_sum:
  assumes "length ks = length vs"
  shows "sum_list (map f (group_cells ks vs s))
         = (\<Sum>i | i < length ks \<and> ks ! i = s. (f (vs ! i) :: rat))"
proof -
  have "group_cells ks vs s = map (\<lambda>i. vs ! i) (filter (\<lambda>i. ks ! i = s) [0..<length ks])"
    by (simp add: group_cells_def zip_as_rows [OF assms] filter_map comp_def)
  then have "sum_list (map f (group_cells ks vs s))
             = sum_list (map (\<lambda>i. f (vs ! i)) (filter (\<lambda>i. ks ! i = s) [0..<length ks]))"
    by (simp add: comp_def)
  also have "\<dots> = (\<Sum>i \<in> set (filter (\<lambda>i. ks ! i = s) [0..<length ks]). f (vs ! i))"
    by (rule sum_list_distinct_conv_sum_set) simp
  also have "set (filter (\<lambda>i. ks ! i = s) [0..<length ks]) = {i. i < length ks \<and> ks ! i = s}"
    by auto
  finally show ?thesis .
qed

lemma series_sum_in_range:
  assumes "\<not> list_ex is_str xs"
    and "is_int_dtype d \<Longrightarrow>
           - (2 ^ 63) \<le> sum_list (map num_of xs) \<and> sum_list (map num_of xs) < 2 ^ 63"
  shows "series_sum d xs = Inr (Number (sum_list (map num_of xs)))"
  using assms by (simp add: series_sum_def wrap64_in_range)

lemma group_cells_subset: "set (group_cells ks vs s) \<subseteq> set vs"
  by (auto simp: group_cells_def dest: set_zip_rightD)

lemma group_cells_no_text:
  "\<not> list_ex is_str vs \<Longrightarrow> \<not> list_ex is_str (group_cells ks vs s)"
  using group_cells_subset [of ks vs s] by (auto simp: list_ex_iff)

lemma tsr_of_state_numbers:
  assumes "\<not> list_ex is_str (cells tc)" "\<not> list_ex is_str (cells uc)"
    and "is_int_dtype (dtype tc) \<Longrightarrow>
           - (2 ^ 63) \<le> sum_list (map num_of (group_cells ks (cells tc) s))
           \<and> sum_list (map num_of (group_cells ks (cells tc) s)) < 2 ^ 63"
    and "is_int_dtype (dtype uc) \<Longrightarrow>
           - (2 ^ 63) \<le> sum_list (map num_of (group_cells ks (cells uc) s))
           \<and> sum_list (map num_of (group_cells ks (cells uc) s)) < 2 ^ 63"
  shows "tsr_of_state ks tc uc s =
     Inr \<lparr>teacher_sum = sum_list (map num_of (group_cells ks (cells tc) s)),
          student_sum = sum_list (map num_of (group_cells ks (cells uc) s)),
          tsr = np_div (sum_list (map num_of (group_cells ks (cells uc) s)))
                       (sum_list (map num_of (group_cells ks (cells tc) s)) + eps)\<rparr>"
proof -
  have t: "series_sum (dtype tc) (group_cells ks (cells tc) s)
           = Inr (Number (sum_list (map num_of (group_cells ks (cells tc) s))))"
    using group_cells_no_text [OF assms(1)] assms(3) by (rule series_sum_in_range)
  have u: "series_sum (dtype uc) (group_cells ks (cells uc) s)
           = Inr (Number (sum_list (map num_of (group_cells ks (cells uc) s))))"
    using group_cells_no_text [OF assms(2)] assms(4) by (rule series_sum_in_range)
  show ?thesis by (simp add: tsr_of_state_def t u number_def)
qed

lemma find_state_col_None:
  "find_state_col aliases cols = None \<longleftrightarrow> (\<forall>a \<in> set aliases. a \<notin> set cols)"
  by (induction aliases) auto

lemma find_state_col_eq: "find_state_col aliases cols = resolve_merge_key aliases cols"
  by (induction aliases) auto

lemma find_state_col_Some:
  "find_state_col aliases cols = Some k \<longleftrightarrow>
     (\<exists>pre post. aliases = pre @ k # post \<and> k \<in> set cols \<and> (\<forall>a \<in> set pre. a \<notin> set cols))"
  by (simp add: find_state_col_eq resolve_merge_key_Some)

lemma set_group_keys: "set (group_keys ks) = {s \<in> set ks. s \<noteq> NaN}"
  by (auto simp: group_keys_def)

lemma filter_Cons_mem: "filter P xs = y # ys \<Longrightarrow> y \<in> set xs"
proof -
  assume "filter P xs = y # ys"
  then have "y \<in> set (filter P xs)" by simp
  then show ?thesis by simp
qed

text \<open>The value of \<open>calculate_teacher_student_ratio\<close> on a frame whose state column is
  found and whose first teacher and student columns hold numbers with per-state sums in
  the int64 range.\<close>

lemma tsr_run:
  assumes found: "find_state_col state_aliases (columns df) = Some k"
    and tc: "filter is_teacher_name (columns df) = t # ts"
    and uc: "filter is_student_name (columns df) = u # us"
    and gk: "get_col df k = Some state"
    and gt: "get_col df t = Some teacher"
    and gu: "get_col df u = Some student"
    and r: "rectangular df"
    and nt: "\<not> list_ex is_str (cells teacher)"
    and nu: "\<not> list_ex is_str (cells student)"
    and rt: "is_int_dtype (dtype teacher) \<Longrightarrow>
          \<forall>s. - (2 ^ 63) \<le> (\<Sum>i | i < len_df df \<and> cells state ! i = s. num_of (cells teacher ! i))
             \<and> (\<Sum>i | i < len_df df \<and> cells state ! i = s. num_of (cells teacher ! i)) < 2 ^ 63"
    and ru: "is_int_dtype (dtype student) \<Longrightarrow>
          \<forall>s. - (2 ^ 63) \<le> (\<Sum>i | i < len_df df \<and> cells state ! i = s. num_of (cells student ! i))
             \<and> (\<Sum>i | i < len_df df \<and> cells state ! i = s. num_of (cells student ! i)) < 2 ^ 63"
  shows "calculate_teacher_student_ratio (Some df) =
     Inr (Some (\<lambda>s. if s \<noteq> NaN \<and> s \<in> set (cells state)
        then Some \<lparr>teacher_sum =
                     (\<Sum>i | i < len_df df \<and> cells state ! i = s. num_of (cells teacher ! i)),
                   student_sum =
                     (\<Sum>i | i < len_df df \<and> cells state ! i = s. num_of (cells student ! i)),
                   tsr = np_div
                     (\<Sum>i | i < len_df df \<and> cells state ! i = s. num_of (cells student ! i))
                     ((\<Sum>i | i < len_df df \<and> cells state ! i = s. num_of (cells teacher ! i))
                        + eps)\<rparr>
        else None))"
proof -
  let ?ks = "cells state" and ?ts = "cells teacher" and ?us = "cells student"
  let ?T = "\<lambda>s. \<Sum>i | i < len_df df \<and> ?ks ! i = s. num_of (?ts ! i)"
  let ?U = "\<lambda>s. \<Sum>i | i < len_df df \<and> ?ks ! i = s. num_of (?us ! i)"
  let ?row = "\<lambda>s. \<lparr>teacher_sum = ?T s, student_sum = ?U s, tsr = np_div (?U s) (?T s + eps)\<rparr>"
  from gk have "state \<in> set df" by (simp add: get_col_member)
  with r have lk: "length ?ks = len_df df" by (rule rectangular_cells)
  from gt have "teacher \<in> set df" by (simp add: get_col_member)
  with r have lt: "length ?ts = len_df df" by (rule rectangular_cells)
  from gu have "student \<in> set df" by (simp add: get_col_member)
  with r have lu: "length ?us = len_df df" by (rule rectangular_cells)
  have sT: "sum_list (map num_of (group_cells ?ks ?ts s)) = ?T s" for s
    using group_cells_sum [of ?ks ?ts num_of s] lk lt by simp
  have sU: "sum_list (map num_of (group_cells ?ks ?us s)) = ?U s" for s
    using group_cells_sum [of ?ks ?us num_of s] lk lu by simp
  have row: "tsr_of_state ?ks teacher student s = Inr (?row s)" for s
  proof -
    have a: "is_int_dtype (dtype teacher) \<Longrightarrow>
           - (2 ^ 63) \<le> sum_list (map num_of (group_cells ?ks ?ts s))
           \<and> sum_list (map num_of (group_cells ?ks ?ts s)) < 2 ^ 63"
      using rt by (simp only: sT)
    have b: "is_int_dtype (dtype student) \<Longrightarrow>
           - (2 ^ 63) \<le> sum_list (map num_of (group_cells ?ks ?us s))
           \<and> sum_list (map num_of (group_cells ?ks ?us s)) < 2 ^ 63"
      using ru by (simp only: sU)
    from tsr_of_state_numbers [OF nt nu a b] show ?thesis by (simp only: sT sU)
  qed
  have kc: "key_cells df k = ?ks" using gk by (simp add: key_cells_def)
  have st: "select_col df t = Inr teacher" using gt by (simp add: select_col_def)
  have su: "select_col df u = Inr student" using gu by (simp add: select_col_def)
  have "calculate_teacher_student_ratio (Some df) =
        Inr (Some (\<lambda>s. if s \<in> set (group_keys ?ks) then Some (?row s) else None))"
    using tc uc found
    by (simp add: calculate_teacher_student_ratio_def Let_def kc st su row list_ex_iff
          cong: if_cong)
  also have "(\<lambda>s. if s \<in> set (group_keys ?ks) then Some (?row s) else None)
             = (\<lambda>s. if s \<noteq> NaN \<and> s \<in> set ?ks then Some (?row s) else None)"
    by (auto simp: set_group_keys fun_eq_iff)
  finally show ?thesis .
qed

text \<open>
  Claim C5, first as the specification words it. The frame \<open>teacher_name_ex\<close> has a state
  column, a student column and the column Teacher\_Name, whose label contains teacher and
  whose cells are names: the sum of a state is the concatenation of its names, adding
  \<^verbatim>\<open>1e-10\<close> to it raises \<^verbatim>\<open>TypeError\<close>, and no ratio is returned. In \<open>tsr_overflow_ex\<close> the
  teacher counts of Goa are \<open>2^62\<close>, \<open>2^62\<close> and 0, an int64 column: the sum that the
  code reports is \<open>-2^63\<close>, not \<open>2^63\<close>, and the ratio is formed from it.
\<close>

theorem tsr_counterexample:
  "calculate_teacher_student_ratio (Some teacher_name_ex) = Inl TypeError
   \<and> (\<exists>agg. calculate_teacher_student_ratio (Some tsr_overflow_ex) = Inr (Some agg)
         \<and> agg (Str ''Goa'')
            = Some \<lparr>teacher_sum = - (2 ^ 63), student_sum = 2,
                    tsr = Fin (2 / (- (2 ^ 63) + 1 / 10 ^ 10))\<rparr>)"
proof -
  have tc: "filter is_teacher_name (columns teacher_name_ex) = [''Teacher_Name'']"
    by (simp add: columns_def teacher_name_ex_def name_test_defs)
  have uc: "filter is_student_name (columns teacher_name_ex) = [''Total_Students'']"
    by (simp add: columns_def teacher_name_ex_def name_test_defs)
  have fs: "find_state_col state_aliases (columns teacher_name_ex) = Some ''State''"
    by (simp add: state_aliases_def columns_def teacher_name_ex_def)
  have a: "calculate_teacher_student_ratio (Some teacher_name_ex) = Inl TypeError"
    unfolding calculate_teacher_student_ratio_def
    by (simp add: tc uc fs Let_def)
      (simp add: teacher_name_ex_def select_col_def get_col_def key_cells_def group_keys_def
        tsr_of_state_def group_cells_def series_sum_def is_str_def number_def)
  have tc': "filter is_teacher_name (columns tsr_overflow_ex) = [''Total_Teachers'']"
    by (simp add: columns_def tsr_overflow_ex_def name_test_defs)
  have uc': "filter is_student_name (columns tsr_overflow_ex) = [''Total_Students'']"
    by (simp add: columns_def tsr_overflow_ex_def name_test_defs)
  have fs': "find_state_col state_aliases (columns tsr_overflow_ex) = Some ''State''"
    by (simp add: state_aliases_def columns_def tsr_overflow_ex_def)
  have row: "tsr_of_state [Str ''Goa'', Str ''Goa'', Str ''Goa'']
       \<lparr>cname = ''Total_Teachers'', dtype = Int64, cells = [Num x, Num x, Num 0]\<rparr>
       \<lparr>cname = ''Total_Students'', dtype = Int64, cells = [Num 1, Num 1, Num 0]\<rparr> (Str ''Goa'')
     = Inr \<lparr>teacher_sum = - (2 ^ 63), student_sum = 2,
            tsr = Fin (2 / (- (2 ^ 63) + 1 / 10 ^ 10))\<rparr>" if "x = 2 ^ 62" for x
  proof -
    have w2: "wrap64 2 = 2" by (rule wrap64_in_range) simp_all
    have w: "wrap64 9223372036854775808 = - 9223372036854775808"
      using wrap64_overflow by simp
    show ?thesis
      unfolding that
      by (simp add: tsr_of_state_def group_cells_def series_sum_def is_str_def number_def
          num_of_def is_int_dtype_def w w2 np_div_def eps_def)
  qed
  have "\<exists>agg. calculate_teacher_student_ratio (Some tsr_overflow_ex) = Inr (Some agg)
         \<and> agg (Str ''Goa'')
            = Some \<lparr>teacher_sum = - (2 ^ 63), student_sum = 2,
                    tsr = Fin (2 / (- (2 ^ 63) + 1 / 10 ^ 10))\<rparr>"
    unfolding calculate_teacher_student_ratio_def
    by (simp add: tc' uc' fs' Let_def)
      (simp add: tsr_overflow_ex_def select_col_def get_col_def key_cells_def group_keys_def
        row Let_def)
  with a show ?thesis by (rule conjI)
qed

text \<open>
  Claim C5, amended. Take a frame with distinct labels and columns of one length, whose
  first column with teacher in its label is \<open>teacher\<close> and whose first column with student,
  enrolment or enrolled in its label is \<open>student\<close>. If none of State, state, STATE,
  State\_Name is a label, \<open>calculate_teacher_student_ratio\<close> returns \<open>None\<close>: no default
  value, no exception. Otherwise the rows are grouped by the column \<open>state\<close> whose label is
  the first of the four aliases that is a label. When \<open>teacher\<close> and \<open>student\<close> are
  int64 or float64 columns without a text cell, and the sum of every state lies in the
  int64 range for each of the two that is an int64 column, the call returns a table with one row for every state
  (every value of \<open>state\<close> but the missing one): the sum of \<open>teacher\<close> and the sum of
  \<open>student\<close> over the rows of that state, missing cells counting as 0, and the ratio
  student sum / (teacher sum + 1e-10), which is not finite when the divisor is 0.
\<close>

theorem tsr_by_state:
  assumes d: "distinct (columns df)"
    and r: "rectangular df"
    and tc: "filter (\<lambda>col. py_in ''teacher'' (lower col)) (columns df) = cname teacher # ts"
    and uc: "filter (\<lambda>col. py_in ''student'' (lower col) \<or> py_in ''enrolment'' (lower col)
                        \<or> py_in ''enrolled'' (lower col)) (columns df)
             = cname student # us"
    and tm: "teacher \<in> set df"
    and um: "student \<in> set df"
  shows "((\<forall>a \<in> set [''State'', ''state'', ''STATE'', ''State_Name'']. a \<notin> set (columns df))
            \<longrightarrow> calculate_teacher_student_ratio (Some df) = Inr None)
    \<and> (\<forall>state pre post.
          state \<in> set df \<and> [''State'', ''state'', ''STATE'', ''State_Name''] = pre @ cname state # post
          \<and> (\<forall>a \<in> set pre. a \<notin> set (columns df))
          \<and> (dtype teacher = Int64 \<or> dtype teacher = Float64)
          \<and> (dtype student = Int64 \<or> dtype student = Float64)
          \<and> (\<forall>w. Str w \<notin> set (cells teacher)) \<and> (\<forall>w. Str w \<notin> set (cells student))
          \<and> (dtype teacher = Int64 \<longrightarrow>
               (\<forall>s. - (2 ^ 63) \<le> (\<Sum>i | i < len_df df \<and> cells state ! i = s.
                                     case cells teacher ! i of Num x \<Rightarrow> x | _ \<Rightarrow> 0)
                  \<and> (\<Sum>i | i < len_df df \<and> cells state ! i = s.
                        case cells teacher ! i of Num x \<Rightarrow> x | _ \<Rightarrow> 0) < 2 ^ 63))
          \<and> (dtype student = Int64 \<longrightarrow>
               (\<forall>s. - (2 ^ 63) \<le> (\<Sum>i | i < len_df df \<and> cells state ! i = s.
                                     case cells student ! i of Num x \<Rightarrow> x | _ \<Rightarrow> 0)
                  \<and> (\<Sum>i | i < len_df df \<and> cells state ! i = s.
                        case cells student ! i of Num x \<Rightarrow> x | _ \<Rightarrow> 0) < 2 ^ 63))
        \<longrightarrow> (\<exists>agg. calculate_teacher_student_ratio (Some df) = Inr (Some agg)
              \<and> (\<forall>s. agg s =
                    (if s \<noteq> NaN \<and> s \<in> set (cells state)
                     then Some \<lparr>teacher_sum =
                                  (\<Sum>i | i < len_df df \<and> cells state ! i = s.
                                      case cells teacher ! i of Num x \<Rightarrow> x | _ \<Rightarrow> 0),
                                student_sum =
                                  (\<Sum>i | i < len_df df \<and> cells state ! i = s.
                                      case cells student ! i of Num x \<Rightarrow> x | _ \<Rightarrow> 0),
                                tsr =
                                  (if (\<Sum>i | i < len_df df \<and> cells state ! i = s.
                                         case cells teacher ! i of Num x \<Rightarrow> x | _ \<Rightarrow> 0)
                                      + 1 / 10 ^ 10 = 0
                                   then NonFinite
                                   else Fin ((\<Sum>i | i < len_df df \<and> cells state ! i = s.
                                               case cells student ! i of Num x \<Rightarrow> x | _ \<Rightarrow> 0)
                                             / ((\<Sum>i | i < len_df df \<and> cells state ! i = s.
                                                   case cells teacher ! i of Num x \<Rightarrow> x | _ \<Rightarrow> 0)
                                                + 1 / 10 ^ 10)))\<rparr>
                     else None))))"
proof (intro conjI allI impI)
  have tn: "is_teacher_name = (\<lambda>col. py_in ''teacher'' (lower col))"
    by (simp add: fun_eq_iff is_teacher_name_def)
  have un: "is_student_name = (\<lambda>col. py_in ''student'' (lower col) \<or> py_in ''enrolment'' (lower col)
                                     \<or> py_in ''enrolled'' (lower col))"
    by (simp add: fun_eq_iff is_student_name_def)
  from tc have tc': "filter is_teacher_name (columns df) = cname teacher # ts" by (simp only: tn)
  from uc have uc': "filter is_student_name (columns df) = cname student # us" by (simp only: un)
  assume "\<forall>a \<in> set [''State'', ''state'', ''STATE'', ''State_Name'']. a \<notin> set (columns df)"
  then have "find_state_col state_aliases (columns df) = None"
    by (simp only: find_state_col_None state_aliases_def)
  with tc' uc' show "calculate_teacher_student_ratio (Some df) = Inr None"
    by (simp add: calculate_teacher_student_ratio_def)
next
  fix state :: column and pre post
  let ?T = "\<lambda>s. \<Sum>i | i < len_df df \<and> cells state ! i = s.
                  case cells teacher ! i of Num x \<Rightarrow> x | _ \<Rightarrow> 0"
  let ?U = "\<lambda>s. \<Sum>i | i < len_df df \<and> cells state ! i = s.
                  case cells student ! i of Num x \<Rightarrow> x | _ \<Rightarrow> 0"
  let ?agg = "\<lambda>s. if s \<noteq> NaN \<and> s \<in> set (cells state)
                   then Some \<lparr>teacher_sum = ?T s, student_sum = ?U s,
                              tsr = (if ?T s + 1 / 10 ^ 10 = 0 then NonFinite
                                     else Fin (?U s / (?T s + 1 / 10 ^ 10)))\<rparr>
                   else None"
  have tn: "is_teacher_name = (\<lambda>col. py_in ''teacher'' (lower col))"
    by (simp add: fun_eq_iff is_teacher_name_def)
  have un: "is_student_name = (\<lambda>col. py_in ''student'' (lower col) \<or> py_in ''enrolment'' (lower col)
                                     \<or> py_in ''enrolled'' (lower col))"
    by (simp add: fun_eq_iff is_student_name_def)
  from tc have tc': "filter is_teacher_name (columns df) = cname teacher # ts" by (simp only: tn)
  from uc have uc': "filter is_student_name (columns df) = cname student # us" by (simp only: un)
  assume h: "state \<in> set df \<and> [''State'', ''state'', ''STATE'', ''State_Name''] = pre @ cname state # post
          \<and> (\<forall>a \<in> set pre. a \<notin> set (columns df))
          \<and> (dtype teacher = Int64 \<or> dtype teacher = Float64)
          \<and> (dtype student = Int64 \<or> dtype student = Float64)
          \<and> (\<forall>w. Str w \<notin> set (cells teacher)) \<and> (\<forall>w. Str w \<notin> set (cells student))
          \<and> (dtype teacher = Int64 \<longrightarrow>
               (\<forall>s. - (2 ^ 63) \<le> ?T s \<and> ?T s < 2 ^ 63))
          \<and> (dtype student = Int64 \<longrightarrow>
               (\<forall>s. - (2 ^ 63) \<le> ?U s \<and> ?U s < 2 ^ 63))"
  from h have sm: "state \<in> set df" by (rule conjunct1)
  from h have "[''State'', ''state'', ''STATE'', ''State_Name''] = pre @ cname state # post" by (elim conjE)
  then have al: "state_aliases = pre @ cname state # post" by (simp only: state_aliases_def)
  from h have pre: "\<forall>a \<in> set pre. a \<notin> set (columns df)" by (elim conjE)
  from h have nt0: "\<forall>w. Str w \<notin> set (cells teacher)" by (elim conjE)
  from h have nu0: "\<forall>w. Str w \<notin> set (cells student)" by (elim conjE)
  from h have tt: "dtype teacher = Int64 \<or> dtype teacher = Float64" by (elim conjE)
  from h have ut: "dtype student = Int64 \<or> dtype student = Float64" by (elim conjE)
  from h have rt0: "dtype teacher = Int64 \<longrightarrow>
               (\<forall>s. - (2 ^ 63) \<le> ?T s \<and> ?T s < 2 ^ 63)" by (elim conjE)
  from h have ru0: "dtype student = Int64 \<longrightarrow>
               (\<forall>s. - (2 ^ 63) \<le> ?U s \<and> ?U s < 2 ^ 63)" by (elim conjE)
  from sm have "cname state \<in> set (columns df)" by (simp add: columns_def)
  with al pre have found: "find_state_col state_aliases (columns df) = Some (cname state)"
    unfolding find_state_col_Some by blast
  note gk = get_col_distinct [OF d sm]
  note gt = get_col_distinct [OF d tm]
  note gu = get_col_distinct [OF d um]
  from nt0 have nt: "\<not> list_ex is_str (cells teacher)" unfolding no_text_iff by blast
  from nu0 have nu: "\<not> list_ex is_str (cells student)" unfolding no_text_iff by blast
  have rt: "is_int_dtype (dtype teacher) \<Longrightarrow>
          \<forall>s. - (2 ^ 63) \<le> (\<Sum>i | i < len_df df \<and> cells state ! i = s. num_of (cells teacher ! i))
             \<and> (\<Sum>i | i < len_df df \<and> cells state ! i = s. num_of (cells teacher ! i)) < 2 ^ 63"
    using rt0 tt unfolding is_int_dtype_def num_of_def by auto
  have ru: "is_int_dtype (dtype student) \<Longrightarrow>
          \<forall>s. - (2 ^ 63) \<le> (\<Sum>i | i < len_df df \<and> cells state ! i = s. num_of (cells student ! i))
             \<and> (\<Sum>i | i < len_df df \<and> cells state ! i = s. num_of (cells student ! i)) < 2 ^ 63"
    using ru0 ut unfolding is_int_dtype_def num_of_def by auto
  from tsr_run [OF found tc' uc' gk gt gu r nt nu rt ru]
  have run: "calculate_teacher_student_ratio (Some df) = Inr (Some ?agg)"
    unfolding num_of_def np_div_def eps_def .
  then have "calculate_teacher_student_ratio (Some df) = Inr (Some ?agg)
        \<and> (\<forall>s. ?agg s = ?agg s)"
    by simp
  then show "\<exists>agg. calculate_teacher_student_ratio (Some df) = Inr (Some agg)
              \<and> (\<forall>s. agg s = ?agg s)"
    by (rule exI [where x = ?agg])
qed

theorem tsr_by_state_witness:
  "distinct (columns tsr_ex) \<and> rectangular tsr_ex
   \<and> filter is_teacher_name (columns tsr_ex) = [''Total_Teachers'']
   \<and> filter is_student_name (columns tsr_ex) = [''Total_Students'']
   \<and> (\<exists>agg. calculate_teacher_student_ratio (Some tsr_ex) = Inr (Some agg)
         \<and> agg (Str ''Goa'')
             = Some \<lparr>teacher_sum = 5, student_sum = 100, tsr = Fin (100 / (5 + 1 / 10 ^ 10))\<rparr>
         \<and> agg NaN = None)
   \<and> distinct (columns stateless_ex) \<and> rectangular stateless_ex
   \<and> calculate_teacher_student_ratio (Some stateless_ex) = Inr None"
proof -
  let ?state = "\<lparr>cname = ''State'', dtype = Object,
                  cells = [Str ''Goa'', Str ''Goa'', Str ''Bihar'']\<rparr>"
  let ?teacher = "\<lparr>cname = ''Total_Teachers'', dtype = Int64, cells = [Num 2, Num 3, Num 5]\<rparr>"
  let ?student = "\<lparr>cname = ''Total_Students'', dtype = Int64,
                    cells = [Num 40, Num 60, Num 100]\<rparr>"
  let ?K = "cells ?state" and ?T = "cells ?teacher" and ?U = "cells ?student"
  let ?f = "\<lambda>c. case c of Num x \<Rightarrow> x | _ \<Rightarrow> (0::rat)"
  have d: "distinct (columns tsr_ex)" by (simp add: columns_def tsr_ex_def)
  have r: "rectangular tsr_ex" by (simp add: rectangular_def tsr_ex_def len_df_def)
  have tc: "filter (\<lambda>col. py_in ''teacher'' (lower col)) (columns tsr_ex) = cname ?teacher # []"
    by (simp add: columns_def tsr_ex_def name_test_defs)
  have uc: "filter (\<lambda>col. py_in ''student'' (lower col) \<or> py_in ''enrolment'' (lower col)
                       \<or> py_in ''enrolled'' (lower col)) (columns tsr_ex)
            = cname ?student # []"
    by (simp add: columns_def tsr_ex_def name_test_defs)
  have tm: "?teacher \<in> set tsr_ex" and um: "?student \<in> set tsr_ex"
    and sm: "?state \<in> set tsr_ex"
    by (simp_all add: tsr_ex_def)
  have len: "len_df tsr_ex = length ?K" by (simp add: len_df_def tsr_ex_def)
  have sumT: "(\<Sum>i | i < len_df tsr_ex \<and> ?K ! i = s. ?f (?T ! i))
              = sum_list (map ?f (group_cells ?K ?T s))" for s
    unfolding len by (rule group_cells_sum [symmetric]) simp
  have sumU: "(\<Sum>i | i < len_df tsr_ex \<and> ?K ! i = s. ?f (?U ! i))
              = sum_list (map ?f (group_cells ?K ?U s))" for s
    unfolding len by (rule group_cells_sum [symmetric]) simp
  have al: "[''State'', ''state'', ''STATE'', ''State_Name''] = [] @ cname ?state # [''state'', ''STATE'', ''State_Name'']"
    by simp
  have pre: "\<forall>a \<in> set []. a \<notin> set (columns tsr_ex)" by simp
  have nt: "\<forall>w. Str w \<notin> set ?T" and nu: "\<forall>w. Str w \<notin> set ?U" by simp_all
  have tt: "dtype ?teacher = Int64 \<or> dtype ?teacher = Float64"
    and ut: "dtype ?student = Int64 \<or> dtype ?student = Float64"
    by simp_all
  have rt: "dtype ?teacher = Int64 \<longrightarrow>
       (\<forall>s. - (2 ^ 63) \<le> (\<Sum>i | i < len_df tsr_ex \<and> ?K ! i = s. ?f (?T ! i))
          \<and> (\<Sum>i | i < len_df tsr_ex \<and> ?K ! i = s. ?f (?T ! i)) < 2 ^ 63)"
    unfolding sumT by (simp add: group_cells_def)
  have ru: "dtype ?student = Int64 \<longrightarrow>
       (\<forall>s. - (2 ^ 63) \<le> (\<Sum>i | i < len_df tsr_ex \<and> ?K ! i = s. ?f (?U ! i))
          \<and> (\<Sum>i | i < len_df tsr_ex \<and> ?K ! i = s. ?f (?U ! i)) < 2 ^ 63)"
    unfolding sumU by (simp add: group_cells_def)
  note hyps = conjI [OF sm conjI [OF al conjI [OF pre conjI [OF tt conjI [OF ut
    conjI [OF nt conjI [OF nu conjI [OF rt ru]]]]]]]]
  note th = tsr_by_state [OF d r tc uc tm um]
  note inst = mp [OF spec [OF spec [OF spec [OF conjunct2 [OF th]]]] hyps]
  then obtain agg where run: "calculate_teacher_student_ratio (Some tsr_ex) = Inr (Some agg)"
    and agg: "\<forall>s. agg s =
        (if s \<noteq> NaN \<and> s \<in> set ?K
         then Some \<lparr>teacher_sum = (\<Sum>i | i < len_df tsr_ex \<and> ?K ! i = s. ?f (?T ! i)),
                    student_sum = (\<Sum>i | i < len_df tsr_ex \<and> ?K ! i = s. ?f (?U ! i)),
                    tsr = (if (\<Sum>i | i < len_df tsr_ex \<and> ?K ! i = s. ?f (?T ! i))
                               + 1 / 10 ^ 10 = 0
                           then NonFinite
                           else Fin ((\<Sum>i | i < len_df tsr_ex \<and> ?K ! i = s. ?f (?U ! i))
                                     / ((\<Sum>i | i < len_df tsr_ex \<and> ?K ! i = s. ?f (?T ! i))
                                        + 1 / 10 ^ 10)))\<rparr>
         else None)"
    by (elim exE conjE)
  have T: "(\<Sum>i | i < len_df tsr_ex \<and> ?K ! i = Str ''Goa''. ?f (?T ! i)) = 5"
    unfolding sumT by (simp add: group_cells_def)
  have U: "(\<Sum>i | i < len_df tsr_ex \<and> ?K ! i = Str ''Goa''. ?f (?U ! i)) = 100"
    unfolding sumU by (simp add: group_cells_def)
  from spec [OF agg, of "Str ''Goa''"]
  have "agg (Str ''Goa'') =
          (if Str ''Goa'' \<noteq> NaN \<and> Str ''Goa'' \<in> set ?K
           then Some \<lparr>teacher_sum = 5, student_sum = 100,
                      tsr = (if (5::rat) + 1 / 10 ^ 10 = 0 then NonFinite
                             else Fin (100 / (5 + 1 / 10 ^ 10)))\<rparr>
           else None)"
    by (simp only: T U)
  then have g: "agg (Str ''Goa'')
             = Some \<lparr>teacher_sum = 5, student_sum = 100, tsr = Fin (100 / (5 + 1 / 10 ^ 10))\<rparr>"
    by simp
  from spec [OF agg, of NaN] have n: "agg NaN = None" by simp
  from run g n have ex: "\<exists>agg. calculate_teacher_student_ratio (Some tsr_ex) = Inr (Some agg)
         \<and> agg (Str ''Goa'')
             = Some \<lparr>teacher_sum = 5, student_sum = 100, tsr = Fin (100 / (5 + 1 / 10 ^ 10))\<rparr>
         \<and> agg NaN = None"
    by (intro exI [where x = agg] conjI)
  let ?teacher' = "\<lparr>cname = ''Total_Teachers'', dtype = Int64, cells = [Num 2, Num 3]\<rparr>"
  let ?student' = "\<lparr>cname = ''Total_Students'', dtype = Int64, cells = [Num 40, Num 60]\<rparr>"
  have d': "distinct (columns stateless_ex)" by (simp add: columns_def stateless_ex_def)
  have r': "rectangular stateless_ex" by (simp add: rectangular_def stateless_ex_def len_df_def)
  have tc': "filter (\<lambda>col. py_in ''teacher'' (lower col)) (columns stateless_ex)
             = cname ?teacher' # []"
    by (simp add: columns_def stateless_ex_def name_test_defs)
  have uc': "filter (\<lambda>col. py_in ''student'' (lower col) \<or> py_in ''enrolment'' (lower col)
                        \<or> py_in ''enrolled'' (lower col)) (columns stateless_ex)
             = cname ?student' # []"
    by (simp add: columns_def stateless_ex_def name_test_defs)
  have tm': "?teacher' \<in> set stateless_ex" and um': "?student' \<in> set stateless_ex"
    by (simp_all add: stateless_ex_def)
  have no: "\<forall>a \<in> set [''State'', ''state'', ''STATE'', ''State_Name'']. a \<notin> set (columns stateless_ex)"
    by (simp add: columns_def stateless_ex_def)
  from conjunct1 [OF tsr_by_state [OF d' r' tc' uc' tm' um']] no
  have none: "calculate_teacher_student_ratio (Some stateless_ex) = Inr None" by (rule mp)
  have tcs: "filter is_teacher_name (columns tsr_ex) = [''Total_Teachers'']"
    by (simp add: columns_def tsr_ex_def name_test_defs)
  have ucs: "filter is_student_name (columns tsr_ex) = [''Total_Students'']"
    by (simp add: columns_def tsr_ex_def name_test_defs)
  from d r tcs ucs ex d' r' none show ?thesis by (intro conjI)
qed

subsection \<open>Gender parity index\<close>

text \<open>The definitions that evaluate \<open>calculate_enrolment_metrics\<close> on a concrete frame.\<close>

lemmas metrics_eval_defs = calculate_enrolment_metrics_def gender_parity_def role_total_def
  parity_def numeric_def number_def series_sum_def select_col_def get_col_def columns_def
  key_cells_def rows_of_def len_df_def cell_at_def pd_add_def pd_div_def np_div_def
  is_str_def num_of_def str_of_def group_sizes_def groupby_pair_size_def is_int_dtype_def
  row_dtype_def wrap64_in_range Let_def

lemma filter_girls_of_gender:
  "filter is_girls_name (filter is_gender_name xs) = filter is_girls_name xs"
  by (induction xs) (auto simp: is_girls_name_def is_gender_name_def)

lemma filter_boys_of_gender:
  "filter is_boys_name (filter is_gender_name xs) = filter is_boys_name xs"
  by (induction xs) (auto simp: is_boys_name_def is_gender_name_def)

lemma two_members_length:
  assumes "a \<in> set xs" "b \<in> set xs" "a \<noteq> b"
  shows "2 \<le> length xs"
proof -
  from assms have "{a, b} \<subseteq> set xs" by simp
  then have "card {a, b} \<le> card (set xs)" by (intro card_mono) simp_all
  with assms(3) have "2 \<le> card (set xs)" by simp
  with card_length [of xs] show ?thesis by simp
qed

lemma role_total_single:
  assumes "get_col df n = Some c" "\<not> list_ex is_str (cells c)"
    and "is_int_dtype (dtype c) \<Longrightarrow>
           - (2 ^ 63) \<le> sum_list (map num_of (cells c)) \<and> sum_list (map num_of (cells c)) < 2 ^ 63"
  shows "role_total df [n] = Inr (Scalar (Number (sum_list (map num_of (cells c)))))"
proof -
  from assms(2,3) have "series_sum (dtype c) (cells c) = Inr (Number (sum_list (map num_of (cells c))))"
    by (rule series_sum_in_range)
  with assms(1) show ?thesis by (simp add: role_total_def select_col_def)
qed

text \<open>The dictionary that \<open>calculate_enrolment_metrics\<close> returns on a frame with one girls
  column and one boys column, both holding numbers with a sum in the int64 range, that has
  a state column if it has a district column.\<close>

lemma gender_parity_run:
  assumes gc: "get_col df g = Some girls"
    and bc: "get_col df b = Some boys"
    and g: "filter is_girls_name (columns df) = [g]"
    and b: "filter is_boys_name (columns df) = [b]"
    and gb: "g \<noteq> b"
    and ng: "\<not> list_ex is_str (cells girls)"
    and nb: "\<not> list_ex is_str (cells boys)"
    and rg: "is_int_dtype (dtype girls) \<Longrightarrow>
           - (2 ^ 63) \<le> sum_list (map num_of (cells girls))
           \<and> sum_list (map num_of (cells girls)) < 2 ^ 63"
    and rb: "is_int_dtype (dtype boys) \<Longrightarrow>
           - (2 ^ 63) \<le> sum_list (map num_of (cells boys))
           \<and> sum_list (map num_of (cells boys)) < 2 ^ 63"
    and sd: "district_col \<in> set (columns df) \<longrightarrow> state_col \<in> set (columns df)"
  shows "\<exists>dist. calculate_enrolment_metrics (Some df) state_col district_col None =
     Inr (Some \<lparr>gender_parity_index =
                  Some (Scalar (np_div (sum_list (map num_of (cells girls)))
                                       (sum_list (map num_of (cells boys)) + eps))),
                state_enrolment =
                  (if state_col \<in> set (columns df)
                   then Some (group_sizes (key_cells df state_col) NaN) else None),
                district_enrolment = dist\<rparr>)"
proof -
  let ?gc = "filter is_gender_name (columns df)"
  let ?G = "sum_list (map num_of (cells girls))"
  let ?B = "sum_list (map num_of (cells boys))"
  from g have gmem: "g \<in> set (columns df)" "is_girls_name g"
    using filter_Cons_mem [of is_girls_name "columns df" g "[]"]
      Cons_eq_filterD [of g "[]" is_girls_name "columns df"] by auto
  from b have bmem: "b \<in> set (columns df)" "is_boys_name b"
    using filter_Cons_mem [of is_boys_name "columns df" b "[]"]
      Cons_eq_filterD [of b "[]" is_boys_name "columns df"] by auto
  from gmem bmem have "g \<in> set ?gc" "b \<in> set ?gc"
    by (auto simp: is_gender_name_def is_girls_name_def is_boys_name_def)
  with gb have len: "2 \<le> length ?gc" by (rule two_members_length [rotated 2])
  have gf: "filter is_girls_name ?gc = [g]" by (simp only: filter_girls_of_gender g)
  have bf: "filter is_boys_name ?gc = [b]" by (simp only: filter_boys_of_gender b)
  have par: "parity (Scalar (Number ?G)) (Scalar (Number ?B)) = Inr (Scalar (np_div ?G (?B + eps)))"
    by (simp add: parity_def numeric_def number_def pd_add_def pd_div_def)
  have gp: "gender_parity df ?gc = Inr (Some (Scalar (np_div ?G (?B + eps))))"
    unfolding gender_parity_def Let_def gf bf using len
    by (simp add: role_total_single [OF gc ng rg] role_total_single [OF bc nb rb] par)
  show ?thesis
  proof (cases "district_col \<in> set (columns df)")
    case True
    with sd have "state_col \<in> set (columns df)" by simp
    with True show ?thesis
      by (simp add: calculate_enrolment_metrics_def gp groupby_pair_size_def)
  next
    case False
    then show ?thesis by (simp add: calculate_enrolment_metrics_def gp)
  qed
qed

lemma female_only:
  "calculate_enrolment_metrics (Some female_only_ex) ''State'' ''District'' None
     = Inr (Some \<lparr>gender_parity_index = None, state_enrolment = None, district_enrolment = None\<rparr>)"
  by (simp add: metrics_eval_defs female_only_ex_def name_test_defs)

lemma female_only_roles:
  "filter is_girls_name (columns female_only_ex) = [''Female_Students'']
   \<and> filter is_boys_name (columns female_only_ex) = [''Female_Students'']"
  by (simp add: columns_def female_only_ex_def name_test_defs)

lemma two_girls:
  "calculate_enrolment_metrics (Some two_girls_ex) ''State'' ''District'' None
     = Inr (Some \<lparr>gender_parity_index =
                     Some (Series [Fin (4 / (10 + 1 / 10 ^ 10)), Fin (6 / (10 + 1 / 10 ^ 10))]),
                  state_enrolment = None, district_enrolment = None\<rparr>)"
  by (simp add: metrics_eval_defs two_girls_ex_def name_test_defs eps_def)

lemma gpi_state:
  "\<exists>sizes. calculate_enrolment_metrics (Some gpi_state_ex) ''State'' ''District'' None
     = Inr (Some \<lparr>gender_parity_index = Some (Scalar (Fin (60 / (60 + 1 / 10 ^ 10)))),
                  state_enrolment = Some sizes, district_enrolment = None\<rparr>)
     \<and> sizes (Str ''Goa'') = Some 1 \<and> sizes (Str ''Bihar'') = Some 2"
  by (simp add: metrics_eval_defs gpi_state_ex_def name_test_defs eps_def)

lemma gpi_overflow:
  "calculate_enrolment_metrics (Some gpi_overflow_ex) ''State'' ''District'' None
     = Inr (Some \<lparr>gender_parity_index = Some (Scalar (Fin (- (2 ^ 63) / (2 + 1 / 10 ^ 10)))),
                  state_enrolment = None, district_enrolment = None\<rparr>)"
proof -
  have w: "wrap64 9223372036854775808 = - 9223372036854775808"
    using wrap64_overflow by simp
  show ?thesis
    by (simp add: metrics_eval_defs gpi_overflow_ex_def name_test_defs eps_def w)
qed

lemma girls_toilet:
  "calculate_enrolment_metrics (Some girls_toilet_ex) ''State'' ''District'' None = Inl TypeError"
  by (simp add: metrics_eval_defs girls_toilet_ex_def name_test_defs)

text \<open>
  Claim C4 says that every frame with a girls column and a boys column gets a gender parity
  index equal to the sum over all girls columns divided by the sum over all boys columns
  plus 1e-10, for the whole frame and for every state. Five frames show what the source
  does instead. A frame whose only gender column is \<open>Female_Students\<close> has a girls column
  and a boys column (the label contains female and so male), yet the guard
  \<^verbatim>\<open>len(gender_cols) >= 2\<close> leaves the index out. With two girls columns the index is
  a series with one entry per row (the sum of the row's girls cells over the total of the
  boys column), not one number. With a state column the dictionary holds the index of
  the whole frame and the number of rows of every state, and no index by state. With the
  int64 girls counts \<open>2^62\<close> and \<open>2^62\<close> the total that enters the index is \<open>-2^63\<close>.
  With the girls column Girls\_Toilet, whose cells are Yes and No, the total is a string and
  the division raises \<^verbatim>\<open>TypeError\<close>.
\<close>

theorem gender_parity_index_counterexample:
  "filter is_girls_name (columns female_only_ex) = [''Female_Students'']
   \<and> filter is_boys_name (columns female_only_ex) = [''Female_Students'']
   \<and> calculate_enrolment_metrics (Some female_only_ex) ''State'' ''District'' None
       = Inr (Some \<lparr>gender_parity_index = None, state_enrolment = None, district_enrolment = None\<rparr>)
   \<and> calculate_enrolment_metrics (Some two_girls_ex) ''State'' ''District'' None
       = Inr (Some \<lparr>gender_parity_index =
                       Some (Series [Fin (4 / (10 + 1 / 10 ^ 10)), Fin (6 / (10 + 1 / 10 ^ 10))]),
                    state_enrolment = None, district_enrolment = None\<rparr>)
   \<and> (\<exists>sizes. calculate_enrolment_metrics (Some gpi_state_ex) ''State'' ''District'' None
         = Inr (Some \<lparr>gender_parity_index = Some (Scalar (Fin (60 / (60 + 1 / 10 ^ 10)))),
                      state_enrolment = Some sizes, district_enrolment = None\<rparr>)
         \<and> sizes (Str ''Goa'') = Some 1 \<and> sizes (Str ''Bihar'') = Some 2)
   \<and> calculate_enrolment_metrics (Some gpi_overflow_ex) ''State'' ''District'' None
       = Inr (Some \<lparr>gender_parity_index = Some (Scalar (Fin (- (2 ^ 63) / (2 + 1 / 10 ^ 10)))),
                    state_enrolment = None, district_enrolment = None\<rparr>)
   \<and> calculate_enrolment_metrics (Some girls_toilet_ex) ''State'' ''District'' None
       = Inl TypeError"
  using conjunct1 [OF female_only_roles] conjunct2 [OF female_only_roles]
    female_only two_girls gpi_state gpi_overflow girls_toilet
  by (intro conjI)

text \<open>
  Claim C4, amended. Take a frame with distinct labels. Let exactly one label contain girl
  or female and exactly one label contain boy or male (case-insensitively), the labels of
  two different columns \<open>girls\<close> and \<open>boys\<close>; let both be int64 or float64 columns
  without a text cell, and let the sum of each that is an int64 column lie in the int64
  range; let the frame have a state column if it has a district column. Then \<open>calculate_enrolment_metrics\<close> returns a dictionary whose gender
  parity index is one number for the whole frame, the sum of \<open>girls\<close> divided by (the sum
  of \<open>boys\<close> plus 1e-10), missing cells counting as 0; it is not finite when the divisor is
  0. The entry for the states holds the number of rows of every state; there is no index
  by state. For Girls\_Enrolled = [10, 20] and Boys\_Enrolled = [10, 20] the index is
  30 / (30 + 1e-10), within 1e-10 of 1 (the instance proved after the theorem).
\<close>

theorem gender_parity_index_one_column_each:
  assumes d: "distinct (columns df)"
    and gm: "girls \<in> set df"
    and bm: "boys \<in> set df"
    and g: "filter (\<lambda>col. py_in ''girl'' (lower col) \<or> py_in ''female'' (lower col)) (columns df)
            = [cname girls]"
    and b: "filter (\<lambda>col. py_in ''boy'' (lower col) \<or> py_in ''male'' (lower col)) (columns df)
            = [cname boys]"
    and gb: "cname girls \<noteq> cname boys"
    and ng: "\<forall>w. Str w \<notin> set (cells girls)"
    and nb: "\<forall>w. Str w \<notin> set (cells boys)"
    and gt: "dtype girls = Int64 \<or> dtype girls = Float64"
    and bt: "dtype boys = Int64 \<or> dtype boys = Float64"
    and rg: "dtype girls = Int64 \<longrightarrow>
               - (2 ^ 63) \<le> (\<Sum>c\<leftarrow>cells girls. case c of Num x \<Rightarrow> x | _ \<Rightarrow> 0)
               \<and> (\<Sum>c\<leftarrow>cells girls. case c of Num x \<Rightarrow> x | _ \<Rightarrow> 0) < 2 ^ 63"
    and rb: "dtype boys = Int64 \<longrightarrow>
               - (2 ^ 63) \<le> (\<Sum>c\<leftarrow>cells boys. case c of Num x \<Rightarrow> x | _ \<Rightarrow> 0)
               \<and> (\<Sum>c\<leftarrow>cells boys. case c of Num x \<Rightarrow> x | _ \<Rightarrow> 0) < 2 ^ 63"
    and sd: "district_col \<in> set (columns df) \<longrightarrow> state_col \<in> set (columns df)"
  shows "\<exists>m. calculate_enrolment_metrics (Some df) state_col district_col None = Inr (Some m)
     \<and> gender_parity_index m
         = Some (Scalar
             (if (\<Sum>c\<leftarrow>cells boys. case c of Num x \<Rightarrow> x | _ \<Rightarrow> 0) + 1 / 10 ^ 10 = 0
              then NonFinite
              else Fin ((\<Sum>c\<leftarrow>cells girls. case c of Num x \<Rightarrow> x | _ \<Rightarrow> 0)
                        / ((\<Sum>c\<leftarrow>cells boys. case c of Num x \<Rightarrow> x | _ \<Rightarrow> 0) + 1 / 10 ^ 10))))
     \<and> state_enrolment m
         = (if state_col \<in> set (columns df)
            then Some (\<lambda>s. if s \<noteq> NaN \<and> s \<in> set (key_cells df state_col)
                            then Some (count_list (key_cells df state_col) s) else None)
            else None)"
proof -
  have gn: "is_girls_name = (\<lambda>col. py_in ''girl'' (lower col) \<or> py_in ''female'' (lower col))"
    by (simp add: fun_eq_iff is_girls_name_def)
  have bn: "is_boys_name = (\<lambda>col. py_in ''boy'' (lower col) \<or> py_in ''male'' (lower col))"
    by (simp add: fun_eq_iff is_boys_name_def)
  from g have g': "filter is_girls_name (columns df) = [cname girls]" by (simp only: gn)
  from b have b': "filter is_boys_name (columns df) = [cname boys]" by (simp only: bn)
  note gc = get_col_distinct [OF d gm]
  note bc = get_col_distinct [OF d bm]
  from ng have ng': "\<not> list_ex is_str (cells girls)" unfolding no_text_iff by blast
  from nb have nb': "\<not> list_ex is_str (cells boys)" unfolding no_text_iff by blast
  have rg': "is_int_dtype (dtype girls) \<Longrightarrow>
           - (2 ^ 63) \<le> sum_list (map num_of (cells girls))
           \<and> sum_list (map num_of (cells girls)) < 2 ^ 63"
    using rg gt unfolding is_int_dtype_def num_of_case by auto
  have rb': "is_int_dtype (dtype boys) \<Longrightarrow>
           - (2 ^ 63) \<le> sum_list (map num_of (cells boys))
           \<and> sum_list (map num_of (cells boys)) < 2 ^ 63"
    using rb bt unfolding is_int_dtype_def num_of_case by auto
  from gender_parity_run [OF gc bc g' b' gb ng' nb' rg' rb' sd]
  obtain dist where run: "calculate_enrolment_metrics (Some df) state_col district_col None =
     Inr (Some \<lparr>gender_parity_index =
                  Some (Scalar (np_div (sum_list (map num_of (cells girls)))
                                       (sum_list (map num_of (cells boys)) + eps))),
                state_enrolment =
                  (if state_col \<in> set (columns df)
                   then Some (group_sizes (key_cells df state_col) NaN) else None),
                district_enrolment = dist\<rparr>)" ..
  let ?m = "\<lparr>gender_parity_index =
                  Some (Scalar (np_div (sum_list (map num_of (cells girls)))
                                       (sum_list (map num_of (cells boys)) + eps))),
                state_enrolment =
                  (if state_col \<in> set (columns df)
                   then Some (group_sizes (key_cells df state_col) NaN) else None),
                district_enrolment = dist\<rparr>"
  have gpi: "gender_parity_index ?m
         = Some (Scalar
             (if (\<Sum>c\<leftarrow>cells boys. case c of Num x \<Rightarrow> x | _ \<Rightarrow> 0) + 1 / 10 ^ 10 = 0
              then NonFinite
              else Fin ((\<Sum>c\<leftarrow>cells girls. case c of Num x \<Rightarrow> x | _ \<Rightarrow> 0)
                        / ((\<Sum>c\<leftarrow>cells boys. case c of Num x \<Rightarrow> x | _ \<Rightarrow> 0) + 1 / 10 ^ 10))))"
    unfolding num_of_case by (simp add: np_div_def eps_def)
  have st: "state_enrolment ?m
         = (if state_col \<in> set (columns df)
            then Some (\<lambda>s. if s \<noteq> NaN \<and> s \<in> set (key_cells df state_col)
                            then Some (count_list (key_cells df state_col) s) else None)
            else None)"
    by (simp add: group_sizes_def)
  from run gpi st show ?thesis by (intro exI [where x = ?m] conjI)
qed

theorem gender_parity_index_one_column_each_witness:
  "distinct (columns gpi_ex)
   \<and> filter is_girls_name (columns gpi_ex) = [''Girls_Enrolled'']
   \<and> filter is_boys_name (columns gpi_ex) = [''Boys_Enrolled'']
   \<and> ''District'' \<notin> set (columns gpi_ex)
   \<and> (\<exists>m q. calculate_enrolment_metrics (Some gpi_ex) ''State'' ''District'' None = Inr (Some m)
         \<and> gender_parity_index m = Some (Scalar (Fin q))
         \<and> q = 30 / (30 + 1 / 10 ^ 10) \<and> \<bar>q - 1\<bar> \<le> 1 / 10 ^ 10
         \<and> state_enrolment m = None)"
proof -
  let ?girls = "\<lparr>cname = ''Girls_Enrolled'', dtype = Int64, cells = [Num 10, Num 20]\<rparr>"
  let ?boys = "\<lparr>cname = ''Boys_Enrolled'', dtype = Int64, cells = [Num 10, Num 20]\<rparr>"
  have gm: "?girls \<in> set gpi_ex" and bm: "?boys \<in> set gpi_ex" by (simp_all add: gpi_ex_def)
  have g: "filter (\<lambda>col. py_in ''girl'' (lower col) \<or> py_in ''female'' (lower col)) (columns gpi_ex)
           = [cname ?girls]"
    by (simp add: columns_def gpi_ex_def name_test_defs)
  have b: "filter (\<lambda>col. py_in ''boy'' (lower col) \<or> py_in ''male'' (lower col)) (columns gpi_ex)
           = [cname ?boys]"
    by (simp add: columns_def gpi_ex_def name_test_defs)
  have gb: "cname ?girls \<noteq> cname ?boys" by simp
  have ng: "\<forall>w. Str w \<notin> set (cells ?girls)" and nb: "\<forall>w. Str w \<notin> set (cells ?boys)"
    by simp_all
  have d: "distinct (columns gpi_ex)" by (simp add: columns_def gpi_ex_def)
  have gt: "dtype ?girls = Int64 \<or> dtype ?girls = Float64"
    and bt: "dtype ?boys = Int64 \<or> dtype ?boys = Float64"
    by simp_all
  have rg: "dtype ?girls = Int64 \<longrightarrow>
               - (2 ^ 63) \<le> (\<Sum>c\<leftarrow>cells ?girls. case c of Num x \<Rightarrow> x | _ \<Rightarrow> (0::rat))
               \<and> (\<Sum>c\<leftarrow>cells ?girls. case c of Num x \<Rightarrow> x | _ \<Rightarrow> (0::rat)) < 2 ^ 63"
    by simp
  have rb: "dtype ?boys = Int64 \<longrightarrow>
               - (2 ^ 63) \<le> (\<Sum>c\<leftarrow>cells ?boys. case c of Num x \<Rightarrow> x | _ \<Rightarrow> (0::rat))
               \<and> (\<Sum>c\<leftarrow>cells ?boys. case c of Num x \<Rightarrow> x | _ \<Rightarrow> (0::rat)) < 2 ^ 63"
    by simp
  have nd: "''District'' \<notin> set (columns gpi_ex)" by (simp add: columns_def gpi_ex_def)
  have ns: "''State'' \<notin> set (columns gpi_ex)" by (simp add: columns_def gpi_ex_def)
  from nd have sd: "''District'' \<in> set (columns gpi_ex) \<longrightarrow> ''State'' \<in> set (columns gpi_ex)"
    by simp
  from gender_parity_index_one_column_each [OF d gm bm g b gb ng nb gt bt rg rb sd]
  obtain m where run: "calculate_enrolment_metrics (Some gpi_ex) ''State'' ''District'' None = Inr (Some m)"
    and fin: "gender_parity_index m
         = Some (Scalar
             (if (\<Sum>c\<leftarrow>cells ?boys. case c of Num x \<Rightarrow> x | _ \<Rightarrow> 0) + 1 / 10 ^ 10 = 0
              then NonFinite
              else Fin ((\<Sum>c\<leftarrow>cells ?girls. case c of Num x \<Rightarrow> x | _ \<Rightarrow> 0)
                        / ((\<Sum>c\<leftarrow>cells ?boys. case c of Num x \<Rightarrow> x | _ \<Rightarrow> 0) + 1 / 10 ^ 10))))"
    and st: "state_enrolment m
         = (if ''State'' \<in> set (columns gpi_ex)
            then Some (\<lambda>s. if s \<noteq> NaN \<and> s \<in> set (key_cells gpi_ex ''State'')
                            then Some (count_list (key_cells gpi_ex ''State'') s) else None)
            else None)"
    by (elim exE conjE)
  from fin have gpi: "gender_parity_index m = Some (Scalar (Fin (30 / (30 + 1 / 10 ^ 10))))"
    by simp
  from st ns have st': "state_enrolment m = None" by simp
  have close: "\<bar>(30::rat) / (30 + 1 / 10 ^ 10) - 1\<bar> \<le> 1 / 10 ^ 10" by simp
  from run gpi close st'
  have ex: "\<exists>m q. calculate_enrolment_metrics (Some gpi_ex) ''State'' ''District'' None = Inr (Some m)
         \<and> gender_parity_index m = Some (Scalar (Fin q))
         \<and> q = 30 / (30 + 1 / 10 ^ 10) \<and> \<bar>q - 1\<bar> \<le> 1 / 10 ^ 10
         \<and> state_enrolment m = None"
    by (intro exI [where x = m] exI [where x = "30 / (30 + 1 / 10 ^ 10)"] conjI refl)
  have g': "filter is_girls_name (columns gpi_ex) = [''Girls_Enrolled'']"
    by (simp add: columns_def gpi_ex_def name_test_defs)
  have b': "filter is_boys_name (columns gpi_ex) = [''Boys_Enrolled'']"
    by (simp add: columns_def gpi_ex_def name_test_defs)
  from d g' b' nd ex show ?thesis by (intro conjI)
qed

subsection \<open>Missing roles\<close>

text \<open>On a frame of exactly two rows with a District column and no State column, pandas
  reads the list \<^verbatim>\<open>['State', 'District']\<close> as the group labels of the two rows: the call
  returns, and its district entry counts the two strings.\<close>

lemma enrolment_metrics_two_rows:
  "\<exists>sizes. calculate_enrolment_metrics (Some district_two_rows_ex) ''State'' ''District'' None
     = Inr (Some \<lparr>gender_parity_index = None, state_enrolment = None,
                  district_enrolment = Some (ByLabel sizes)\<rparr>)
     \<and> sizes ''State'' = Some 1 \<and> sizes ''District'' = Some 1"
  by (simp add: metrics_eval_defs district_two_rows_ex_def name_test_defs)

text \<open>
  Claim C7 says that no indicator operation raises when a column it looks for is missing.
  \<open>calculate_enrolment_metrics\<close> tests \<^verbatim>\<open>district_col in self.df.columns\<close> and then groups
  by \<^verbatim>\<open>[state_col, district_col]\<close> without testing for the state column: on the frame
  \<open>district_only_ex\<close>, which has three rows, a District column and no State column, pandas
  raises \<^verbatim>\<open>KeyError\<close>.
\<close>

theorem enrolment_metrics_district_without_state:
  "''State'' \<notin> set (columns district_only_ex)
   \<and> ''District'' \<in> set (columns district_only_ex)
   \<and> len_df district_only_ex = 3
   \<and> calculate_enrolment_metrics (Some district_only_ex) ''State'' ''District'' None = Inl KeyError"
  by (simp add: metrics_eval_defs district_only_ex_def name_test_defs)

subsection \<open>Roles of a column\<close>

text \<open>
  Claim C9 says that a label matching the keywords of two roles gets exactly one role, by
  the precedence Region, Gender, Facility, NumericMetric. The source has no such order:
  each method selects the columns by its own keywords. In the frame \<open>roles_ex\<close> the column
  Girls\_Water, with the cells 1 and 0, is the girls column of
  \<open>calculate_enrolment_metrics\<close>, whose index is its sum 1 over the sum 5 of Boys\_Enrolled
  plus 1e-10, and it is a facility column of \<open>analyze_facility_availability\<close>, which
  reports one row out of two, 50 percent, for it.
\<close>

theorem role_selection_counterexample:
  "calculate_enrolment_metrics (Some roles_ex) ''State'' ''District'' None
     = Inr (Some \<lparr>gender_parity_index = Some (Scalar (Fin (1 / (5 + 1 / 10 ^ 10)))),
                  state_enrolment = None, district_enrolment = None\<rparr>)
   \<and> (\<exists>fa. analyze_facility_availability (Some roles_ex) None = Inr (Some fa)
         \<and> fa ''Girls_Water'' = Some (Availability 1 (Fin 50)))"
proof -
  have a: "calculate_enrolment_metrics (Some roles_ex) ''State'' ''District'' None
     = Inr (Some \<lparr>gender_parity_index = Some (Scalar (Fin (1 / (5 + 1 / 10 ^ 10)))),
                  state_enrolment = None, district_enrolment = None\<rparr>)"
    by (simp add: metrics_eval_defs roles_ex_def name_test_defs eps_def)
  have cols: "filter is_facility_name (columns roles_ex) = [''Girls_Water'']"
    by (simp add: columns_def roles_ex_def name_test_defs)
  have "analyze_facility_availability (Some roles_ex) None
        = Inr (Some [''Girls_Water'' \<mapsto> Availability 1 (Fin 50)])"
    unfolding analyze_facility_availability_def
    by (simp add: cols)
      (simp add: roles_ex_def select_col_def get_col_def facility_entry_of_def count_positive_def
        true_div_def fl_times_def len_df_def)
  then have "analyze_facility_availability (Some roles_ex) None
        = Inr (Some [''Girls_Water'' \<mapsto> Availability 1 (Fin 50)])
      \<and> [''Girls_Water'' \<mapsto> Availability 1 (Fin 50)] ''Girls_Water''
          = Some (Availability 1 (Fin 50))"
    by simp
  then have "\<exists>fa. analyze_facility_availability (Some roles_ex) None = Inr (Some fa)
         \<and> fa ''Girls_Water'' = Some (Availability 1 (Fin 50))"
    by (rule exI [where x = "[''Girls_Water'' \<mapsto> Availability 1 (Fin 50)]"])
  with a show ?thesis by (rule conjI)
qed

text \<open>
  Claim C9, amended. No precedence applies: each method selects columns by its own
  keywords, whatever else their labels match. Take a frame with distinct labels and
  columns of one length in which exactly one label contains girl or female and exactly one
  contains boy or male, the labels of two different int64 or float64 columns \<open>girls\<close> and
  \<open>boys\<close> without text cells whose sums lie in the int64 range where the column is an
  int64 column, and which has a state column if it has a district column; let the label of
  \<open>girls\<close> also contain one of toilet, water, library, computer, internet, electricity. Then
  \<open>calculate_enrolment_metrics\<close> uses \<open>girls\<close> as the girls column: the gender parity index
  is its sum divided by (the sum of \<open>boys\<close> plus 1e-10). And
  \<open>analyze_facility_availability\<close> reports an entry for every label that contains a
  facility keyword, \<open>girls\<close> among them: its entry holds the number of rows whose cell is a
  number greater than 0 and that number as a percentage of the rows.
\<close>

theorem role_selection_independent:
  assumes d: "distinct (columns df)"
    and r: "rectangular df"
    and gm: "girls \<in> set df"
    and bm: "boys \<in> set df"
    and g: "filter (\<lambda>col. py_in ''girl'' (lower col) \<or> py_in ''female'' (lower col)) (columns df)
            = [cname girls]"
    and b: "filter (\<lambda>col. py_in ''boy'' (lower col) \<or> py_in ''male'' (lower col)) (columns df)
            = [cname boys]"
    and gb: "cname girls \<noteq> cname boys"
    and fk: "list_ex (\<lambda>keyword. py_in keyword (lower (cname girls)))
               [''toilet'', ''water'', ''library'', ''computer'', ''internet'', ''electricity'']"
    and gt: "dtype girls = Int64 \<or> dtype girls = Float64"
    and bt: "dtype boys = Int64 \<or> dtype boys = Float64"
    and ng: "\<forall>w. Str w \<notin> set (cells girls)"
    and nb: "\<forall>w. Str w \<notin> set (cells boys)"
    and rg: "dtype girls = Int64 \<longrightarrow>
               - (2 ^ 63) \<le> (\<Sum>c\<leftarrow>cells girls. case c of Num x \<Rightarrow> x | _ \<Rightarrow> 0)
               \<and> (\<Sum>c\<leftarrow>cells girls. case c of Num x \<Rightarrow> x | _ \<Rightarrow> 0) < 2 ^ 63"
    and rb: "dtype boys = Int64 \<longrightarrow>
               - (2 ^ 63) \<le> (\<Sum>c\<leftarrow>cells boys. case c of Num x \<Rightarrow> x | _ \<Rightarrow> 0)
               \<and> (\<Sum>c\<leftarrow>cells boys. case c of Num x \<Rightarrow> x | _ \<Rightarrow> 0) < 2 ^ 63"
    and sd: "district_col \<in> set (columns df) \<longrightarrow> state_col \<in> set (columns df)"
  shows "(\<exists>m. calculate_enrolment_metrics (Some df) state_col district_col None = Inr (Some m)
            \<and> gender_parity_index m
                = Some (Scalar
                    (if (\<Sum>c\<leftarrow>cells boys. case c of Num x \<Rightarrow> x | _ \<Rightarrow> 0) + 1 / 10 ^ 10 = 0
                     then NonFinite
                     else Fin ((\<Sum>c\<leftarrow>cells girls. case c of Num x \<Rightarrow> x | _ \<Rightarrow> 0)
                               / ((\<Sum>c\<leftarrow>cells boys. case c of Num x \<Rightarrow> x | _ \<Rightarrow> 0)
                                  + 1 / 10 ^ 10)))))
     \<and> (\<exists>fa. analyze_facility_availability (Some df) None = Inr (Some fa)
            \<and> dom fa = {n \<in> set (columns df).
                         list_ex (\<lambda>keyword. py_in keyword (lower n))
                           [''toilet'', ''water'', ''library'', ''computer'', ''internet'',
                            ''electricity'']}
            \<and> fa (cname girls) = Some (Availability
                (card {i. i < len_df df \<and> (\<exists>x. cells girls ! i = Num x \<and> 0 < x)})
                (Fin (if len_df df > 0
                      then of_nat (card {i. i < len_df df
                                          \<and> (\<exists>x. cells girls ! i = Num x \<and> 0 < x)})
                             / of_nat (len_df df) * 100
                      else 0))))"
proof (rule conjI)
  have gn: "is_girls_name = (\<lambda>col. py_in ''girl'' (lower col) \<or> py_in ''female'' (lower col))"
    by (simp add: fun_eq_iff is_girls_name_def)
  have bn: "is_boys_name = (\<lambda>col. py_in ''boy'' (lower col) \<or> py_in ''male'' (lower col))"
    by (simp add: fun_eq_iff is_boys_name_def)
  from g have g': "filter is_girls_name (columns df) = [cname girls]" by (simp only: gn)
  from b have b': "filter is_boys_name (columns df) = [cname boys]" by (simp only: bn)
  note gc = get_col_distinct [OF d gm]
  note bc = get_col_distinct [OF d bm]
  from ng have ng': "\<not> list_ex is_str (cells girls)" unfolding no_text_iff by blast
  from nb have nb': "\<not> list_ex is_str (cells boys)" unfolding no_text_iff by blast
  have rg': "is_int_dtype (dtype girls) \<Longrightarrow>
           - (2 ^ 63) \<le> sum_list (map num_of (cells girls))
           \<and> sum_list (map num_of (cells girls)) < 2 ^ 63"
    using rg gt unfolding is_int_dtype_def num_of_case by auto
  have rb': "is_int_dtype (dtype boys) \<Longrightarrow>
           - (2 ^ 63) \<le> sum_list (map num_of (cells boys))
           \<and> sum_list (map num_of (cells boys)) < 2 ^ 63"
    using rb bt unfolding is_int_dtype_def num_of_case by auto
  from gender_parity_run [OF gc bc g' b' gb ng' nb' rg' rb' sd]
  obtain dist where run: "calculate_enrolment_metrics (Some df) state_col district_col None =
     Inr (Some \<lparr>gender_parity_index =
                  Some (Scalar (np_div (sum_list (map num_of (cells girls)))
                                       (sum_list (map num_of (cells boys)) + eps))),
                state_enrolment =
                  (if state_col \<in> set (columns df)
                   then Some (group_sizes (key_cells df state_col) NaN) else None),
                district_enrolment = dist\<rparr>)" ..
  let ?m = "\<lparr>gender_parity_index =
                  Some (Scalar (np_div (sum_list (map num_of (cells girls)))
                                       (sum_list (map num_of (cells boys)) + eps))),
                state_enrolment =
                  (if state_col \<in> set (columns df)
                   then Some (group_sizes (key_cells df state_col) NaN) else None),
                district_enrolment = dist\<rparr>"
  have gpi: "gender_parity_index ?m
         = Some (Scalar
             (if (\<Sum>c\<leftarrow>cells boys. case c of Num x \<Rightarrow> x | _ \<Rightarrow> 0) + 1 / 10 ^ 10 = 0
              then NonFinite
              else Fin ((\<Sum>c\<leftarrow>cells girls. case c of Num x \<Rightarrow> x | _ \<Rightarrow> 0)
                        / ((\<Sum>c\<leftarrow>cells boys. case c of Num x \<Rightarrow> x | _ \<Rightarrow> 0) + 1 / 10 ^ 10))))"
    unfolding num_of_case by (simp add: np_div_def eps_def)
  from run gpi
  show "\<exists>m. calculate_enrolment_metrics (Some df) state_col district_col None = Inr (Some m)
            \<and> gender_parity_index m
                = Some (Scalar
                    (if (\<Sum>c\<leftarrow>cells boys. case c of Num x \<Rightarrow> x | _ \<Rightarrow> 0) + 1 / 10 ^ 10 = 0
                     then NonFinite
                     else Fin ((\<Sum>c\<leftarrow>cells girls. case c of Num x \<Rightarrow> x | _ \<Rightarrow> 0)
                               / ((\<Sum>c\<leftarrow>cells boys. case c of Num x \<Rightarrow> x | _ \<Rightarrow> 0)
                                  + 1 / 10 ^ 10))))"
    by (intro exI [where x = ?m] conjI)
  let ?cols = "filter is_facility_name (columns df)"
  let ?fa = "\<lambda>n. if n \<in> set ?cols
              then (case get_col df n of
                      None \<Rightarrow> None
                    | Some c \<Rightarrow> (case facility_entry_of df c of Inl e \<Rightarrow> None | Inr x \<Rightarrow> Some x))
              else Map.empty n"
  have fn: "is_facility_name n = list_ex (\<lambda>keyword. py_in keyword (lower n))
             [''toilet'', ''water'', ''library'', ''computer'', ''internet'', ''electricity'']" for n
    by (simp only: is_facility_name_def facility_keywords_def)
  have sub: "set ?cols \<subseteq> set (columns df)" by auto
  have frun: "analyze_facility_availability (Some df) None = Inr (Some ?fa)"
    by (simp add: analyze_facility_availability_def facility_loop_result [OF sub])
  have dom: "dom ?fa = {n \<in> set (columns df). is_facility_name n}"
  proof -
    have "?fa n \<noteq> None" if n: "n \<in> set (columns df)" "is_facility_name n" for n
    proof -
      from n(1) obtain c where c: "get_col df n = Some c"
        using get_col_in_columns [of df n] by auto
      obtain e where "facility_entry_of df c = Inr e"
        using facility_entry_of_returns [of df c] ..
      with c n show ?thesis by simp
    qed
    then show ?thesis by (auto simp: dom_def)
  qed
  from fk have fg: "is_facility_name (cname girls)" by (simp only: fn)
  from gm have "cname girls \<in> set (columns df)" by (simp add: columns_def)
  with fg have mem: "cname girls \<in> set ?cols" by simp
  from r gm have len: "length (cells girls) = len_df df" by (rule rectangular_cells)
  have cnt: "count_positive (cells girls)
             = card {i. i < len_df df \<and> (\<exists>x. cells girls ! i = Num x \<and> 0 < x)}"
    by (simp only: count_positive_card len)
  have "?fa (cname girls) = Some (Availability (count_positive (cells girls))
            (Fin (if len_df df > 0
                  then of_nat (count_positive (cells girls)) / of_nat (len_df df) * 100 else 0)))"
    using mem gc facility_entry_of_numeric [OF gt, of df] by simp
  then have entry: "?fa (cname girls) = Some (Availability
                (card {i. i < len_df df \<and> (\<exists>x. cells girls ! i = Num x \<and> 0 < x)})
                (Fin (if len_df df > 0
                      then of_nat (card {i. i < len_df df
                                          \<and> (\<exists>x. cells girls ! i = Num x \<and> 0 < x)})
                             / of_nat (len_df df) * 100
                      else 0)))"
    by (simp only: cnt)
  from dom have dom': "dom ?fa = {n \<in> set (columns df).
                         list_ex (\<lambda>keyword. py_in keyword (lower n))
                           [''toilet'', ''water'', ''library'', ''computer'', ''internet'',
                            ''electricity'']}"
    by (simp only: fn)
  from frun dom' entry
  show "\<exists>fa. analyze_facility_availability (Some df) None = Inr (Some fa)
            \<and> dom fa = {n \<in> set (columns df).
                         list_ex (\<lambda>keyword. py_in keyword (lower n))
                           [''toilet'', ''water'', ''library'', ''computer'', ''internet'',
                            ''electricity'']}
            \<and> fa (cname girls) = Some (Availability
                (card {i. i < len_df df \<and> (\<exists>x. cells girls ! i = Num x \<and> 0 < x)})
                (Fin (if len_df df > 0
                      then of_nat (card {i. i < len_df df
                                          \<and> (\<exists>x. cells girls ! i = Num x \<and> 0 < x)})
                             / of_nat (len_df df) * 100
                      else 0)))"
    by (intro exI [where x = ?fa] conjI)
qed

theorem role_selection_independent_witness:
  "distinct (columns roles_ex) \<and> rectangular roles_ex
   \<and> is_girls_name ''Girls_Water'' \<and> is_facility_name ''Girls_Water''
   \<and> (\<exists>m. calculate_enrolment_metrics (Some roles_ex) ''State'' ''District'' None = Inr (Some m)
         \<and> gender_parity_index m = Some (Scalar (Fin (1 / (5 + 1 / 10 ^ 10)))))
   \<and> (\<exists>fa. analyze_facility_availability (Some roles_ex) None = Inr (Some fa)
         \<and> dom fa = {''Girls_Water''}
         \<and> fa ''Girls_Water'' = Some (Availability 1 (Fin 50)))"
proof -
  let ?girls = "\<lparr>cname = ''Girls_Water'', dtype = Int64, cells = [Num 1, Num 0]\<rparr>"
  let ?boys = "\<lparr>cname = ''Boys_Enrolled'', dtype = Int64, cells = [Num 2, Num 3]\<rparr>"
  let ?kw = "[''toilet'', ''water'', ''library'', ''computer'', ''internet'', ''electricity'']"
  have r: "rectangular roles_ex" by (simp add: rectangular_def roles_ex_def len_df_def)
  have gm: "?girls \<in> set roles_ex" and bm: "?boys \<in> set roles_ex"
    by (simp_all add: roles_ex_def)
  have g: "filter (\<lambda>col. py_in ''girl'' (lower col) \<or> py_in ''female'' (lower col))
             (columns roles_ex) = [cname ?girls]"
    by (simp add: columns_def roles_ex_def name_test_defs)
  have b: "filter (\<lambda>col. py_in ''boy'' (lower col) \<or> py_in ''male'' (lower col))
             (columns roles_ex) = [cname ?boys]"
    by (simp add: columns_def roles_ex_def name_test_defs)
  have gb: "cname ?girls \<noteq> cname ?boys" by simp
  have fk: "list_ex (\<lambda>keyword. py_in keyword (lower (cname ?girls))) ?kw"
    by (simp add: name_test_defs)
  have d: "distinct (columns roles_ex)" by (simp add: columns_def roles_ex_def)
  have gt: "dtype ?girls = Int64 \<or> dtype ?girls = Float64" by simp
  have bt: "dtype ?boys = Int64 \<or> dtype ?boys = Float64" by simp
  have ng: "\<forall>w. Str w \<notin> set (cells ?girls)" and nb: "\<forall>w. Str w \<notin> set (cells ?boys)"
    by simp_all
  have rg: "dtype ?girls = Int64 \<longrightarrow>
               - (2 ^ 63) \<le> (\<Sum>c\<leftarrow>cells ?girls. case c of Num x \<Rightarrow> x | _ \<Rightarrow> (0::rat))
               \<and> (\<Sum>c\<leftarrow>cells ?girls. case c of Num x \<Rightarrow> x | _ \<Rightarrow> (0::rat)) < 2 ^ 63"
    by simp
  have rb: "dtype ?boys = Int64 \<longrightarrow>
               - (2 ^ 63) \<le> (\<Sum>c\<leftarrow>cells ?boys. case c of Num x \<Rightarrow> x | _ \<Rightarrow> (0::rat))
               \<and> (\<Sum>c\<leftarrow>cells ?boys. case c of Num x \<Rightarrow> x | _ \<Rightarrow> (0::rat)) < 2 ^ 63"
    by simp
  have nd: "''District'' \<notin> set (columns roles_ex)" by (simp add: columns_def roles_ex_def)
  then have sd: "''District'' \<in> set (columns roles_ex) \<longrightarrow> ''State'' \<in> set (columns roles_ex)"
    by simp
  note th = role_selection_independent [OF d r gm bm g b gb fk gt bt ng nb rg rb sd]
  from conjunct1 [OF th]
  obtain m where run: "calculate_enrolment_metrics (Some roles_ex) ''State'' ''District'' None
                       = Inr (Some m)"
    and fin: "gender_parity_index m
         = Some (Scalar
             (if (\<Sum>c\<leftarrow>cells ?boys. case c of Num x \<Rightarrow> x | _ \<Rightarrow> 0) + 1 / 10 ^ 10 = 0
              then NonFinite
              else Fin ((\<Sum>c\<leftarrow>cells ?girls. case c of Num x \<Rightarrow> x | _ \<Rightarrow> 0)
                        / ((\<Sum>c\<leftarrow>cells ?boys. case c of Num x \<Rightarrow> x | _ \<Rightarrow> 0) + 1 / 10 ^ 10))))"
    by (elim exE conjE)
  from fin have gpi: "gender_parity_index m = Some (Scalar (Fin (1 / (5 + 1 / 10 ^ 10))))"
    by simp
  from run gpi
  have ex1: "\<exists>m. calculate_enrolment_metrics (Some roles_ex) ''State'' ''District'' None
                   = Inr (Some m)
         \<and> gender_parity_index m = Some (Scalar (Fin (1 / (5 + 1 / 10 ^ 10))))"
    by (intro exI [where x = m] conjI)
  from conjunct2 [OF th]
  obtain fa where frun: "analyze_facility_availability (Some roles_ex) None = Inr (Some fa)"
    and dom: "dom fa = {n \<in> set (columns roles_ex).
                         list_ex (\<lambda>keyword. py_in keyword (lower n)) ?kw}"
    and entry: "fa (cname ?girls) = Some (Availability
                (card {i. i < len_df roles_ex \<and> (\<exists>x. cells ?girls ! i = Num x \<and> 0 < x)})
                (Fin (if len_df roles_ex > 0
                      then of_nat (card {i. i < len_df roles_ex
                                          \<and> (\<exists>x. cells ?girls ! i = Num x \<and> 0 < x)})
                             / of_nat (len_df roles_ex) * 100
                      else 0)))"
    by (elim exE conjE)
  have names: "{n \<in> set (columns roles_ex). list_ex (\<lambda>keyword. py_in keyword (lower n)) ?kw}
               = {''Girls_Water''}"
  proof -
    have "filter (\<lambda>n. list_ex (\<lambda>keyword. py_in keyword (lower n)) ?kw) (columns roles_ex)
          = [''Girls_Water'']"
      by (simp add: columns_def roles_ex_def name_test_defs)
    then have "set (filter (\<lambda>n. list_ex (\<lambda>keyword. py_in keyword (lower n)) ?kw)
                      (columns roles_ex)) = {''Girls_Water''}"
      by (simp only: list.set)
    then show ?thesis by (simp only: set_filter)
  qed
  from dom names have dom': "dom fa = {''Girls_Water''}" by (rule trans)
  have l2: "len_df roles_ex = length (cells ?girls)" by (simp add: len_df_def roles_ex_def)
  have "card {i. i < length (cells ?girls) \<and> (\<exists>x. cells ?girls ! i = Num x \<and> 0 < x)}
        = count_positive (cells ?girls)"
    by (rule count_positive_card [symmetric])
  also have "\<dots> = 1" by (simp add: count_positive_def)
  finally have cnt: "card {i. i < len_df roles_ex \<and> (\<exists>x. cells ?girls ! i = Num x \<and> 0 < x)} = 1"
    by (simp only: l2)
  from entry have "fa (cname ?girls) = Some (Availability 1
       (Fin (if len_df roles_ex > 0 then of_nat 1 / of_nat (len_df roles_ex) * 100 else 0)))"
    by (simp only: cnt)
  then have e: "fa ''Girls_Water'' = Some (Availability 1 (Fin 50))"
    by (simp add: len_df_def roles_ex_def)
  from frun dom' e
  have ex2: "\<exists>fa. analyze_facility_availability (Some roles_ex) None = Inr (Some fa)
         \<and> dom fa = {''Girls_Water''}
         \<and> fa ''Girls_Water'' = Some (Availability 1 (Fin 50))"
    by (intro exI [where x = fa] conjI)
  have t1: "is_girls_name ''Girls_Water''" and t2: "is_facility_name ''Girls_Water''"
    by (simp_all add: name_test_defs)
  from d r t1 t2 ex1 ex2 show ?thesis by (intro conjI)
qed

end
